theory Spec2Isabelle
  imports Complex_Main "HOL-Library.Sublist"
begin

section \<open>The skillsight edge worker (worker/src/index.ts)\<close>

text \<open>
  A shallow embedding of the request handler of the worker. Numbers are the integers the
  worker computes with (epoch milliseconds, counts, page numbers, all far below
  \<open>2^53\<close>, where the arithmetic of JavaScript numbers is exact). Strings are lists
  of code units. The built-ins of the platform whose behaviour depends on Unicode tables or
  on a grammar (\<open>JSON.parse\<close>, \<open>Number\<close>, \<open>decodeURIComponent\<close>,
  \<open>toLowerCase\<close>, \<open>trim\<close>, \<open>localeCompare\<close>) are parameters of
  the model, collected in the record \<open>platform\<close>; every theorem holds for each
  choice of them unless it states an assumption.
\<close>

subsection \<open>Data model\<close>

datatype SortMode = Installs | Weekly | Name

datatype json = JNull | JBool bool | JNum int | JStr string | JArr "json list"
  | JObj "(string \<times> json) list"

record SkillListItem =
  sli_id :: string
  sli_skill_id :: string
  sli_owner :: string
  sli_repo :: string
  sli_name :: string
  sli_canonical_url :: string
  sli_total_installs :: "int option"
  sli_weekly_installs :: "int option"
  sli_rank_at_fetch :: "int option"
  sli_description :: "string option"
  sli_platform_installs :: "(string \<times> int option) list option"

record SearchIndexItem =
  sii_id :: string
  sii_skill_id :: string
  sii_owner :: string
  sii_repo :: string
  sii_name :: string
  sii_canonical_url :: string
  sii_total_installs :: "int option"
  sii_weekly_installs :: "int option"
  sii_rank_at_fetch :: "int option"

text \<open>
  A string field that the source tests for truthiness before it uses it
  (\<open>!parsed.snapshot_date\<close>, \<open>!parsed.date\<close>, \<open>!doc.snapshot_date\<close>)
  is the empty string when the document does not have it: both are falsy. \<open>sid_items\<close>
  is \<open>None\<close> when \<open>items\<close> is not an array.
\<close>

record SearchIndexDocument =
  sid_snapshot_date :: string
  sid_items :: "SearchIndexItem list option"

record 'a SearchResponse =
  sr_items :: "'a list"
  sr_page :: int
  sr_page_size :: int
  sr_total :: int
  sr_snapshot_date :: string

record ManifestCounts =
  mc_total_skills :: "int option"
  mc_total_repos :: "int option"

record LatestManifest =
  lm_snapshot_date :: string
  lm_page_size :: "int option"
  lm_counts :: "ManifestCounts option"

record SkillPathParts =
  spp_id :: string
  spp_owner :: string
  spp_repo :: string
  spp_skillId :: string

record SnapshotLatestManifest =
  slm_date :: string

record SnapshotStatsSummary =
  sss_total_skills :: "int option"
  sss_total_repos :: "int option"
  sss_snapshot_date :: string

record SnapshotSkillsManifest =
  ssm_snapshot_date :: string
  ssm_total_skills :: "int option"
  ssm_page_size :: "int option"
  ssm_page_count :: int

record SnapshotSkillPageItem =
  spi_source :: string
  spi_skillId :: string
  spi_name :: string
  spi_installs :: "int option"

record SnapshotSkillLookup =
  lk_page :: int
  lk_index :: int

text \<open>
  The \<open>entries\<close> object is kept as the list of its own properties in the order
  \<open>Object.entries\<close> enumerates them (compound ids are never array indices, so this
  is the order of the document).
\<close>

record SnapshotSkillLookupDocument =
  sld_snapshot_date :: string
  sld_total_entries :: int
  sld_entries :: "(string \<times> SnapshotSkillLookup) list"

record RateLimitState =
  windowStartMs :: int
  count :: int

record ParsedCache =
  pc_key :: string
  pc_loadedAtMs :: int
  pc_doc :: SearchIndexDocument

record CachedManifest =
  cm_loadedAtMs :: int
  cm_manifest :: LatestManifest

subsection \<open>The platform\<close>

text \<open>
  \<open>JSON.parse\<close> is read at the type the source casts its result to
  (\<open>parseJson<T>\<close>): one reading per document type, \<open>None\<close> when
  \<open>JSON.parse\<close> throws. \<open>Number\<close> is \<open>None\<close> for a
  result that is not finite; \<open>decodeURIComponent\<close> is \<open>None\<close> when
  it throws.
\<close>

record platform =
  parse_LatestManifest :: "string \<Rightarrow> LatestManifest option"
  parse_SnapshotLatestManifest :: "string \<Rightarrow> SnapshotLatestManifest option"
  parse_SnapshotSkillsManifest :: "string \<Rightarrow> SnapshotSkillsManifest option"
  parse_SnapshotStatsSummary :: "string \<Rightarrow> SnapshotStatsSummary option"
  parse_SnapshotSkillPage :: "string \<Rightarrow> SnapshotSkillPageItem list option"
  parse_SnapshotSkillLookupDocument :: "string \<Rightarrow> SnapshotSkillLookupDocument option"
  parse_SearchIndexDocument :: "string \<Rightarrow> SearchIndexDocument option"
  parse_Record :: "string \<Rightarrow> (string \<times> json) list option"
  Number :: "string \<Rightarrow> real option"
  decodeURIComponent :: "string \<Rightarrow> string option"
  toLowerCase :: "string \<Rightarrow> string"
  trim :: "string \<Rightarrow> string"
  localeCompare :: "string \<Rightarrow> string \<Rightarrow> int"

subsection \<open>Requests, responses and the state of one worker instance\<close>

text \<open>
  Of a request the worker reads the method, the URL (its origin, its path and its query
  parameters) and the header \<open>CF-Connecting-IP\<close>. \<open>req_resolve\<close> is what
  the URL parser of the platform makes of a path resolved against the URL of the request,
  \<open>new URL(path, request.url).toString()\<close>.
\<close>

record request =
  req_method :: string
  req_origin :: string
  req_pathname :: string
  req_searchParams :: "(string \<times> string) list"
  req_client_ip :: "string option"
  req_resolve :: "string \<Rightarrow> string"

text \<open>
  The bodies the worker serialises with \<open>JSON.stringify\<close>, one constructor per
  object literal of the source.
\<close>

record SkillRecord =
  rec_id :: string
  rec_skill_id :: string
  rec_owner :: string
  rec_repo :: string
  rec_canonical_url :: string
  rec_total_installs :: "int option"
  rec_name :: string
  rec_github_url :: string
  rec_run_id :: string
  rec_fetched_at :: string
  rec_rank_at_fetch :: int
  rec_parser_version :: string

record MetricsItem =
  mi_id :: string
  mi_snapshot_date :: string
  mi_total_installs :: "int option"

record LatestSynth =
  ls_snapshot_date :: string
  ls_generated_at :: string
  ls_page_size :: int
  ls_total_skills :: int
  ls_total_repos :: int

record LeaderboardSynth =
  lb_snapshot_date :: string
  lb_sort :: string
  lb_page :: int
  lb_page_size :: int
  lb_total :: int
  lb_items :: "SkillListItem list"

record SkillsSynth =
  sk_items :: "SkillListItem list"
  sk_skills :: "SnapshotSkillPageItem list"
  sk_page :: int
  sk_page_size :: int
  sk_total :: int
  sk_snapshot_date :: string
  sk_sort :: SortMode

datatype payload =
    ErrorBody string
  | TooManyRequests int
  | Health bool "string option"
  | Document "(string \<times> json) list"
  | Summary SnapshotStatsSummary
  | SummarySynth "int option" int string
  | Latest LatestSynth
  | Leaderboard LeaderboardSynth
  | SkillsPage SkillsSynth
  | SkillsIndexed "SearchIndexItem SearchResponse" SortMode
  | SearchIndexed "SearchIndexItem SearchResponse"
  | SearchFallback "SkillListItem SearchResponse"
  | Skill SkillRecord
  | Metrics string "MetricsItem list"

datatype body = NoBody | Text string | Json payload

record response =
  status :: int
  headers :: "(string \<times> string) list"
  body :: body

text \<open>
  Every read of the edge cache and of the bucket is recorded in \<open>accesses\<close>, a
  ghost field: the worker does not have it, the model uses it to state which storage a
  request touched.
\<close>

datatype access = CacheMatch string | BucketGet string | CachePut string

record world =
  rateLimitByClient :: "string \<Rightarrow> RateLimitState option"
  lastRateLimitSweepMs :: int
  parsedSearchCache :: "ParsedCache option"
  cachedLatestManifest :: "CachedManifest option"
  edge_cache :: "string \<Rightarrow> string option"
  accesses :: "access list"

record Env =
  SKILLSIGHT_DATA :: "(string \<Rightarrow> string option) option"

text \<open>The readings of \<open>Date.now()\<close>, one per call site a request can reach.\<close>

record clock =
  now_rate :: int
  now_manifest :: int
  now_index :: int
  now_iso :: string

datatype exn = Error string

type_synonym 'a io = "world \<Rightarrow> (exn + 'a) \<times> world"

definition io_return :: "'a \<Rightarrow> 'a io" where
  "io_return x w = (Inr x, w)"

definition io_throw :: "exn \<Rightarrow> 'a io" where
  "io_throw e w = (Inl e, w)"

definition io_bind :: "'a io \<Rightarrow> ('a \<Rightarrow> 'b io) \<Rightarrow> 'b io" where
  "io_bind m f w = (case m w of (Inl e, w') \<Rightarrow> (Inl e, w') | (Inr x, w') \<Rightarrow> f x w')"

subsection \<open>Constants and small helpers\<close>

definition DATA_PREFIX :: string where "DATA_PREFIX = ''data/v1''"
definition SNAPSHOTS_PREFIX :: string where "SNAPSHOTS_PREFIX = ''snapshots''"
definition LATEST_MANIFEST_KEY :: string where "LATEST_MANIFEST_KEY = DATA_PREFIX @ ''/latest.json''"
definition LATEST_SNAPSHOT_KEY :: string where "LATEST_SNAPSHOT_KEY = SNAPSHOTS_PREFIX @ ''/latest.json''"

definition RATE_LIMIT_WINDOW_MS :: int where "RATE_LIMIT_WINDOW_MS = 60000"
definition RATE_LIMIT_MAX_REQUESTS :: int where "RATE_LIMIT_MAX_REQUESTS = 60"
definition IN_MEMORY_CACHE_TTL_MS :: int where "IN_MEMORY_CACHE_TTL_MS = 60000"

definition CORS_HEADERS :: "(string \<times> string) list" where
  "CORS_HEADERS =
     [(''Access-Control-Allow-Origin'', ''*''),
      (''Access-Control-Allow-Methods'', ''GET, OPTIONS''),
      (''Access-Control-Allow-Headers'', ''Content-Type'')]"

text \<open>\<open>String(n)\<close> for an integer: its decimal digits, with a sign.\<close>

fun digits_of :: "nat \<Rightarrow> string" where
  "digits_of n = (if n < 10 then [char_of (48 + n)] else digits_of (n div 10) @ [char_of (48 + n mod 10)])"

declare digits_of.simps [simp del]

definition String_of :: "int \<Rightarrow> string" where
  "String_of n = (if n < 0 then CHR ''-'' # digits_of (nat (- n)) else digits_of (nat n))"

text \<open>\<open>s.padStart(4, "0")\<close>\<close>

definition padStart4 :: "string \<Rightarrow> string" where
  "padStart4 s = replicate (4 - length s) CHR ''0'' @ s"

text \<open>\<open>Math.ceil(x / 1000)\<close>\<close>

definition ceil_div_1000 :: "int \<Rightarrow> int" where
  "ceil_div_1000 x = \<lceil>real_of_int x / 1000\<rceil>"

text \<open>
  An object spread \<open>{...a, ...b}\<close> on string keys: a key of \<open>b\<close> that
  \<open>a\<close> has keeps its place and takes the new value, a new key goes last.
\<close>

fun set_header :: "string \<Rightarrow> string \<Rightarrow> (string \<times> string) list \<Rightarrow> (string \<times> string) list" where
  "set_header k v [] = [(k, v)]"
| "set_header k v ((k', v') # hs) = (if k = k' then (k, v) # hs else (k', v') # set_header k v hs)"

definition spread :: "(string \<times> string) list \<Rightarrow> (string \<times> string) list \<Rightarrow> (string \<times> string) list" where
  "spread a b = foldl (\<lambda>hs (k, v). set_header k v hs) a b"

text \<open>
  \<open>json(data, opts)\<close>. The keys the source passes are literals, so the comparison
  of the lower-cased keys with \<open>cache-control\<close> is the comparison of the keys.
\<close>

definition json :: "payload \<Rightarrow> int \<Rightarrow> (string \<times> string) list \<Rightarrow> response" where
  "json data st extra =
     (let hs = spread (spread [(''content-type'', ''application/json; charset=utf-8''),
                               (''X-Content-Type-Options'', ''nosniff'')] CORS_HEADERS) extra;
          hs' = (if 200 \<le> st \<and> st < 300 \<and> ''cache-control'' \<notin> fst ` set hs
                 then hs @ [(''cache-control'', ''public, max-age=60, s-maxage=60'')] else hs)
      in \<lparr>status = st, headers = hs', body = Json data\<rparr>)"

subsection \<open>RateLimiter\<close>

definition getRateLimitClientId :: "platform \<Rightarrow> request \<Rightarrow> string" where
  "getRateLimitClientId P request =
     (case req_client_ip request of
        None \<Rightarrow> ''unknown-client''
      | Some ip \<Rightarrow> (let clientIp = trim P ip in if length clientIp > 0 then clientIp else ''unknown-client''))"

definition sweepExpiredRateLimitEntries :: "int \<Rightarrow> world \<Rightarrow> world" where
  "sweepExpiredRateLimitEntries nowMs w =
     (if nowMs - lastRateLimitSweepMs w < RATE_LIMIT_WINDOW_MS then w
      else w\<lparr>lastRateLimitSweepMs := nowMs,
             rateLimitByClient := (\<lambda>clientId.
               case rateLimitByClient w clientId of
                 None \<Rightarrow> None
               | Some state \<Rightarrow>
                   if nowMs - windowStartMs state \<ge> RATE_LIMIT_WINDOW_MS then None else Some state)\<rparr>)"

definition rateLimitHeaders :: "int \<Rightarrow> int \<Rightarrow> int \<Rightarrow> (string \<times> string) list" where
  "rateLimitHeaders limit remaining resetEpochSeconds =
     [(''X-RateLimit-Limit'', String_of limit),
      (''X-RateLimit-Remaining'', String_of (max 0 remaining)),
      (''X-RateLimit-Reset'', String_of resetEpochSeconds)]"

record RateLimitResult =
  blocked :: "response option"
  rl_headers :: "(string \<times> string) list"

definition enforceRateLimit :: "platform \<Rightarrow> int \<Rightarrow> request \<Rightarrow> world \<Rightarrow> RateLimitResult \<times> world" where
  "enforceRateLimit P nowMs request w0 =
     (let w = sweepExpiredRateLimitEntries nowMs w0;
          clientId = getRateLimitClientId P request;
          fresh = (let next = \<lparr>windowStartMs = nowMs, count = 1\<rparr>;
                       resetEpochSeconds = ceil_div_1000 (windowStartMs next + RATE_LIMIT_WINDOW_MS)
                   in (\<lparr>blocked = None,
                        rl_headers = rateLimitHeaders RATE_LIMIT_MAX_REQUESTS
                                       (RATE_LIMIT_MAX_REQUESTS - count next) resetEpochSeconds\<rparr>,
                       w\<lparr>rateLimitByClient := (rateLimitByClient w)(clientId \<mapsto> next)\<rparr>))
      in case rateLimitByClient w clientId of
           None \<Rightarrow> fresh
         | Some current \<Rightarrow>
             if nowMs - windowStartMs current \<ge> RATE_LIMIT_WINDOW_MS then fresh
             else if count current \<ge> RATE_LIMIT_MAX_REQUESTS then
               (let retryAfterSeconds =
                      max 1 (ceil_div_1000 (windowStartMs current + RATE_LIMIT_WINDOW_MS - nowMs));
                    resetEpochSeconds = ceil_div_1000 (windowStartMs current + RATE_LIMIT_WINDOW_MS)
                in (\<lparr>blocked = Some (json (TooManyRequests retryAfterSeconds) 429
                        (spread [(''Retry-After'', String_of retryAfterSeconds)]
                           (rateLimitHeaders RATE_LIMIT_MAX_REQUESTS 0 resetEpochSeconds))),
                     rl_headers = []\<rparr>, w))
             else
               (let current' = current\<lparr>count := count current + 1\<rparr>;
                    resetEpochSeconds = ceil_div_1000 (windowStartMs current' + RATE_LIMIT_WINDOW_MS)
                in (\<lparr>blocked = None,
                     rl_headers = rateLimitHeaders RATE_LIMIT_MAX_REQUESTS
                                    (RATE_LIMIT_MAX_REQUESTS - count current') resetEpochSeconds\<rparr>,
                    w\<lparr>rateLimitByClient := (rateLimitByClient w)(clientId \<mapsto> current')\<rparr>)))"

text \<open>
  A run of the limiter over a sequence of requests, each with the reading of
  \<open>Date.now()\<close> it is served at: for every request the client, whether it was
  admitted, and the start of the client's window after it.
\<close>

fun serve :: "platform \<Rightarrow> (int \<times> request) list \<Rightarrow> world \<Rightarrow> (string \<times> bool \<times> int option) list" where
  "serve P [] w = []"
| "serve P ((nowMs, r) # rs) w =
     (let res = enforceRateLimit P nowMs r w; c = getRateLimitClientId P r
      in (c, blocked (fst res) = None, map_option windowStartMs (rateLimitByClient (snd res) c))
           # serve P rs (snd res))"

definition admitted_in_window :: "string \<Rightarrow> int \<Rightarrow> (string \<times> bool \<times> int option) list \<Rightarrow> nat" where
  "admitted_in_window c start served =
     length (filter (\<lambda>(c', ok, ws). c' = c \<and> ok \<and> ws = Some start) served)"

text \<open>
  What a client may still be granted in the window that starts at \<open>start\<close>, given its
  entry and a lower bound \<open>t\<close> on the time of the requests to come.
\<close>

definition window_budget :: "RateLimitState option \<Rightarrow> int \<Rightarrow> int \<Rightarrow> int" where
  "window_budget e t start =
     (case e of
        None \<Rightarrow> if start \<ge> t then 60 else 0
      | Some s \<Rightarrow>
          if start = windowStartMs s then 60 - count s
          else if start \<ge> windowStartMs s + 60000 \<and> start \<ge> t then 60 else 0)"

definition count_ok :: "RateLimitState option \<Rightarrow> bool" where
  "count_ok e = (case e of None \<Rightarrow> True | Some s \<Rightarrow> count s \<le> 60)"

subsection \<open>Strings, arrays and keys\<close>

definition orElse :: "'a option \<Rightarrow> 'a \<Rightarrow> 'a" where
  "orElse x d = (case x of None \<Rightarrow> d | Some v \<Rightarrow> v)"

text \<open>\<open>a ?? b\<close> where \<open>b\<close> may be missing too, and \<open>x?.f\<close>.\<close>

definition nullish :: "'a option \<Rightarrow> 'a option \<Rightarrow> 'a option" where
  "nullish x y = (case x of None \<Rightarrow> y | Some v \<Rightarrow> Some v)"

definition field_of :: "'a option \<Rightarrow> ('a \<Rightarrow> 'b option) \<Rightarrow> 'b option" where
  "field_of x f = (case x of None \<Rightarrow> None | Some v \<Rightarrow> f v)"

definition is_digit :: "char \<Rightarrow> bool" where
  "is_digit ch = (48 \<le> (of_char ch :: nat) \<and> (of_char ch :: nat) \<le> 57)"

definition number_of_digits :: "string \<Rightarrow> int" where
  "number_of_digits s = foldl (\<lambda>n ch. 10 * n + (int (of_char ch) - 48)) 0 s"

definition startsWith :: "string \<Rightarrow> string \<Rightarrow> bool" where
  "startsWith s p = (take (length p) s = p)"

definition endsWith :: "string \<Rightarrow> string \<Rightarrow> bool" where
  "endsWith s p = (length p \<le> length s \<and> drop (length s - length p) s = p)"

definition String_includes :: "string \<Rightarrow> string \<Rightarrow> bool" where
  "String_includes s q = list_ex (\<lambda>t. take (length q) t = q) (suffixes s)"

definition strip_prefix :: "string \<Rightarrow> string \<Rightarrow> string option" where
  "strip_prefix p s = (if startsWith s p then Some (drop (length p) s) else None)"

text \<open>\<open>s.split("/")\<close> and \<open>parts.join("/")\<close>\<close>

fun split_on :: "char \<Rightarrow> string \<Rightarrow> string list" where
  "split_on c [] = [[]]"
| "split_on c (x # xs) =
     (if x = c then [] # split_on c xs
      else (case split_on c xs of [] \<Rightarrow> [[x]] | p # ps \<Rightarrow> (x # p) # ps))"

fun join_with :: "char \<Rightarrow> string list \<Rightarrow> string" where
  "join_with c [] = []"
| "join_with c [p] = p"
| "join_with c (p # q # ps) = p @ c # join_with c (q # ps)"

text \<open>\<open>xs[i]\<close>: \<open>undefined\<close> (here \<open>None\<close>) outside the array.\<close>

definition at_index :: "'a list \<Rightarrow> int \<Rightarrow> 'a option" where
  "at_index xs i = (if 0 \<le> i \<and> nat i < length xs then Some (xs ! nat i) else None)"

text \<open>\<open>xs.slice(start, end)\<close>, a negative index counting from the end.\<close>

definition slice :: "'a list \<Rightarrow> int \<Rightarrow> int \<Rightarrow> 'a list" where
  "slice xs start end' =
     (let len = int (length xs);
          k = (if start < 0 then max (len + start) 0 else min start len);
          final = (if end' < 0 then max (len + end') 0 else min end' len)
      in take (nat (final - k)) (drop (nat k) xs))"

text \<open>
  \<open>Array.prototype.sort\<close> is stable, and with a consistent comparator its result
  is the one ordering of the elements that the comparator and stability allow: a stable
  insertion sort computes it.
\<close>

fun insert_by :: "('a \<Rightarrow> 'a \<Rightarrow> int) \<Rightarrow> 'a \<Rightarrow> 'a list \<Rightarrow> 'a list" where
  "insert_by cmp x [] = [x]"
| "insert_by cmp x (y # ys) = (if cmp x y \<le> 0 then x # y # ys else y # insert_by cmp x ys)"

definition Array_sort :: "('a \<Rightarrow> 'a \<Rightarrow> int) \<Rightarrow> 'a list \<Rightarrow> 'a list" where
  "Array_sort cmp xs = foldr (insert_by cmp) xs []"

definition sort_name :: "SortMode \<Rightarrow> string" where
  "sort_name m = (case m of Installs \<Rightarrow> ''installs'' | Weekly \<Rightarrow> ''weekly'' | Name \<Rightarrow> ''name'')"

text \<open>The type guard \<open>isSortMode\<close>, returning the mode it recognises.\<close>

definition isSortMode :: "string \<Rightarrow> SortMode option" where
  "isSortMode v =
     (if v = ''installs'' then Some Installs
      else if v = ''weekly'' then Some Weekly
      else if v = ''name'' then Some Name else None)"

text \<open>\<open>DATE_RE = /^\d{4}-\d{2}-\d{2}$/\<close>\<close>

definition DATE_RE :: "string \<Rightarrow> bool" where
  "DATE_RE v =
     (length v = 10 \<and> list_all is_digit (take 4 v) \<and> v ! 4 = CHR ''-'' \<and>
      list_all is_digit (take 2 (drop 5 v)) \<and> v ! 7 = CHR ''-'' \<and>
      list_all is_digit (drop 8 v))"

definition days_in_month :: "int \<Rightarrow> int \<Rightarrow> int" where
  "days_in_month y m =
     (if m = 2 then (if (y mod 4 = 0 \<and> y mod 100 \<noteq> 0) \<or> y mod 400 = 0 then 29 else 28)
      else if m = 4 \<or> m = 6 \<or> m = 9 \<or> m = 11 then 30 else 31)"

text \<open>
  \<open>isDateString\<close> builds \<open>Date.UTC(y, m - 1, d)\<close> and compares the year, month
  and day it reads back. \<open>Date.UTC\<close> moves an out-of-range month or day into
  another month, and reads a year from 0 to 99 as 1900 + y, so the three comparisons hold
  exactly for a day of the calendar in a year from 100 on.
\<close>

definition isDateString :: "string \<Rightarrow> bool" where
  "isDateString v =
     (if \<not> DATE_RE v then False
      else (let y = number_of_digits (take 4 v);
                m = number_of_digits (take 2 (drop 5 v));
                d = number_of_digits (drop 8 v)
            in 100 \<le> y \<and> 1 \<le> m \<and> m \<le> 12 \<and> 1 \<le> d \<and> d \<le> days_in_month y m))"

text \<open>\<open>Number(null)\<close> is 0.\<close>

definition parsePositiveInt :: "platform \<Rightarrow> string option \<Rightarrow> int \<Rightarrow> int" where
  "parsePositiveInt P v fallback =
     (case (case v of None \<Rightarrow> Some 0 | Some s \<Rightarrow> Number P s) of
        None \<Rightarrow> fallback
      | Some num \<Rightarrow> \<lfloor>num\<rfloor>)"

definition sortItems :: "platform \<Rightarrow> SearchIndexItem list \<Rightarrow> SortMode \<Rightarrow> SearchIndexItem list" where
  "sortItems P items sortMode =
     (if sortMode = Name then Array_sort (\<lambda>a b. localeCompare P (sii_name a) (sii_name b)) items
      else if sortMode = Weekly then
        Array_sort (\<lambda>a b. orElse (sii_weekly_installs b) 0 - orElse (sii_weekly_installs a) 0) items
      else Array_sort (\<lambda>a b. orElse (sii_total_installs b) 0 - orElse (sii_total_installs a) 0) items)"

definition parseSource :: "string \<Rightarrow> string \<times> string" where
  "parseSource source =
     (case split_on CHR ''/'' source of
        [] \<Rightarrow> (source, source)
      | owner # rest \<Rightarrow> if owner = [] \<or> length rest = 0 then (source, source)
                        else (owner, join_with CHR ''/'' rest))"

definition snapshotItemToSkillListItem :: "SnapshotSkillPageItem \<Rightarrow> int \<Rightarrow> SkillListItem" where
  "snapshotItemToSkillListItem item rank =
     (let (owner, repo) = parseSource (spi_source item)
      in \<lparr>sli_id = spi_source item @ ''/'' @ spi_skillId item,
          sli_skill_id = spi_skillId item,
          sli_owner = owner,
          sli_repo = repo,
          sli_name = spi_name item,
          sli_canonical_url = ''https://skills.sh/'' @ spi_source item @ ''/'' @ spi_skillId item,
          sli_total_installs = spi_installs item,
          sli_weekly_installs = None,
          sli_rank_at_fetch = Some rank,
          sli_description = None,
          sli_platform_installs = None\<rparr>)"

definition SEARCH_INDEX_KEY :: "string \<Rightarrow> string" where
  "SEARCH_INDEX_KEY snapshotDate = DATA_PREFIX @ ''/snapshots/'' @ snapshotDate @ ''/search/slim-index.json''"

definition STATS_SUMMARY_KEY :: "string \<Rightarrow> string" where
  "STATS_SUMMARY_KEY snapshotDate = DATA_PREFIX @ ''/snapshots/'' @ snapshotDate @ ''/stats/summary.json''"

definition LEADERBOARD_PAGE_KEY :: "string \<Rightarrow> SortMode \<Rightarrow> int \<Rightarrow> string" where
  "LEADERBOARD_PAGE_KEY snapshotDate sortMode pg =
     DATA_PREFIX @ ''/snapshots/'' @ snapshotDate @ ''/leaderboard/'' @ sort_name sortMode @ ''/page-''
       @ padStart4 (String_of pg) @ ''.json''"

definition SKILL_DETAIL_KEY :: "string \<Rightarrow> string \<Rightarrow> string \<Rightarrow> string \<Rightarrow> string" where
  "SKILL_DETAIL_KEY snapshotDate owner repo skillId =
     DATA_PREFIX @ ''/snapshots/'' @ snapshotDate @ ''/skills/by-id/'' @ owner @ ''/'' @ repo @ ''/''
       @ skillId @ ''.json''"

definition METRICS_KEY :: "string \<Rightarrow> string \<Rightarrow> string \<Rightarrow> string \<Rightarrow> string" where
  "METRICS_KEY snapshotDate owner repo skillId =
     DATA_PREFIX @ ''/snapshots/'' @ snapshotDate @ ''/metrics/by-id/'' @ owner @ ''/'' @ repo @ ''/''
       @ skillId @ ''.json''"

definition SNAPSHOT_STATS_SUMMARY_KEY :: "string \<Rightarrow> string" where
  "SNAPSHOT_STATS_SUMMARY_KEY snapshotDate = SNAPSHOTS_PREFIX @ ''/'' @ snapshotDate @ ''/stats_summary.json''"

definition SNAPSHOT_SKILLS_MANIFEST_KEY :: "string \<Rightarrow> string" where
  "SNAPSHOT_SKILLS_MANIFEST_KEY snapshotDate = SNAPSHOTS_PREFIX @ ''/'' @ snapshotDate @ ''/skills_manifest.json''"

definition SNAPSHOT_SKILLS_PAGE_KEY :: "string \<Rightarrow> int \<Rightarrow> string" where
  "SNAPSHOT_SKILLS_PAGE_KEY snapshotDate pg =
     SNAPSHOTS_PREFIX @ ''/'' @ snapshotDate @ ''/skills_pages/page-'' @ padStart4 (String_of pg) @ ''.json''"

definition SNAPSHOT_SKILL_LOOKUP_KEY :: "string \<Rightarrow> string" where
  "SNAPSHOT_SKILL_LOOKUP_KEY snapshotDate = SNAPSHOTS_PREFIX @ ''/'' @ snapshotDate @ ''/skill_lookup.json''"

text \<open>
  The comparator that \<open>sortItems\<close> passes to \<open>sort\<close> in each mode, and what
  ECMAScript asks of \<open>localeCompare\<close>: a consistent comparator, whose sign is
  antisymmetric and whose order is transitive.
\<close>

definition sort_comparator :: "platform \<Rightarrow> SortMode \<Rightarrow> SearchIndexItem \<Rightarrow> SearchIndexItem \<Rightarrow> int" where
  "sort_comparator P sortMode a b =
     (if sortMode = Name then localeCompare P (sii_name a) (sii_name b)
      else if sortMode = Weekly then orElse (sii_weekly_installs b) 0 - orElse (sii_weekly_installs a) 0
      else orElse (sii_total_installs b) 0 - orElse (sii_total_installs a) 0)"

definition consistent_comparator :: "('a \<Rightarrow> 'a \<Rightarrow> int) \<Rightarrow> bool" where
  "consistent_comparator cmp =
     ((\<forall>a b. (cmp a b < 0) = (cmp b a > 0))
      \<and> (\<forall>a b c. cmp a b \<le> 0 \<and> cmp b c \<le> 0 \<longrightarrow> cmp a c \<le> 0))"

subsection \<open>CacheTier\<close>

text \<open>
  \<open>new URL(`/cache/${suffix}`, request.url).toString()\<close>. The URL parser leaves a
  path of ASCII letters, digits, \<open>-\<close>, \<open>_\<close> and \<open>/\<close> as it is,
  and the URL is then the origin of the request followed by the path. Any other path (dot
  segments, \<open>?\<close>, \<open>#\<close>, characters that are escaped) goes through the
  parser of the platform, and two suffixes may then give one cache key.
\<close>

definition url_plain_char :: "char \<Rightarrow> bool" where
  "url_plain_char ch =
     (let n = (of_char ch :: nat)
      in (48 \<le> n \<and> n \<le> 57) \<or> (65 \<le> n \<and> n \<le> 90) \<or> (97 \<le> n \<and> n \<le> 122)
         \<or> ch = CHR ''-'' \<or> ch = CHR ''_'' \<or> ch = CHR ''/'')"

definition cacheRequest :: "request \<Rightarrow> string \<Rightarrow> string" where
  "cacheRequest request sfx =
     (if list_all url_plain_char (''/cache/'' @ sfx) then req_origin request @ ''/cache/'' @ sfx
      else req_resolve request (''/cache/'' @ sfx))"

definition record_access :: "access \<Rightarrow> world \<Rightarrow> world" where
  "record_access a w = w\<lparr>accesses := accesses w @ [a]\<rparr>"

definition loadJsonTextWithCache :: "Env \<Rightarrow> string \<Rightarrow> request \<Rightarrow> string \<Rightarrow> string option io" where
  "loadJsonTextWithCache env key request cacheSuffix w =
     (case SKILLSIGHT_DATA env of
        None \<Rightarrow> (Inr None, w)
      | Some bucket \<Rightarrow>
          (let cacheKey = cacheRequest request cacheSuffix;
               w1 = record_access (CacheMatch cacheKey) w
           in case edge_cache w1 cacheKey of
                Some cached \<Rightarrow> (Inr (Some cached), w1)
              | None \<Rightarrow>
                  (let w2 = record_access (BucketGet key) w1
                   in case bucket key of
                        None \<Rightarrow> (Inr None, w2)
                      | Some text \<Rightarrow>
                          (Inr (Some text),
                           record_access (CachePut cacheKey)
                             (w2\<lparr>edge_cache := (edge_cache w2)(cacheKey \<mapsto> text)\<rparr>)))))"

text \<open>
  What a load by key sees: the entry of the edge cache when there is one, the object of the
  bucket otherwise, nothing without a bucket binding.
\<close>

definition visible_text :: "Env \<Rightarrow> request \<Rightarrow> world \<Rightarrow> string \<Rightarrow> string \<Rightarrow> string option" where
  "visible_text env request w key cacheSuffix =
     (case SKILLSIGHT_DATA env of
        None \<Rightarrow> None
      | Some bucket \<Rightarrow>
          (case edge_cache w (cacheRequest request cacheSuffix) of
             Some cached \<Rightarrow> Some cached
           | None \<Rightarrow> bucket key))"

definition parseJson :: "(string \<Rightarrow> 'a option) \<Rightarrow> string \<Rightarrow> string \<Rightarrow> exn + 'a" where
  "parseJson JSON_parse text label =
     (case JSON_parse text of
        Some v \<Rightarrow> Inr v
      | None \<Rightarrow> Inl (Error (''Invalid JSON in '' @ label)))"

definition io_of :: "exn + 'a \<Rightarrow> 'a io" where
  "io_of r = (case r of Inl e \<Rightarrow> io_throw e | Inr v \<Rightarrow> io_return v)"

text \<open>\<open>!text\<close> holds for \<open>null\<close> and for the empty string.\<close>

definition truthy :: "string option \<Rightarrow> bool" where
  "truthy text = (case text of None \<Rightarrow> False | Some t \<Rightarrow> t \<noteq> [])"

definition loadJsonObjectWithCache ::
  "(string \<Rightarrow> 'a option) \<Rightarrow> Env \<Rightarrow> string \<Rightarrow> request \<Rightarrow> string \<Rightarrow> 'a option io" where
  "loadJsonObjectWithCache JSON_parse env key request cacheSuffix =
     io_bind (loadJsonTextWithCache env key request cacheSuffix) (\<lambda>text.
       if \<not> truthy text then io_return None
       else io_bind (io_of (parseJson JSON_parse (orElse text []) key)) (\<lambda>v. io_return (Some v)))"

definition loadSnapshotSkillsManifest ::
  "platform \<Rightarrow> Env \<Rightarrow> string \<Rightarrow> request \<Rightarrow> SnapshotSkillsManifest option io" where
  "loadSnapshotSkillsManifest P env snapshotDate request =
     loadJsonObjectWithCache (parse_SnapshotSkillsManifest P) env
       (SNAPSHOT_SKILLS_MANIFEST_KEY snapshotDate) request
       (''snapshot-skills-manifest/'' @ snapshotDate)"

definition loadSnapshotSummary ::
  "platform \<Rightarrow> Env \<Rightarrow> string \<Rightarrow> request \<Rightarrow> SnapshotStatsSummary option io" where
  "loadSnapshotSummary P env snapshotDate request =
     loadJsonObjectWithCache (parse_SnapshotStatsSummary P) env
       (SNAPSHOT_STATS_SUMMARY_KEY snapshotDate) request
       (''snapshot-summary/'' @ snapshotDate)"

definition loadSnapshotSkillsPage ::
  "platform \<Rightarrow> Env \<Rightarrow> string \<Rightarrow> int \<Rightarrow> request \<Rightarrow> SnapshotSkillPageItem list option io" where
  "loadSnapshotSkillsPage P env snapshotDate pg request =
     loadJsonObjectWithCache (parse_SnapshotSkillPage P) env
       (SNAPSHOT_SKILLS_PAGE_KEY snapshotDate pg) request
       (''snapshot-skills-page/'' @ snapshotDate @ ''/'' @ String_of pg)"

definition loadSnapshotSkillLookup ::
  "platform \<Rightarrow> Env \<Rightarrow> string \<Rightarrow> request \<Rightarrow> SnapshotSkillLookupDocument option io" where
  "loadSnapshotSkillLookup P env snapshotDate request =
     loadJsonObjectWithCache (parse_SnapshotSkillLookupDocument P) env
       (SNAPSHOT_SKILL_LOOKUP_KEY snapshotDate) request
       (''snapshot-skill-lookup/'' @ snapshotDate)"

subsection \<open>FallbackSynthesizer\<close>

definition parseSkillPath :: "platform \<Rightarrow> string \<Rightarrow> string \<Rightarrow> SkillPathParts option" where
  "parseSkillPath P pathname pfx =
     (if \<not> startsWith pathname pfx then None
      else (let encoded = drop (length pfx) pathname
            in if encoded = [] then None
               else (case decodeURIComponent P encoded of
                       None \<Rightarrow> None
                     | Some decoded \<Rightarrow>
                         (case split_on CHR ''/'' decoded of
                            [owner, repo, skillId] \<Rightarrow>
                              if owner = [] \<or> repo = [] \<or> skillId = [] then None
                              else Some \<lparr>spp_id = decoded, spp_owner = owner, spp_repo = repo,
                                         spp_skillId = skillId\<rparr>
                          | _ \<Rightarrow> None))))"

text \<open>\<open>snapshotManifest?.page_size ?? 200\<close>\<close>

definition manifest_page_size :: "SnapshotSkillsManifest option \<Rightarrow> int" where
  "manifest_page_size snapshotManifest =
     (case snapshotManifest of None \<Rightarrow> 200 | Some m \<Rightarrow> orElse (ssm_page_size m) 200)"

definition buildSnapshotSkillRecord ::
  "platform \<Rightarrow> Env \<Rightarrow> string \<Rightarrow> string \<Rightarrow> request \<Rightarrow> SkillRecord option io" where
  "buildSnapshotSkillRecord P env snapshotDate skillId request =
     (case split_on CHR ''/'' skillId of
        [owner, repo, leafSkillId] \<Rightarrow>
          if owner = [] \<or> repo = [] \<or> leafSkillId = [] then io_return None
          else
            io_bind (loadSnapshotSkillLookup P env snapshotDate request) (\<lambda>lookup.
              case (case lookup of None \<Rightarrow> None | Some l \<Rightarrow> map_of (sld_entries l) skillId) of
                None \<Rightarrow> io_return None
              | Some entry \<Rightarrow>
                  io_bind (loadSnapshotSkillsPage P env snapshotDate (lk_page entry) request) (\<lambda>pg.
                    case (case pg of None \<Rightarrow> None | Some rows \<Rightarrow> at_index rows (lk_index entry)) of
                      None \<Rightarrow> io_return None
                    | Some raw \<Rightarrow>
                        io_bind (loadSnapshotSkillsManifest P env snapshotDate request) (\<lambda>snapshotManifest.
                          (let pageSize = manifest_page_size snapshotManifest;
                               fetchedAt = snapshotDate @ ''T00:00:00.000Z''
                           in io_return (Some
                                \<lparr>rec_id = skillId,
                                 rec_skill_id = spi_skillId raw,
                                 rec_owner = owner,
                                 rec_repo = repo,
                                 rec_canonical_url =
                                   ''https://skills.sh/'' @ owner @ ''/'' @ repo @ ''/'' @ leafSkillId,
                                 rec_total_installs = spi_installs raw,
                                 rec_name = spi_name raw,
                                 rec_github_url = ''https://github.com/'' @ owner @ ''/'' @ repo,
                                 rec_run_id = ''snapshot-'' @ snapshotDate,
                                 rec_fetched_at = fetchedAt,
                                 rec_rank_at_fetch =
                                   (lk_page entry - 1) * pageSize + lk_index entry + 1,
                                 rec_parser_version = ''snapshot-proxy''\<rparr>)))))
      | _ \<Rightarrow> io_return None)"

definition buildSnapshotMetricsResponse ::
  "platform \<Rightarrow> Env \<Rightarrow> string \<Rightarrow> string \<Rightarrow> request \<Rightarrow> (string \<times> MetricsItem list) option io" where
  "buildSnapshotMetricsResponse P env snapshotDate skillId request =
     io_bind (loadSnapshotSkillLookup P env snapshotDate request) (\<lambda>lookup.
       case (case lookup of None \<Rightarrow> None | Some l \<Rightarrow> map_of (sld_entries l) skillId) of
         None \<Rightarrow> io_return None
       | Some entry \<Rightarrow>
           io_bind (loadSnapshotSkillsPage P env snapshotDate (lk_page entry) request) (\<lambda>pg.
             case (case pg of None \<Rightarrow> None | Some rows \<Rightarrow> at_index rows (lk_index entry)) of
               None \<Rightarrow> io_return None
             | Some raw \<Rightarrow>
                 io_return (Some (skillId,
                   [\<lparr>mi_id = skillId, mi_snapshot_date = snapshotDate,
                     mi_total_installs = spi_installs raw\<rparr>]))))"

subsection \<open>ManifestResolver\<close>

definition remember_manifest :: "int \<Rightarrow> LatestManifest \<Rightarrow> LatestManifest option io" where
  "remember_manifest nowMs manifest w =
     (Inr (Some manifest),
      w\<lparr>cachedLatestManifest := Some \<lparr>cm_loadedAtMs = nowMs, cm_manifest = manifest\<rparr>\<rparr>)"

definition fresh_manifest :: "int \<Rightarrow> world \<Rightarrow> LatestManifest option" where
  "fresh_manifest nowMs w =
     (case cachedLatestManifest w of
        None \<Rightarrow> None
      | Some c \<Rightarrow> if nowMs - cm_loadedAtMs c < IN_MEMORY_CACHE_TTL_MS then Some (cm_manifest c) else None)"

definition loadLatestManifest :: "platform \<Rightarrow> Env \<Rightarrow> int \<Rightarrow> request \<Rightarrow> LatestManifest option io" where
  "loadLatestManifest P env nowMs request w =
     (case fresh_manifest nowMs w of
        Some manifest \<Rightarrow> (Inr (Some manifest), w)
      | None \<Rightarrow>
          io_bind (loadJsonTextWithCache env LATEST_MANIFEST_KEY request ''latest-manifest'')
            (\<lambda>webManifestText.
              if truthy webManifestText then
                io_bind (io_of (parseJson (parse_LatestManifest P) (orElse webManifestText [])
                                  LATEST_MANIFEST_KEY)) (\<lambda>parsed.
                  if lm_snapshot_date parsed = [] \<or> \<not> isDateString (lm_snapshot_date parsed)
                  then io_throw (Error ''latest.json missing valid snapshot_date'')
                  else remember_manifest nowMs parsed)
              else
                io_bind (loadJsonTextWithCache env LATEST_SNAPSHOT_KEY request ''latest-snapshot'')
                  (\<lambda>snapshotLatestText.
                    if \<not> truthy snapshotLatestText then io_return None
                    else
                      io_bind (io_of (parseJson (parse_SnapshotLatestManifest P)
                                        (orElse snapshotLatestText []) LATEST_SNAPSHOT_KEY)) (\<lambda>parsed.
                        if slm_date parsed = [] \<or> \<not> isDateString (slm_date parsed)
                        then io_throw (Error ''snapshots/latest.json missing valid date'')
                        else
                          io_bind (loadSnapshotSkillsManifest P env (slm_date parsed) request)
                            (\<lambda>snapshotManifest.
                              remember_manifest nowMs
                                (case snapshotManifest of
                                   None \<Rightarrow>
                                     \<lparr>lm_snapshot_date = slm_date parsed, lm_page_size = None,
                                      lm_counts = None\<rparr>
                                 | Some m \<Rightarrow>
                                     \<lparr>lm_snapshot_date = slm_date parsed,
                                      lm_page_size = ssm_page_size m,
                                      lm_counts = Some \<lparr>mc_total_skills = ssm_total_skills m,
                                                        mc_total_repos = None\<rparr>\<rparr>))))) w)"

subsection \<open>SearchEngine\<close>

definition loadSearchIndex :: "platform \<Rightarrow> Env \<Rightarrow> int \<Rightarrow> string \<Rightarrow> request \<Rightarrow> SearchIndexDocument option io" where
  "loadSearchIndex P env nowMs snapshotDate request w =
     (let key = SEARCH_INDEX_KEY snapshotDate
      in case (case parsedSearchCache w of
                 None \<Rightarrow> None
               | Some c \<Rightarrow> if pc_key c = key \<and> nowMs - pc_loadedAtMs c < IN_MEMORY_CACHE_TTL_MS
                           then Some (pc_doc c) else None) of
           Some doc \<Rightarrow> (Inr (Some doc), w)
         | None \<Rightarrow>
             io_bind (loadJsonTextWithCache env key request (''search-index/'' @ snapshotDate)) (\<lambda>text.
               if \<not> truthy text then io_return None
               else
                 io_bind (io_of (parseJson (parse_SearchIndexDocument P) (orElse text []) key)) (\<lambda>doc.
                   if sid_snapshot_date doc = [] \<or> \<not> isDateString (sid_snapshot_date doc)
                      \<or> sid_items doc = None
                   then io_throw (Error ''Invalid search index payload'')
                   else (\<lambda>w'. (Inr (Some doc),
                          w'\<lparr>parsedSearchCache :=
                               Some \<lparr>pc_key = key, pc_loadedAtMs = nowMs, pc_doc = doc\<rparr>\<rparr>)))) w)"

subsection \<open>Router\<close>

definition searchParams_get :: "request \<Rightarrow> string \<Rightarrow> string option" where
  "searchParams_get request param = map_of (req_searchParams request) param"

text \<open>
  The two steps every rate-limited endpoint starts with: the limiter
  (\<open>if (blocked) return blocked\<close>), and the choice of the snapshot, from the
  \<open>snapshot_date\<close> parameter or from the manifest resolver. The endpoints differ
  in the message of the 503 only.
\<close>

definition rate_limited ::
  "platform \<Rightarrow> clock \<Rightarrow> request \<Rightarrow> ((string \<times> string) list \<Rightarrow> response io) \<Rightarrow> response io" where
  "rate_limited P clk request handler w =
     (case enforceRateLimit P (now_rate clk) request w of
        (rl, w1) \<Rightarrow>
          (case blocked rl of
             Some resp \<Rightarrow> (Inr resp, w1)
           | None \<Rightarrow> handler (rl_headers rl) w1))"

definition with_snapshot_date ::
  "platform \<Rightarrow> Env \<Rightarrow> clock \<Rightarrow> request \<Rightarrow> (string \<times> string) list \<Rightarrow> string \<Rightarrow>
   (string \<Rightarrow> LatestManifest option \<Rightarrow> response io) \<Rightarrow> response io" where
  "with_snapshot_date P env clk request rlHeaders unavailable handler =
     (let snapshotParam = searchParams_get request ''snapshot_date''
      in if truthy snapshotParam then
           (if \<not> isDateString (orElse snapshotParam [])
            then io_return (json (ErrorBody ''Invalid snapshot_date format'') 400 rlHeaders)
            else handler (orElse snapshotParam []) None)
         else
           io_bind (loadLatestManifest P env (now_manifest clk) request) (\<lambda>latest.
             case latest of
               None \<Rightarrow> io_return (json (ErrorBody unavailable) 503 rlHeaders)
             | Some m \<Rightarrow> handler (lm_snapshot_date m) (Some m)))"

text \<open>
  \<open>snapshotPage.map((item, index) => snapshotItemToSkillListItem(item,
  (page - 1) * pageSize + index + 1))\<close>
\<close>

definition synthesize_items :: "SnapshotSkillPageItem list \<Rightarrow> int \<Rightarrow> int \<Rightarrow> SkillListItem list" where
  "synthesize_items snapshotPage pg pageSize =
     map (\<lambda>(index, item). snapshotItemToSkillListItem item ((pg - 1) * pageSize + int index + 1))
       (enumerate 0 snapshotPage)"

definition manifest_total_skills :: "LatestManifest option \<Rightarrow> int option" where
  "manifest_total_skills latestManifest =
     (case latestManifest of
        None \<Rightarrow> None
      | Some m \<Rightarrow> (case lm_counts m of None \<Rightarrow> None | Some c \<Rightarrow> mc_total_skills c))"

text \<open>The regular expressions of the artifact pass-through, on the key.\<close>

definition match_snapshot_path :: "string \<Rightarrow> (string \<times> string) option" where
  "match_snapshot_path key =
     (case strip_prefix (DATA_PREFIX @ ''/snapshots/'') key of
        None \<Rightarrow> None
      | Some r \<Rightarrow> if DATE_RE (take 10 r) then Some (take 10 r, drop 10 r) else None)"

definition statsMatch :: "string \<Rightarrow> string option" where
  "statsMatch key =
     (case match_snapshot_path key of
        None \<Rightarrow> None
      | Some (snapshotDate, r) \<Rightarrow> if r = ''/stats/summary.json'' then Some snapshotDate else None)"

definition leaderboardMatch :: "string \<Rightarrow> (string \<times> string \<times> string) option" where
  "leaderboardMatch key =
     (case match_snapshot_path key of
        None \<Rightarrow> None
      | Some (snapshotDate, r) \<Rightarrow>
          (case strip_prefix ''/leaderboard/'' r of
             None \<Rightarrow> None
           | Some r1 \<Rightarrow>
               (let sortSeg = takeWhile (\<lambda>ch. ch \<noteq> CHR ''/'') r1;
                    r2 = dropWhile (\<lambda>ch. ch \<noteq> CHR ''/'') r1
                in if sortSeg = [] then None
                   else (case strip_prefix ''/page-'' r2 of
                           None \<Rightarrow> None
                         | Some r3 \<Rightarrow>
                             if length r3 = 9 \<and> list_all is_digit (take 4 r3) \<and> drop 4 r3 = ''.json''
                             then Some (snapshotDate, sortSeg, take 4 r3) else None))))"

definition byIdMatch :: "string \<Rightarrow> string \<Rightarrow> (string \<times> string \<times> string \<times> string) option" where
  "byIdMatch kind key =
     (case match_snapshot_path key of
        None \<Rightarrow> None
      | Some (snapshotDate, r) \<Rightarrow>
          (case strip_prefix (''/'' @ kind @ ''/by-id/'') r of
             None \<Rightarrow> None
           | Some r1 \<Rightarrow>
               (case split_on CHR ''/'' r1 of
                  [ownerEnc, repoEnc, leaf] \<Rightarrow>
                    if ownerEnc \<noteq> [] \<and> repoEnc \<noteq> [] \<and> length leaf > 5 \<and> endsWith leaf ''.json''
                    then Some (snapshotDate, ownerEnc, repoEnc, take (length leaf - 5) leaf)
                    else None
                | _ \<Rightarrow> None)))"

text \<open>
  The three \<open>decodeURIComponent\<close> calls share one \<open>try\<close>: if one throws, all
  three parts are the empty string, and the synthesis is skipped.
\<close>

definition decode_compound_id :: "platform \<Rightarrow> string \<Rightarrow> string \<Rightarrow> string \<Rightarrow> string option" where
  "decode_compound_id P ownerEnc repoEnc skillEnc =
     (case (decodeURIComponent P ownerEnc, decodeURIComponent P repoEnc, decodeURIComponent P skillEnc) of
        (Some owner, Some repo, Some skillId) \<Rightarrow>
          if owner \<noteq> [] \<and> repo \<noteq> [] \<and> skillId \<noteq> []
          then Some (owner @ ''/'' @ repo @ ''/'' @ skillId) else None
      | _ \<Rightarrow> None)"

definition static_latest :: "platform \<Rightarrow> Env \<Rightarrow> clock \<Rightarrow> request \<Rightarrow> body option io" where
  "static_latest P env clk request =
     io_bind (loadLatestManifest P env (now_manifest clk) request) (\<lambda>latest.
       case latest of
         None \<Rightarrow> io_return None
       | Some l \<Rightarrow>
           (let snapshotDate = lm_snapshot_date l
            in io_bind (loadSnapshotSummary P env snapshotDate request) (\<lambda>summary.
               io_bind (loadSnapshotSkillsManifest P env snapshotDate request) (\<lambda>snapshotManifest.
                 io_return (Some (Json (Latest
                   \<lparr>ls_snapshot_date = snapshotDate,
                    ls_generated_at = now_iso clk,
                    ls_page_size = orElse (lm_page_size l) (manifest_page_size snapshotManifest),
                    ls_total_skills =
                      orElse (nullish (field_of summary sss_total_skills)
                                (nullish (field_of snapshotManifest ssm_total_skills)
                                   (manifest_total_skills (Some l)))) 0,
                    ls_total_repos =
                      orElse (nullish (field_of summary sss_total_repos)
                                (field_of (lm_counts l) mc_total_repos)) 0\<rparr>)))))))"

definition static_stats :: "platform \<Rightarrow> Env \<Rightarrow> request \<Rightarrow> string \<Rightarrow> body option io" where
  "static_stats P env request key =
     (case statsMatch key of
        None \<Rightarrow> io_return None
      | Some snapshotDate \<Rightarrow>
          io_bind (loadSnapshotSummary P env snapshotDate request) (\<lambda>summary.
            io_return (map_option (\<lambda>s. Json (Summary s)) summary)))"

definition static_leaderboard :: "platform \<Rightarrow> Env \<Rightarrow> request \<Rightarrow> string \<Rightarrow> body option io" where
  "static_leaderboard P env request key =
     (case leaderboardMatch key of
        None \<Rightarrow> io_return None
      | Some (snapshotDate, sortSeg, pageStr) \<Rightarrow>
          if sortSeg = ''installs'' then
            (let pg = number_of_digits pageStr
             in io_bind (loadSnapshotSkillsPage P env snapshotDate pg request) (\<lambda>snapshotPage.
                  case snapshotPage of
                    None \<Rightarrow> io_return None
                  | Some rows \<Rightarrow>
                      io_bind (loadSnapshotSkillsManifest P env snapshotDate request) (\<lambda>snapshotManifest.
                      io_bind (loadSnapshotSummary P env snapshotDate request) (\<lambda>summary.
                        (let pageSize = manifest_page_size snapshotManifest;
                             items = synthesize_items rows pg pageSize
                         in io_return (Some (Json (Leaderboard
                              \<lparr>lb_snapshot_date = snapshotDate,
                               lb_sort = sortSeg,
                               lb_page = pg,
                               lb_page_size = pageSize,
                               lb_total =
                                 orElse (nullish (field_of summary sss_total_skills)
                                           (field_of snapshotManifest ssm_total_skills))
                                   (int (length items)),
                               lb_items = items\<rparr>))))))))
          else io_return None)"

definition static_skill :: "platform \<Rightarrow> Env \<Rightarrow> request \<Rightarrow> string \<Rightarrow> body option io" where
  "static_skill P env request key =
     (case byIdMatch ''skills'' key of
        None \<Rightarrow> io_return None
      | Some (snapshotDate, ownerEnc, repoEnc, skillEnc) \<Rightarrow>
          (case decode_compound_id P ownerEnc repoEnc skillEnc of
             None \<Rightarrow> io_return None
           | Some compound \<Rightarrow>
               io_bind (buildSnapshotSkillRecord P env snapshotDate compound request) (\<lambda>record.
                 io_return (map_option (\<lambda>r. Json (Skill r)) record))))"

definition static_metrics :: "platform \<Rightarrow> Env \<Rightarrow> request \<Rightarrow> string \<Rightarrow> body option io" where
  "static_metrics P env request key =
     (case byIdMatch ''metrics'' key of
        None \<Rightarrow> io_return None
      | Some (snapshotDate, ownerEnc, repoEnc, skillEnc) \<Rightarrow>
          (case decode_compound_id P ownerEnc repoEnc skillEnc of
             None \<Rightarrow> io_return None
           | Some compound \<Rightarrow>
               io_bind (buildSnapshotMetricsResponse P env snapshotDate compound request) (\<lambda>metrics.
                 io_return (map_option (\<lambda>(i, ms). Json (Metrics i ms)) metrics))))"

definition fetch_static :: "platform \<Rightarrow> Env \<Rightarrow> clock \<Rightarrow> request \<Rightarrow> response io" where
  "fetch_static P env clk request =
     (let key = drop 1 (req_pathname request)
      in io_bind (loadJsonTextWithCache env key request (''static/'' @ key)) (\<lambda>stored.
         io_bind
           (if truthy stored then io_return (map_option Text stored)
            else
              io_bind (if key = LATEST_MANIFEST_KEY then static_latest P env clk request
                       else static_stats P env request key) (\<lambda>t1.
              io_bind (if t1 \<noteq> None then io_return t1 else static_leaderboard P env request key) (\<lambda>t2.
              io_bind (if t2 \<noteq> None then io_return t2 else static_skill P env request key) (\<lambda>t3.
                if t3 \<noteq> None then io_return t3 else static_metrics P env request key))))
           (\<lambda>text.
              io_return
                (case text of
                   None \<Rightarrow> json (ErrorBody ''Not found'') 404 []
                 | Some b \<Rightarrow>
                     \<lparr>status = 200,
                      headers =
                        [(''content-type'', ''application/json; charset=utf-8''),
                         (''cache-control'', ''public, max-age=60, s-maxage=60''),
                         (''X-Content-Type-Options'', ''nosniff'')] @ CORS_HEADERS,
                      body = b\<rparr>))))"

text \<open>The health endpoint catches what the resolver throws.\<close>

definition fetch_healthz :: "platform \<Rightarrow> Env \<Rightarrow> clock \<Rightarrow> request \<Rightarrow> response io" where
  "fetch_healthz P env clk request w =
     (case loadLatestManifest P env (now_manifest clk) request w of
        (r, w') \<Rightarrow>
          (let snapshotDate = (case r of Inr (Some l) \<Rightarrow> Some (lm_snapshot_date l) | _ \<Rightarrow> None)
           in (Inr (json (Health (parsedSearchCache w' \<noteq> None)
                       (case snapshotDate of
                          Some d \<Rightarrow> Some d
                        | None \<Rightarrow> map_option (\<lambda>c. sid_snapshot_date (pc_doc c)) (parsedSearchCache w')))
                     200 [(''cache-control'', ''no-store'')]), w')))"

definition fetch_stats_summary :: "platform \<Rightarrow> Env \<Rightarrow> clock \<Rightarrow> request \<Rightarrow> response io" where
  "fetch_stats_summary P env clk request =
     rate_limited P clk request (\<lambda>rlHeaders.
       with_snapshot_date P env clk request rlHeaders ''Summary unavailable'' (\<lambda>snapshotDate latest.
         io_bind (loadJsonObjectWithCache (parse_Record P) env (STATS_SUMMARY_KEY snapshotDate) request
                    (''summary/'' @ snapshotDate)) (\<lambda>prerendered.
           case prerendered of
             Some doc \<Rightarrow> io_return (json (Document doc) 200 rlHeaders)
           | None \<Rightarrow>
               io_bind (loadSnapshotSummary P env snapshotDate request) (\<lambda>summary.
                 case summary of
                   Some s \<Rightarrow> io_return (json (Summary s) 200 rlHeaders)
                 | None \<Rightarrow>
                     io_bind (loadSnapshotSkillsManifest P env snapshotDate request) (\<lambda>snapshotManifest.
                       case snapshotManifest of
                         None \<Rightarrow> io_return (json (ErrorBody ''Summary unavailable'') 503 rlHeaders)
                       | Some m \<Rightarrow>
                           io_return (json (SummarySynth (ssm_total_skills m) 0 snapshotDate) 200
                                        rlHeaders))))))"

definition item_matches :: "platform \<Rightarrow> string \<Rightarrow> SearchIndexItem \<Rightarrow> bool" where
  "item_matches P query item =
     (String_includes (toLowerCase P (sii_name item)) query
      \<or> String_includes (toLowerCase P (sii_id item)) query)"

text \<open>The part of \<open>/v1/skills\<close> that serves an empty query from a page of the leaderboard.\<close>

definition skills_leaderboard ::
  "platform \<Rightarrow> Env \<Rightarrow> request \<Rightarrow> (string \<times> string) list \<Rightarrow> SortMode \<Rightarrow> int \<Rightarrow> int \<Rightarrow> string \<Rightarrow>
   LatestManifest option \<Rightarrow> response option io" where
  "skills_leaderboard P env request rlHeaders sortParam pg pageSize snapshotDate latestManifest =
     io_bind (loadJsonObjectWithCache (parse_Record P) env
                (LEADERBOARD_PAGE_KEY snapshotDate sortParam pg) request
                (''leaderboard/'' @ snapshotDate @ ''/'' @ sort_name sortParam @ ''/'' @ String_of pg))
       (\<lambda>cachedPage.
         if (case cachedPage of
               None \<Rightarrow> False
             | Some payload \<Rightarrow> map_of payload ''page_size'' = None
                               \<or> map_of payload ''page_size'' = Some (JNum pageSize))
         then io_return (Some (json (Document (orElse cachedPage [])) 200 rlHeaders))
         else if sortParam = Installs then
           io_bind (loadSnapshotSkillsManifest P env snapshotDate request) (\<lambda>snapshotManifest.
           io_bind (loadSnapshotSkillsPage P env snapshotDate pg request) (\<lambda>snapshotPage.
             (let manifestPageSize = manifest_page_size snapshotManifest
              in case snapshotPage of
                   None \<Rightarrow> io_return None
                 | Some rows \<Rightarrow>
                     if pageSize = manifestPageSize then
                       io_bind (loadSnapshotSummary P env snapshotDate request) (\<lambda>summary.
                         io_return (Some (json (SkillsPage
                           \<lparr>sk_items = synthesize_items rows pg manifestPageSize,
                            sk_skills = rows,
                            sk_page = pg,
                            sk_page_size = pageSize,
                            sk_total =
                              orElse (nullish (field_of summary sss_total_skills)
                                        (nullish (field_of snapshotManifest ssm_total_skills)
                                           (manifest_total_skills latestManifest)))
                                (int (length rows)),
                            sk_snapshot_date = snapshotDate,
                            sk_sort = sortParam\<rparr>) 200 rlHeaders)))
                     else io_return None)))
         else io_return None)"

text \<open>The indexed path of \<open>/v1/skills\<close>: filter, sort, slice, and the total.\<close>

definition skills_indexed ::
  "platform \<Rightarrow> SearchIndexDocument \<Rightarrow> string \<Rightarrow> SortMode \<Rightarrow> int \<Rightarrow> int \<Rightarrow> LatestManifest option \<Rightarrow>
   SearchIndexItem SearchResponse" where
  "skills_indexed P index rawQ sortParam pg pageSize latestManifest =
     (let query = toLowerCase P rawQ;
          filtered = (if query \<noteq> [] then filter (item_matches P query) (orElse (sid_items index) [])
                      else orElse (sid_items index) []);
          sortedItems = sortItems P filtered sortParam;
          start = (pg - 1) * pageSize;
          payload = \<lparr>sr_items = slice sortedItems start (start + pageSize),
                     sr_page = pg,
                     sr_page_size = pageSize,
                     sr_total = int (length sortedItems),
                     sr_snapshot_date = sid_snapshot_date index\<rparr>
      in if query = [] \<and> length (sr_items payload) = 0
            \<and> (case manifest_total_skills latestManifest of None \<Rightarrow> False | Some n \<Rightarrow> n \<noteq> 0)
         then payload\<lparr>sr_total := orElse (manifest_total_skills latestManifest) 0\<rparr>
         else payload)"

definition fetch_skills :: "platform \<Rightarrow> Env \<Rightarrow> clock \<Rightarrow> request \<Rightarrow> response io" where
  "fetch_skills P env clk request =
     rate_limited P clk request (\<lambda>rlHeaders.
       (let sortParam = orElse (searchParams_get request ''sort'') ''installs''
        in case isSortMode sortParam of
             None \<Rightarrow> io_return (json (ErrorBody (''Invalid sort field: '' @ sortParam)) 400 rlHeaders)
           | Some sortMode \<Rightarrow>
               (let pg = max 1 (parsePositiveInt P (searchParams_get request ''page'') 1);
                    pageSize = min 200 (max 1 (parsePositiveInt P (searchParams_get request ''page_size'') 200));
                    rawQ = trim P (orElse (searchParams_get request ''q'') [])
                in with_snapshot_date P env clk request rlHeaders ''Leaderboard unavailable''
                     (\<lambda>snapshotDate latestManifest.
                        io_bind (if length rawQ = 0
                                 then skills_leaderboard P env request rlHeaders sortMode pg pageSize
                                        snapshotDate latestManifest
                                 else io_return None) (\<lambda>served.
                          case served of
                            Some resp \<Rightarrow> io_return resp
                          | None \<Rightarrow>
                              io_bind (loadSearchIndex P env (now_index clk) snapshotDate request) (\<lambda>index.
                                case index of
                                  None \<Rightarrow> io_return (json (ErrorBody ''Leaderboard unavailable'') 503 rlHeaders)
                                | Some idx \<Rightarrow>
                                    io_return (json (SkillsIndexed
                                       (skills_indexed P idx rawQ sortMode pg pageSize latestManifest) sortMode)
                                      200
                                      (spread rlHeaders
                                         [(''cache-control'', ''public, max-age=30, s-maxage=30'')]))))))))"

definition fetch_skill_detail :: "platform \<Rightarrow> Env \<Rightarrow> clock \<Rightarrow> request \<Rightarrow> response io" where
  "fetch_skill_detail P env clk request =
     rate_limited P clk request (\<lambda>rlHeaders.
       case parseSkillPath P (req_pathname request) ''/v1/skills/'' of
         None \<Rightarrow> io_return (json (ErrorBody ''Invalid skill id'') 400 rlHeaders)
       | Some skillPath \<Rightarrow>
           with_snapshot_date P env clk request rlHeaders ''Skill unavailable'' (\<lambda>snapshotDate latest.
             io_bind (loadJsonObjectWithCache (parse_Record P) env
                        (SKILL_DETAIL_KEY snapshotDate (spp_owner skillPath) (spp_repo skillPath)
                           (spp_skillId skillPath)) request
                        (''skill/'' @ snapshotDate @ ''/'' @ spp_id skillPath)) (\<lambda>record.
               case record of
                 Some doc \<Rightarrow> io_return (json (Document doc) 200 rlHeaders)
               | None \<Rightarrow>
                   io_bind (buildSnapshotSkillRecord P env snapshotDate (spp_id skillPath) request) (\<lambda>built.
                     case built of
                       None \<Rightarrow> io_return (json (ErrorBody ''Not found'') 404 rlHeaders)
                     | Some r \<Rightarrow> io_return (json (Skill r) 200 rlHeaders)))))"

definition fetch_metrics :: "platform \<Rightarrow> Env \<Rightarrow> clock \<Rightarrow> request \<Rightarrow> response io" where
  "fetch_metrics P env clk request =
     rate_limited P clk request (\<lambda>rlHeaders.
       case parseSkillPath P (req_pathname request) ''/v1/metrics/'' of
         None \<Rightarrow> io_return (json (ErrorBody ''Invalid skill id'') 400 rlHeaders)
       | Some skillPath \<Rightarrow>
           with_snapshot_date P env clk request rlHeaders ''Metrics unavailable'' (\<lambda>snapshotDate latest.
             io_bind (loadJsonObjectWithCache (parse_Record P) env
                        (METRICS_KEY snapshotDate (spp_owner skillPath) (spp_repo skillPath)
                           (spp_skillId skillPath)) request
                        (''metrics/'' @ snapshotDate @ ''/'' @ spp_id skillPath)) (\<lambda>metrics.
               case metrics of
                 Some doc \<Rightarrow> io_return (json (Document doc) 200 rlHeaders)
               | None \<Rightarrow>
                   io_bind (buildSnapshotMetricsResponse P env snapshotDate (spp_id skillPath) request) (\<lambda>built.
                     case built of
                       None \<Rightarrow> io_return (json (ErrorBody ''Not found'') 404 rlHeaders)
                     | Some (i, ms) \<Rightarrow> io_return (json (Metrics i ms) 200 rlHeaders)))))"

text \<open>The indexed path of \<open>/v1/search\<close>.\<close>

definition search_indexed ::
  "platform \<Rightarrow> SearchIndexDocument \<Rightarrow> string \<Rightarrow> SortMode \<Rightarrow> int \<Rightarrow> int \<Rightarrow> SearchIndexItem SearchResponse" where
  "search_indexed P index query sortParam pg pageSize =
     (let filtered = filter (item_matches P query) (orElse (sid_items index) []);
          sortedItems = sortItems P filtered sortParam;
          start = (pg - 1) * pageSize
      in \<lparr>sr_items = slice sortedItems start (start + pageSize),
          sr_page = pg,
          sr_page_size = pageSize,
          sr_total = int (length sortedItems),
          sr_snapshot_date = sid_snapshot_date index\<rparr>)"

text \<open>
  The item that the lookup fallback pushes for the row \<open>raw\<close> of the entry
  \<open>ident\<close>: mapped from the row, its \<open>id\<close> set to the key of the entry.
\<close>

definition fallback_item :: "int \<Rightarrow> string \<Rightarrow> SnapshotSkillLookup \<Rightarrow> SnapshotSkillPageItem \<Rightarrow> SkillListItem" where
  "fallback_item rawPageSize ident entry raw =
     (let mapped = snapshotItemToSkillListItem raw
                     ((lk_page entry - 1) * rawPageSize + lk_index entry + 1)
      in if sli_id mapped \<noteq> ident then mapped\<lparr>sli_id := ident\<rparr> else mapped)"

text \<open>
  The loop of the lookup fallback over the selected entries, with its \<open>pageCache\<close>
  and the items pushed so far.
\<close>

fun resolve_selected ::
  "platform \<Rightarrow> Env \<Rightarrow> string \<Rightarrow> request \<Rightarrow> int \<Rightarrow> (string \<times> SnapshotSkillLookup) list \<Rightarrow>
   (int \<Rightarrow> SnapshotSkillPageItem list option) \<Rightarrow> SkillListItem list \<Rightarrow> SkillListItem list io" where
  "resolve_selected P env snapshotDate request rawPageSize [] pageCache items = io_return items"
| "resolve_selected P env snapshotDate request rawPageSize ((ident, entry) # selected) pageCache items =
     io_bind
       (case pageCache (lk_page entry) of
          Some snapshotPage \<Rightarrow> io_return (snapshotPage, pageCache)
        | None \<Rightarrow>
            io_bind (loadSnapshotSkillsPage P env snapshotDate (lk_page entry) request) (\<lambda>loaded.
              io_return (orElse loaded [], pageCache(lk_page entry \<mapsto> orElse loaded []))))
       (\<lambda>(snapshotPage, pageCache').
          case at_index snapshotPage (lk_index entry) of
            None \<Rightarrow> resolve_selected P env snapshotDate request rawPageSize selected pageCache' items
          | Some raw \<Rightarrow>
              resolve_selected P env snapshotDate request rawPageSize selected pageCache'
                (items @ [fallback_item rawPageSize ident entry raw]))"

definition matching_entries ::
  "platform \<Rightarrow> SnapshotSkillLookupDocument \<Rightarrow> string \<Rightarrow> (string \<times> SnapshotSkillLookup) list" where
  "matching_entries P lookup query =
     filter (\<lambda>(ident, entry). String_includes (toLowerCase P ident) query) (sld_entries lookup)"

definition sort_entries ::
  "platform \<Rightarrow> SortMode \<Rightarrow> (string \<times> SnapshotSkillLookup) list \<Rightarrow> (string \<times> SnapshotSkillLookup) list" where
  "sort_entries P sortParam entries =
     (if sortParam = Name then Array_sort (\<lambda>a b. localeCompare P (fst a) (fst b)) entries
      else Array_sort (\<lambda>a b. if lk_page (snd a) - lk_page (snd b) \<noteq> 0
                               then lk_page (snd a) - lk_page (snd b)
                               else lk_index (snd a) - lk_index (snd b)) entries)"

text \<open>
  The row that the reference of a lookup entry resolves to, as a load of its page in the
  world \<open>w\<close> shows it: none when the page is missing or the index is outside it.
\<close>

definition referenced_row ::
  "platform \<Rightarrow> Env \<Rightarrow> string \<Rightarrow> request \<Rightarrow> world \<Rightarrow> SnapshotSkillLookup \<Rightarrow> SnapshotSkillPageItem option" where
  "referenced_row P env snapshotDate request w entry =
     (case fst (loadSnapshotSkillsPage P env snapshotDate (lk_page entry) request w) of
        Inl e \<Rightarrow> None
      | Inr loaded \<Rightarrow> at_index (orElse loaded []) (lk_index entry))"

definition resolved_items ::
  "platform \<Rightarrow> Env \<Rightarrow> string \<Rightarrow> request \<Rightarrow> world \<Rightarrow> int \<Rightarrow> (string \<times> SnapshotSkillLookup) list \<Rightarrow>
   SkillListItem list" where
  "resolved_items P env snapshotDate request w rawPageSize selected =
     List.map_filter (\<lambda>(ident, entry).
        map_option (fallback_item rawPageSize ident entry)
          (referenced_row P env snapshotDate request w entry)) selected"

definition search_fallback ::
  "platform \<Rightarrow> Env \<Rightarrow> request \<Rightarrow> (string \<times> string) list \<Rightarrow> string \<Rightarrow> SortMode \<Rightarrow> int \<Rightarrow> int \<Rightarrow> string \<Rightarrow>
   response io" where
  "search_fallback P env request rlHeaders query sortParam pg pageSize snapshotDate =
     io_bind (loadSnapshotSkillLookup P env snapshotDate request) (\<lambda>lookup.
       case lookup of
         None \<Rightarrow> io_return (json (ErrorBody ''Search index unavailable'') 503 rlHeaders)
       | Some l \<Rightarrow>
           (let sortedEntries = sort_entries P sortParam (matching_entries P l query);
                start = (pg - 1) * pageSize;
                selected = slice sortedEntries start (start + pageSize)
            in io_bind (loadSnapshotSkillsManifest P env snapshotDate request) (\<lambda>snapshotManifest.
                 io_bind (resolve_selected P env snapshotDate request (manifest_page_size snapshotManifest)
                            selected Map.empty []) (\<lambda>items.
                   io_return (json (SearchFallback
                      \<lparr>sr_items = items,
                       sr_page = pg,
                       sr_page_size = pageSize,
                       sr_total = int (length sortedEntries),
                       sr_snapshot_date = snapshotDate\<rparr>) 200
                      (spread rlHeaders [(''cache-control'', ''public, max-age=30, s-maxage=30'')]))))))"

definition fetch_search :: "platform \<Rightarrow> Env \<Rightarrow> clock \<Rightarrow> request \<Rightarrow> response io" where
  "fetch_search P env clk request =
     rate_limited P clk request (\<lambda>rlHeaders.
       (let rawQ = trim P (orElse (searchParams_get request ''q'') [])
        in if length rawQ < 2
           then io_return (json (ErrorBody ''q must be at least 2 characters'') 400 rlHeaders)
           else if length rawQ > 100
           then io_return (json (ErrorBody ''q must be <= 100 characters'') 400 rlHeaders)
           else
             (let sortParam = orElse (searchParams_get request ''sort'') ''installs''
              in case isSortMode sortParam of
                   None \<Rightarrow> io_return (json (ErrorBody (''Invalid sort field: '' @ sortParam)) 400 rlHeaders)
                 | Some sortMode \<Rightarrow>
                     (let pg = max 1 (parsePositiveInt P (searchParams_get request ''page'') 1);
                          pageSize = min 50 (max 1 (parsePositiveInt P (searchParams_get request ''page_size'') 12))
                      in with_snapshot_date P env clk request rlHeaders ''Search index unavailable''
                           (\<lambda>snapshotDate latest.
                              io_bind (loadSearchIndex P env (now_index clk) snapshotDate request) (\<lambda>index.
                                (let query = toLowerCase P rawQ
                                 in case index of
                                      Some idx \<Rightarrow>
                                        io_return (json (SearchIndexed
                                           (search_indexed P idx query sortMode pg pageSize)) 200
                                          (spread rlHeaders
                                             [(''cache-control'', ''public, max-age=30, s-maxage=30'')]))
                                    | None \<Rightarrow>
                                        search_fallback P env request rlHeaders query sortMode pg pageSize
                                          snapshotDate)))))))"

definition fetch_routes :: "platform \<Rightarrow> Env \<Rightarrow> clock \<Rightarrow> request \<Rightarrow> response io" where
  "fetch_routes P env clk request =
     (if req_method request = ''OPTIONS''
      then io_return \<lparr>status = 204, headers = CORS_HEADERS, body = NoBody\<rparr>
      else if req_method request \<noteq> ''GET''
      then io_return (json (ErrorBody ''Method not allowed'') 405 [])
      else (let pathname = req_pathname request
            in if startsWith pathname (''/'' @ DATA_PREFIX @ ''/'') \<and> endsWith pathname ''.json''
               then fetch_static P env clk request
               else if pathname = ''/healthz'' then fetch_healthz P env clk request
               else if pathname = ''/v1/stats/summary'' then fetch_stats_summary P env clk request
               else if pathname = ''/v1/skills'' then fetch_skills P env clk request
               else if startsWith pathname ''/v1/skills/'' then fetch_skill_detail P env clk request
               else if startsWith pathname ''/v1/metrics/'' then fetch_metrics P env clk request
               else if pathname = ''/v1/search'' then fetch_search P env clk request
               else io_return (json (ErrorBody ''Not found'') 404 [])))"

text \<open>
  \<open>fetch\<close>: the routes inside the \<open>try\<close>, and the \<open>catch\<close> that
  turns what they throw into a 500. What a route changed before it threw stays changed.
\<close>

definition fetch :: "platform \<Rightarrow> Env \<Rightarrow> clock \<Rightarrow> request \<Rightarrow> world \<Rightarrow> response \<times> world" where
  "fetch P env clk request w =
     (case fetch_routes P env clk request w of
        (Inl (Error message), w') \<Rightarrow>
          (json (ErrorBody (if message = [] then ''Internal Server Error'' else message)) 500 [], w')
      | (Inr resp, w') \<Rightarrow> (resp, w'))"

subsection \<open>A platform and a state for concrete runs\<close>

text \<open>
  Concrete built-ins for the runs that the theorems below are instantiated at. They agree
  with the platform on the strings of those runs: ASCII letters, digits, spaces and the
  punctuation of paths, numbers written in decimal digits, no percent escapes. Every parser
  rejects every text until a run installs a table for it; a table maps a JSON text to the
  value that \<open>JSON.parse\<close> reads from it.
\<close>

definition is_space :: "char \<Rightarrow> bool" where
  "is_space ch = ((of_char ch :: nat) \<in> {9, 10, 11, 12, 13, 32})"

definition fixture_trim :: "string \<Rightarrow> string" where
  "fixture_trim s = rev (dropWhile is_space (rev (dropWhile is_space s)))"

definition fixture_toLowerCase :: "string \<Rightarrow> string" where
  "fixture_toLowerCase s =
     map (\<lambda>ch. if 65 \<le> (of_char ch :: nat) \<and> (of_char ch :: nat) \<le> 90
                then char_of ((of_char ch :: nat) + 32) else ch) s"

text \<open>
  The comparison of two sequences of weights, the first difference deciding, a proper prefix
  first. On the code units of two strings it is their lexicographic order, the order of
  \<open><\<close> on strings.
\<close>

fun compare_weights :: "nat list \<Rightarrow> nat list \<Rightarrow> int" where
  "compare_weights [] [] = 0"
| "compare_weights [] (y # ys) = - 1"
| "compare_weights (x # xs) [] = 1"
| "compare_weights (x # xs) (y # ys) =
     (if x < y then - 1 else if y < x then 1 else compare_weights xs ys)"

definition code_unit_compare :: "string \<Rightarrow> string \<Rightarrow> int" where
  "code_unit_compare a b = compare_weights (map of_char a) (map of_char b)"

text \<open>
  \<open>localeCompare\<close> on strings of ASCII letters, digits and spaces, where the
  collation of the platform is: the letters regardless of their case first, space before
  digits before letters, and between two strings that differ in case only, the lower-case
  letter first at the first difference.
\<close>

definition collation_primary :: "char \<Rightarrow> nat" where
  "collation_primary ch =
     (if 65 \<le> (of_char ch :: nat) \<and> (of_char ch :: nat) \<le> 90 then of_char ch + 32 else of_char ch)"

definition collation_tertiary :: "char \<Rightarrow> nat" where
  "collation_tertiary ch = (if 65 \<le> (of_char ch :: nat) \<and> (of_char ch :: nat) \<le> 90 then 1 else 0)"

definition fixture_localeCompare :: "string \<Rightarrow> string \<Rightarrow> int" where
  "fixture_localeCompare a b =
     (if compare_weights (map collation_primary a) (map collation_primary b) \<noteq> 0
      then compare_weights (map collation_primary a) (map collation_primary b)
      else compare_weights (map collation_tertiary a) (map collation_tertiary b))"

definition fixture_Number :: "string \<Rightarrow> real option" where
  "fixture_Number s = (if list_all is_digit s then Some (real_of_int (number_of_digits s)) else None)"

definition fixture_decodeURIComponent :: "string \<Rightarrow> string option" where
  "fixture_decodeURIComponent s = (if CHR ''%'' \<in> set s then None else Some s)"

definition fixture_platform :: platform where
  "fixture_platform =
     \<lparr>parse_LatestManifest = (\<lambda>text. None),
      parse_SnapshotLatestManifest = (\<lambda>text. None),
      parse_SnapshotSkillsManifest = (\<lambda>text. None),
      parse_SnapshotStatsSummary = (\<lambda>text. None),
      parse_SnapshotSkillPage = (\<lambda>text. None),
      parse_SnapshotSkillLookupDocument = (\<lambda>text. None),
      parse_SearchIndexDocument = (\<lambda>text. None),
      parse_Record = (\<lambda>text. None),
      Number = fixture_Number,
      decodeURIComponent = fixture_decodeURIComponent,
      toLowerCase = fixture_toLowerCase,
      trim = fixture_trim,
      localeCompare = fixture_localeCompare\<rparr>"

text \<open>The state of a worker instance that has served nothing yet, with an empty edge cache.\<close>

definition initial_world :: world where
  "initial_world =
     \<lparr>rateLimitByClient = Map.empty,
      lastRateLimitSweepMs = 0,
      parsedSearchCache = None,
      cachedLatestManifest = None,
      edge_cache = Map.empty,
      accesses = []\<rparr>"

definition fixture_request :: "string \<Rightarrow> string \<Rightarrow> (string \<times> string) list \<Rightarrow> request" where
  "fixture_request m pathname params =
     \<lparr>req_method = m, req_origin = ''https://worker.test'', req_pathname = pathname,
      req_searchParams = params, req_client_ip = Some ''203.0.113.7'',
      req_resolve = (\<lambda>path. ''https://worker.test'' @ path)\<rparr>"

definition fixture_clock :: "int \<Rightarrow> clock" where
  "fixture_clock t = \<lparr>now_rate = t, now_manifest = t, now_index = t, now_iso = ''2025-01-15T00:00:00.000Z''\<rparr>"

definition bucket_of :: "(string \<times> string) list \<Rightarrow> Env" where
  "bucket_of objects = \<lparr>SKILLSIGHT_DATA = Some (map_of objects)\<rparr>"

text \<open>
  The manifest of the worker's tests, its text, and a platform whose manifest parser reads
  that text, reads a second text as a manifest whose date is not a day of the calendar, and
  rejects every other text.
\<close>

definition fixture_manifest_text :: string where
  "fixture_manifest_text = ''{\"snapshot_date\":\"2025-01-15\"}''"

definition fixture_manifest :: LatestManifest where
  "fixture_manifest = \<lparr>lm_snapshot_date = ''2025-01-15'', lm_page_size = None, lm_counts = None\<rparr>"

definition misdated_manifest_text :: string where
  "misdated_manifest_text = ''{\"snapshot_date\":\"2025-13-40\"}''"

definition manifest_platform :: platform where
  "manifest_platform =
     fixture_platform\<lparr>parse_LatestManifest :=
       map_of [(fixture_manifest_text, fixture_manifest),
               (misdated_manifest_text,
                \<lparr>lm_snapshot_date = ''2025-13-40'', lm_page_size = None, lm_counts = None\<rparr>)]\<rparr>"

text \<open>
  A snapshot in the compact layout, with a manifest that gives the page size 2 and a lookup
  document with four entries: the first refers to the one row of page 1, the second to a
  row that page 1 does not have, the third to a page that does not exist, and the fourth to
  the second row of page 3.
\<close>

definition fixture_lookup_text :: string where
  "fixture_lookup_text =
     ''{\"snapshot_date\":\"2025-01-15\",\"total_entries\":4,\"entries\":{''
     @ ''\"o/r/alpha\":{\"page\":1,\"index\":0},\"o/r/beta\":{\"page\":1,\"index\":5},''
     @ ''\"o/r/gamma\":{\"page\":2,\"index\":0},\"o/r/omega\":{\"page\":3,\"index\":1}}}''"

definition fixture_lookup :: SnapshotSkillLookupDocument where
  "fixture_lookup =
     \<lparr>sld_snapshot_date = ''2025-01-15'', sld_total_entries = 4,
      sld_entries = [(''o/r/alpha'', \<lparr>lk_page = 1, lk_index = 0\<rparr>),
                     (''o/r/beta'', \<lparr>lk_page = 1, lk_index = 5\<rparr>),
                     (''o/r/gamma'', \<lparr>lk_page = 2, lk_index = 0\<rparr>),
                     (''o/r/omega'', \<lparr>lk_page = 3, lk_index = 1\<rparr>)]\<rparr>"

definition fixture_page_text :: string where
  "fixture_page_text = ''[{\"source\":\"o/r\",\"skillId\":\"alpha\",\"name\":\"Alpha Tool\",\"installs\":100}]''"

definition fixture_page :: "SnapshotSkillPageItem list" where
  "fixture_page =
     [\<lparr>spi_source = ''o/r'', spi_skillId = ''alpha'', spi_name = ''Alpha Tool'', spi_installs = Some 100\<rparr>]"

definition fixture_page3_text :: string where
  "fixture_page3_text =
     ''[{\"source\":\"o/r\",\"skillId\":\"zeta\",\"name\":\"Zeta\",\"installs\":7},''
     @ ''{\"source\":\"o/r\",\"skillId\":\"omega\",\"name\":\"Omega\"}]''"

definition fixture_page3 :: "SnapshotSkillPageItem list" where
  "fixture_page3 =
     [\<lparr>spi_source = ''o/r'', spi_skillId = ''zeta'', spi_name = ''Zeta'', spi_installs = Some 7\<rparr>,
      \<lparr>spi_source = ''o/r'', spi_skillId = ''omega'', spi_name = ''Omega'', spi_installs = None\<rparr>]"

definition fixture_skills_manifest_text :: string where
  "fixture_skills_manifest_text =
     ''{\"snapshot_date\":\"2025-01-15\",\"total_skills\":5,\"page_size\":2,\"page_count\":3}''"

definition fixture_skills_manifest :: SnapshotSkillsManifest where
  "fixture_skills_manifest =
     \<lparr>ssm_snapshot_date = ''2025-01-15'', ssm_total_skills = Some 5, ssm_page_size = Some 2,
      ssm_page_count = 3\<rparr>"

definition snapshot_platform :: platform where
  "snapshot_platform =
     manifest_platform
       \<lparr>parse_SnapshotSkillsManifest := map_of [(fixture_skills_manifest_text, fixture_skills_manifest)],
        parse_SnapshotSkillPage := map_of [(fixture_page_text, fixture_page),
                                           (fixture_page3_text, fixture_page3)],
        parse_SnapshotSkillLookupDocument := map_of [(fixture_lookup_text, fixture_lookup)]\<rparr>"

definition snapshot_bucket :: Env where
  "snapshot_bucket =
     bucket_of [(LATEST_MANIFEST_KEY, fixture_manifest_text),
                (SNAPSHOT_SKILLS_MANIFEST_KEY ''2025-01-15'', fixture_skills_manifest_text),
                (SNAPSHOT_SKILL_LOOKUP_KEY ''2025-01-15'', fixture_lookup_text),
                (SNAPSHOT_SKILLS_PAGE_KEY ''2025-01-15'' 1, fixture_page_text),
                (SNAPSHOT_SKILLS_PAGE_KEY ''2025-01-15'' 3, fixture_page3_text)]"

text \<open>The record that the synthesis builds for the fourth entry.\<close>

definition fixture_omega_record :: SkillRecord where
  "fixture_omega_record =
     \<lparr>rec_id = ''o/r/omega'', rec_skill_id = ''omega'', rec_owner = ''o'', rec_repo = ''r'',
      rec_canonical_url = ''https://skills.sh/o/r/omega'', rec_total_installs = None,
      rec_name = ''Omega'', rec_github_url = ''https://github.com/o/r'',
      rec_run_id = ''snapshot-2025-01-15'', rec_fetched_at = ''2025-01-15T00:00:00.000Z'',
      rec_rank_at_fetch = 6, rec_parser_version = ''snapshot-proxy''\<rparr>"

text \<open>The slim index of the worker's tests.\<close>

definition fixture_alpha :: SearchIndexItem where
  "fixture_alpha =
     \<lparr>sii_id = ''o/r/alpha'', sii_skill_id = ''alpha'', sii_owner = ''o'', sii_repo = ''r'',
      sii_name = ''Alpha Tool'', sii_canonical_url = ''https://skills.sh/o/r/alpha'',
      sii_total_installs = Some 100, sii_weekly_installs = Some 10, sii_rank_at_fetch = Some 1\<rparr>"

definition fixture_beta :: SearchIndexItem where
  "fixture_beta =
     \<lparr>sii_id = ''o/r/beta'', sii_skill_id = ''beta'', sii_owner = ''o'', sii_repo = ''r'',
      sii_name = ''Beta Tool'', sii_canonical_url = ''https://skills.sh/o/r/beta'',
      sii_total_installs = Some 50, sii_weekly_installs = Some 20, sii_rank_at_fetch = Some 2\<rparr>"

definition fixture_index :: SearchIndexDocument where
  "fixture_index = \<lparr>sid_snapshot_date = ''2025-01-15'', sid_items = Some [fixture_alpha, fixture_beta]\<rparr>"


text \<open>A latest manifest that counts 5 skills, more than the index of the fixture holds.\<close>

definition counted_manifest :: LatestManifest where
  "counted_manifest =
     \<lparr>lm_snapshot_date = ''2025-01-15'', lm_page_size = None,
      lm_counts = Some \<lparr>mc_total_skills = Some 5, mc_total_repos = None\<rparr>\<rparr>"

text \<open>Two items whose names differ in the case of the first letter.\<close>

definition fixture_lower :: SearchIndexItem where
  "fixture_lower =
     \<lparr>sii_id = ''o/r/lower'', sii_skill_id = ''lower'', sii_owner = ''o'', sii_repo = ''r'',
      sii_name = ''alpha tool'', sii_canonical_url = ''https://skills.sh/o/r/lower'',
      sii_total_installs = Some 3, sii_weekly_installs = None, sii_rank_at_fetch = Some 3\<rparr>"

definition fixture_upper :: SearchIndexItem where
  "fixture_upper =
     \<lparr>sii_id = ''o/r/upper'', sii_skill_id = ''upper'', sii_owner = ''o'', sii_repo = ''r'',
      sii_name = ''Zeta Tool'', sii_canonical_url = ''https://skills.sh/o/r/upper'',
      sii_total_installs = None, sii_weekly_installs = Some 4, sii_rank_at_fetch = Some 4\<rparr>"

section \<open>Verified properties\<close>

subsection \<open>Basic facts\<close>

lemma status_json [simp]: "status (json d st h) = st"
  by (simp add: json_def Let_def)

lemma body_json [simp]: "body (json d st h) = Json d"
  by (simp add: json_def Let_def)

lemma io_bind_return [simp]: "io_bind (io_return x) f = f x"
  by (rule ext) (simp add: io_bind_def io_return_def)

lemma io_bind_Inr: "m w = (Inr x, w') \<Longrightarrow> io_bind m f w = f x w'"
  by (simp add: io_bind_def)

lemma io_bind_Inl: "m w = (Inl e, w') \<Longrightarrow> io_bind m f w = (Inl e, w')"
  by (simp add: io_bind_def)

lemma io_bind_cases:
  assumes "io_bind m f w = (r, w'')"
  obtains e where "m w = (Inl e, w'')" "r = Inl e"
  | x w' where "m w = (Inr x, w')" "f x w' = (r, w'')"
  using assms by (auto simp: io_bind_def split: prod.splits sum.splits)

lemma enforce_frame:
  "accesses (snd (enforceRateLimit P nowMs request w)) = accesses w"
  "edge_cache (snd (enforceRateLimit P nowMs request w)) = edge_cache w"
  "cachedLatestManifest (snd (enforceRateLimit P nowMs request w)) = cachedLatestManifest w"
  "parsedSearchCache (snd (enforceRateLimit P nowMs request w)) = parsedSearchCache w"
  by (simp_all add: enforceRateLimit_def sweepExpiredRateLimitEntries_def Let_def split: option.splits)

lemma enforce_blocked_status:
  "blocked (fst (enforceRateLimit P nowMs request w)) = Some resp \<Longrightarrow> status resp = 429"
  by (auto simp: enforceRateLimit_def Let_def split: option.splits if_splits)

lemma rate_limited_admitted:
  assumes "blocked (fst (enforceRateLimit P (now_rate clk) request w)) = None"
  shows "rate_limited P clk request handler w
     = handler (rl_headers (fst (enforceRateLimit P (now_rate clk) request w)))
         (snd (enforceRateLimit P (now_rate clk) request w))"
  using assms by (cases "enforceRateLimit P (now_rate clk) request w") (simp add: rate_limited_def)

lemma rate_limited_blocked:
  assumes "blocked (fst (enforceRateLimit P (now_rate clk) request w)) = Some resp"
  shows "rate_limited P clk request handler w = (Inr resp, snd (enforceRateLimit P (now_rate clk) request w))"
  using assms by (cases "enforceRateLimit P (now_rate clk) request w") (simp add: rate_limited_def)

lemma fetch_get:
  assumes "req_method request = ''GET''"
  shows "fetch_routes P env clk request =
     (let pathname = req_pathname request
      in if startsWith pathname (''/'' @ DATA_PREFIX @ ''/'') \<and> endsWith pathname ''.json''
         then fetch_static P env clk request
         else if pathname = ''/healthz'' then fetch_healthz P env clk request
         else if pathname = ''/v1/stats/summary'' then fetch_stats_summary P env clk request
         else if pathname = ''/v1/skills'' then fetch_skills P env clk request
         else if startsWith pathname ''/v1/skills/'' then fetch_skill_detail P env clk request
         else if startsWith pathname ''/v1/metrics/'' then fetch_metrics P env clk request
         else if pathname = ''/v1/search'' then fetch_search P env clk request
         else io_return (json (ErrorBody ''Not found'') 404 []))"
  using assms by (simp add: fetch_routes_def)

lemma route_search:
  assumes "req_method request = ''GET''" "req_pathname request = ''/v1/search''"
  shows "fetch_routes P env clk request = fetch_search P env clk request"
  using assms by (simp add: fetch_get startsWith_def endsWith_def DATA_PREFIX_def)

lemma route_skills:
  assumes "req_method request = ''GET''" "req_pathname request = ''/v1/skills''"
  shows "fetch_routes P env clk request = fetch_skills P env clk request"
  using assms by (simp add: fetch_get startsWith_def endsWith_def DATA_PREFIX_def)

lemma route_stats_summary:
  assumes "req_method request = ''GET''" "req_pathname request = ''/v1/stats/summary''"
  shows "fetch_routes P env clk request = fetch_stats_summary P env clk request"
  using assms by (simp add: fetch_get startsWith_def endsWith_def DATA_PREFIX_def)

lemma fetch_of_routes:
  assumes "fetch_routes P env clk request w = (Inr r, w')"
  shows "fetch P env clk request w = (r, w')"
  using assms by (simp add: fetch_def)

lemma fetch_status_cases:
  obtains (thrown) e w' where "fetch_routes P env clk request w = (Inl e, w')"
      "status (fst (fetch P env clk request w)) = 500"
  | (returned) r w' where "fetch_routes P env clk request w = (Inr r, w')"
      "fetch P env clk request w = (r, w')"
proof (cases "fetch_routes P env clk request w")
  case (Pair a w')
  show ?thesis
  proof (cases a)
    case (Inl e)
    then show ?thesis using Pair thrown [of e w'] by (cases e) (simp add: fetch_def)
  next
    case (Inr r)
    then show ?thesis using Pair returned [of r w'] by (simp add: fetch_def)
  qed
qed

subsection \<open>RateLimiter\<close>

lemma entry_after_sweep:
  "rateLimitByClient (sweepExpiredRateLimitEntries nowMs w) c =
     (if nowMs - lastRateLimitSweepMs w < 60000 then rateLimitByClient w c
      else case rateLimitByClient w c of None \<Rightarrow> None
           | Some s \<Rightarrow> if nowMs - windowStartMs s \<ge> 60000 then None else Some s)"
  by (simp add: sweepExpiredRateLimitEntries_def RATE_LIMIT_WINDOW_MS_def split: option.splits)

lemma sweep_budget:
  assumes "t0 \<le> nowMs" "count_ok (rateLimitByClient w c)"
  shows "count_ok (rateLimitByClient (sweepExpiredRateLimitEntries nowMs w) c) \<and>
     window_budget (rateLimitByClient (sweepExpiredRateLimitEntries nowMs w) c) nowMs start
       \<le> window_budget (rateLimitByClient w c) t0 start"
  using assms
  by (auto simp: entry_after_sweep window_budget_def count_ok_def split: option.splits)

lemma enforce_other:
  assumes "getRateLimitClientId P r \<noteq> c"
  shows "rateLimitByClient (snd (enforceRateLimit P nowMs r w)) c
     = rateLimitByClient (sweepExpiredRateLimitEntries nowMs w) c"
  using assms
  by (auto simp: enforceRateLimit_def Let_def split: option.splits)

lemma enforce_same:
  assumes "getRateLimitClientId P r = c"
  shows "rateLimitByClient (snd (enforceRateLimit P nowMs r w)) c =
      Some (case rateLimitByClient (sweepExpiredRateLimitEntries nowMs w) c of
              None \<Rightarrow> \<lparr>windowStartMs = nowMs, count = 1\<rparr>
            | Some s \<Rightarrow> if nowMs - windowStartMs s \<ge> 60000 then \<lparr>windowStartMs = nowMs, count = 1\<rparr>
                        else if count s \<ge> 60 then s else s\<lparr>count := count s + 1\<rparr>)"
    and "(blocked (fst (enforceRateLimit P nowMs r w)) = None) =
      (case rateLimitByClient (sweepExpiredRateLimitEntries nowMs w) c of
              None \<Rightarrow> True
            | Some s \<Rightarrow> nowMs - windowStartMs s \<ge> 60000 \<or> count s < 60)"
  using assms
  by (auto simp: enforceRateLimit_def Let_def RATE_LIMIT_WINDOW_MS_def RATE_LIMIT_MAX_REQUESTS_def
           split: option.splits)

lemma same_budget:
  fixes nowMs :: int and start :: int
  assumes "count_ok e1"
  defines "e2 \<equiv> (case e1 of
              None \<Rightarrow> \<lparr>windowStartMs = nowMs, count = 1\<rparr>
            | Some s \<Rightarrow> if nowMs - windowStartMs s \<ge> 60000 then \<lparr>windowStartMs = nowMs, count = 1\<rparr>
                        else if count s \<ge> 60 then s else s\<lparr>count := count s + 1\<rparr>)"
  defines "ok \<equiv> (case e1 of None \<Rightarrow> True | Some s \<Rightarrow> nowMs - windowStartMs s \<ge> 60000 \<or> count s < 60)"
  shows "count_ok (Some e2) \<and>
     (if ok \<and> windowStartMs e2 = start then 1 else 0) + window_budget (Some e2) nowMs start
       \<le> window_budget e1 nowMs start"
  using assms
  by (auto simp: window_budget_def count_ok_def split: option.splits)

lemma step_budget:
  fixes nowMs :: int and P r
  assumes "t0 \<le> nowMs" "count_ok (rateLimitByClient w c)"
  defines "res \<equiv> enforceRateLimit P nowMs r w"
  shows "count_ok (rateLimitByClient (snd res) c) \<and>
     (if getRateLimitClientId P r = c \<and> blocked (fst res) = None \<and>
         map_option windowStartMs (rateLimitByClient (snd res) (getRateLimitClientId P r)) = Some start
      then 1 else 0)
       + window_budget (rateLimitByClient (snd res) c) nowMs start
       \<le> window_budget (rateLimitByClient w c) t0 start"
proof (cases "getRateLimitClientId P r = c")
  case False
  then show ?thesis
    using sweep_budget [OF assms(1,2), of start] by (simp add: res_def enforce_other)
next
  case True
  let ?e1 = "rateLimitByClient (sweepExpiredRateLimitEntries nowMs w) c"
  have sw: "count_ok ?e1" "window_budget ?e1 nowMs start \<le> window_budget (rateLimitByClient w c) t0 start"
    using sweep_budget [OF assms(1,2), of start] by simp_all
  show ?thesis
    using same_budget [OF sw(1), of nowMs start] sw(2) True
    by (simp add: res_def enforce_same [OF True] del: One_nat_def split: if_splits)
qed

lemma serve_budget:
  assumes "sorted (map fst rs)" "\<forall>x \<in> set rs. t0 \<le> fst x" "count_ok (rateLimitByClient w c)"
  shows "int (admitted_in_window c start (serve P rs w)) \<le> window_budget (rateLimitByClient w c) t0 start"
  using assms
proof (induction rs arbitrary: w t0)
  case Nil
  then show ?case
    by (auto simp: admitted_in_window_def window_budget_def count_ok_def split: option.splits)
next
  case (Cons x rs)
  obtain nowMs r where x: "x = (nowMs, r)" by (cases x)
  let ?res = "enforceRateLimit P nowMs r w"
  have t: "t0 \<le> nowMs" using Cons.prems(2) x by simp
  have st: "count_ok (rateLimitByClient (snd ?res) c)"
    and le: "(if getRateLimitClientId P r = c \<and> blocked (fst ?res) = None \<and>
         map_option windowStartMs (rateLimitByClient (snd ?res) (getRateLimitClientId P r)) = Some start
       then 1 else 0)
       + window_budget (rateLimitByClient (snd ?res) c) nowMs start
       \<le> window_budget (rateLimitByClient w c) t0 start"
    using step_budget [OF t Cons.prems(3), of P r start] by simp_all
  have ih: "int (admitted_in_window c start (serve P rs (snd ?res)))
          \<le> window_budget (rateLimitByClient (snd ?res) c) nowMs start"
    using Cons.prems(1) x st by (intro Cons.IH) auto
  have hd: "int (admitted_in_window c start (serve P (x # rs) w)) =
      (if getRateLimitClientId P r = c \<and> blocked (fst ?res) = None \<and>
         map_option windowStartMs (rateLimitByClient (snd ?res) (getRateLimitClientId P r)) = Some start
       then 1 else 0)
      + int (admitted_in_window c start (serve P rs (snd ?res)))"
    by (auto simp: x admitted_in_window_def Let_def)
  show ?case
    using le ih unfolding hd by linarith
qed

lemma serve_from_no_entry:
  assumes "sorted (map fst rs)" "rateLimitByClient w c = None"
  shows "admitted_in_window c start (serve P rs w) \<le> 60"
proof (cases rs)
  case Nil
  then show ?thesis by (simp add: admitted_in_window_def)
next
  case (Cons x xs)
  have "\<forall>y \<in> set rs. fst x \<le> fst y" using assms(1) Cons by auto
  from serve_budget [OF assms(1) this, of w c start P] assms(2)
  show ?thesis by (simp add: count_ok_def window_budget_def split: if_splits)
qed

lemma enforce_fresh_window:
  assumes "rateLimitByClient w0 (getRateLimitClientId P request) = None \<or>
     (\<exists>s. rateLimitByClient w0 (getRateLimitClientId P request) = Some s
          \<and> nowMs - windowStartMs s \<ge> 60000)"
  shows "blocked (fst (enforceRateLimit P nowMs request w0)) = None \<and>
      rateLimitByClient (snd (enforceRateLimit P nowMs request w0)) (getRateLimitClientId P request)
        = Some \<lparr>windowStartMs = nowMs, count = 1\<rparr>"
  using assms
  by (auto simp: enforceRateLimit_def sweepExpiredRateLimitEntries_def Let_def
        RATE_LIMIT_WINDOW_MS_def split: option.splits)

lemma enforce_increment:
  assumes "rateLimitByClient w0 (getRateLimitClientId P request) = Some s"
    "nowMs - windowStartMs s < 60000" "count s < 60"
  shows "blocked (fst (enforceRateLimit P nowMs request w0)) = None \<and>
      rateLimitByClient (snd (enforceRateLimit P nowMs request w0)) (getRateLimitClientId P request)
        = Some (s\<lparr>count := count s + 1\<rparr>)"
  using assms
  by (auto simp: enforceRateLimit_def sweepExpiredRateLimitEntries_def Let_def
        RATE_LIMIT_WINDOW_MS_def RATE_LIMIT_MAX_REQUESTS_def split: option.splits)

lemma enforce_block:
  assumes "rateLimitByClient w0 (getRateLimitClientId P request) = Some s"
    "nowMs - windowStartMs s < 60000" "count s \<ge> 60"
  shows "\<exists>resp. blocked (fst (enforceRateLimit P nowMs request w0)) = Some resp \<and> status resp = 429 \<and>
      map_of (headers resp) ''Retry-After''
        = Some (String_of (max 1 (ceil_div_1000 (windowStartMs s + 60000 - nowMs)))) \<and>
      body resp = Json (TooManyRequests (max 1 (ceil_div_1000 (windowStartMs s + 60000 - nowMs)))) \<and>
      rateLimitByClient (snd (enforceRateLimit P nowMs request w0)) (getRateLimitClientId P request)
        = Some s"
  using assms
  by (auto simp: enforceRateLimit_def sweepExpiredRateLimitEntries_def Let_def
        RATE_LIMIT_WINDOW_MS_def RATE_LIMIT_MAX_REQUESTS_def json_def spread_def
        rateLimitHeaders_def CORS_HEADERS_def split: option.splits)

text \<open>
  C1. One call of \<open>enforceRateLimit\<close>, for the client \<open>c\<close> of the request and the
  entry the limiter holds for it: with no entry, or an entry whose window has elapsed
  (\<open>nowMs - windowStartMs \<ge> 60000\<close>), the request is admitted and the entry becomes a
  fresh window with count 1; with an entry in its window and a count below 60, the request
  is admitted and the count goes up by one; otherwise the request is blocked with status
  429, the header \<open>Retry-After\<close> and the body carry
  \<open>max(1, ceil((windowStartMs + 60000 - nowMs) / 1000))\<close>, which is at least 1, and
  the entry stays as it is. Over a run of requests served at times that do not decrease,
  from a state with no entry for a client, the requests of that client admitted into any
  one window (the window that starts at \<open>start\<close>) are at most 60, whatever the other
  clients send in between.
\<close>

theorem enforceRateLimit_at_most_60_per_window:
  fixes P :: platform and request :: request and nowMs :: int and w0 w :: world
  shows "(let c = getRateLimitClientId P request;
              res = enforceRateLimit P nowMs request w0;
              entry' = rateLimitByClient (snd res) c
          in (rateLimitByClient w0 c = None
                \<or> (\<exists>s. rateLimitByClient w0 c = Some s \<and> nowMs - windowStartMs s \<ge> 60000)
              \<longrightarrow> blocked (fst res) = None \<and> entry' = Some \<lparr>windowStartMs = nowMs, count = 1\<rparr>)
           \<and> (\<forall>s. rateLimitByClient w0 c = Some s \<and> nowMs - windowStartMs s < 60000 \<and> count s < 60
              \<longrightarrow> blocked (fst res) = None \<and> entry' = Some (s\<lparr>count := count s + 1\<rparr>))
           \<and> (\<forall>s. rateLimitByClient w0 c = Some s \<and> nowMs - windowStartMs s < 60000 \<and> count s \<ge> 60
              \<longrightarrow> (\<exists>resp. blocked (fst res) = Some resp \<and> status resp = 429
                     \<and> map_of (headers resp) ''Retry-After''
                         = Some (String_of (max 1 (ceil_div_1000 (windowStartMs s + 60000 - nowMs))))
                     \<and> body resp
                         = Json (TooManyRequests (max 1 (ceil_div_1000 (windowStartMs s + 60000 - nowMs))))
                     \<and> 1 \<le> max 1 (ceil_div_1000 (windowStartMs s + 60000 - nowMs))
                     \<and> entry' = Some s)))
         \<and> (sorted (map fst rs) \<and> rateLimitByClient w client = None
              \<longrightarrow> admitted_in_window client start (serve P rs w) \<le> 60)"
proof -
  let ?c = "getRateLimitClientId P request"
  let ?res = "enforceRateLimit P nowMs request w0"
  have a: "rateLimitByClient w0 ?c = None
        \<or> (\<exists>s. rateLimitByClient w0 ?c = Some s \<and> nowMs - windowStartMs s \<ge> 60000)
      \<longrightarrow> blocked (fst ?res) = None
          \<and> rateLimitByClient (snd ?res) ?c = Some \<lparr>windowStartMs = nowMs, count = 1\<rparr>"
    using enforce_fresh_window [of w0 P request nowMs] by blast
  have b: "\<forall>s. rateLimitByClient w0 ?c = Some s \<and> nowMs - windowStartMs s < 60000 \<and> count s < 60
      \<longrightarrow> blocked (fst ?res) = None
          \<and> rateLimitByClient (snd ?res) ?c = Some (s\<lparr>count := count s + 1\<rparr>)"
    using enforce_increment [of w0 P request _ nowMs] by blast
  have c: "\<forall>s. rateLimitByClient w0 ?c = Some s \<and> nowMs - windowStartMs s < 60000 \<and> count s \<ge> 60
      \<longrightarrow> (\<exists>resp. blocked (fst ?res) = Some resp \<and> status resp = 429
             \<and> map_of (headers resp) ''Retry-After''
                 = Some (String_of (max 1 (ceil_div_1000 (windowStartMs s + 60000 - nowMs))))
             \<and> body resp
                 = Json (TooManyRequests (max 1 (ceil_div_1000 (windowStartMs s + 60000 - nowMs))))
             \<and> 1 \<le> max 1 (ceil_div_1000 (windowStartMs s + 60000 - nowMs))
             \<and> rateLimitByClient (snd ?res) ?c = Some s)"
  proof (intro allI impI)
    fix s
    assume h: "rateLimitByClient w0 ?c = Some s \<and> nowMs - windowStartMs s < 60000 \<and> count s \<ge> 60"
    from enforce_block [of w0 P request s nowMs] h
    obtain resp where r: "blocked (fst ?res) = Some resp" "status resp = 429"
      "map_of (headers resp) ''Retry-After''
         = Some (String_of (max 1 (ceil_div_1000 (windowStartMs s + 60000 - nowMs))))"
      "body resp = Json (TooManyRequests (max 1 (ceil_div_1000 (windowStartMs s + 60000 - nowMs))))"
      "rateLimitByClient (snd ?res) ?c = Some s"
      by blast
    have "1 \<le> max 1 (ceil_div_1000 (windowStartMs s + 60000 - nowMs))" by simp
    with r show "\<exists>resp. blocked (fst ?res) = Some resp \<and> status resp = 429
             \<and> map_of (headers resp) ''Retry-After''
                 = Some (String_of (max 1 (ceil_div_1000 (windowStartMs s + 60000 - nowMs))))
             \<and> body resp
                 = Json (TooManyRequests (max 1 (ceil_div_1000 (windowStartMs s + 60000 - nowMs))))
             \<and> 1 \<le> max 1 (ceil_div_1000 (windowStartMs s + 60000 - nowMs))
             \<and> rateLimitByClient (snd ?res) ?c = Some s"
      by blast
  qed
  have d: "sorted (map fst rs) \<and> rateLimitByClient w client = None
      \<longrightarrow> admitted_in_window client start (serve P rs w) \<le> 60"
    using serve_from_no_entry [of rs w client start P] by blast
  show ?thesis
    unfolding Let_def using a b c d by (intro conjI)
qed

theorem enforceRateLimit_at_most_60_per_window_witness:
  "blocked (fst (enforceRateLimit fixture_platform 1000 (fixture_request ''GET'' ''/v1/search'' [])
       initial_world)) = None
   \<and> rateLimitByClient (snd (enforceRateLimit fixture_platform 1000
         (fixture_request ''GET'' ''/v1/search'' []) initial_world)) ''203.0.113.7''
       = Some \<lparr>windowStartMs = 1000, count = 1\<rparr>
   \<and> (\<exists>resp. blocked (fst (enforceRateLimit fixture_platform 1000 (fixture_request ''GET'' ''/v1/search'' [])
         (initial_world\<lparr>rateLimitByClient := [''203.0.113.7'' \<mapsto> \<lparr>windowStartMs = 0, count = 60\<rparr>]\<rparr>)))
         = Some resp
        \<and> status resp = 429 \<and> map_of (headers resp) ''Retry-After'' = Some ''59'')
   \<and> admitted_in_window ''203.0.113.7'' 0
        (serve fixture_platform
           [(0, fixture_request ''GET'' ''/v1/search'' []), (10, fixture_request ''GET'' ''/v1/search'' []),
            (70000, fixture_request ''GET'' ''/v1/search'' [])] initial_world) \<le> 60"
proof -
  let ?r = "fixture_request ''GET'' ''/v1/search'' []"
  let ?full = "initial_world\<lparr>rateLimitByClient := [''203.0.113.7'' \<mapsto> \<lparr>windowStartMs = 0, count = 60\<rparr>]\<rparr>"
  have c: "getRateLimitClientId fixture_platform ?r = ''203.0.113.7''"
    by (simp add: getRateLimitClientId_def fixture_platform_def fixture_request_def fixture_trim_def
          is_space_def)
  have s59: "String_of 59 = ''59''"
    by code_simp
  have cd: "ceil_div_1000 59000 = 59"
    by (simp add: ceil_div_1000_def)
  have fresh: "blocked (fst (enforceRateLimit fixture_platform 1000 ?r initial_world)) = None
     \<and> rateLimitByClient (snd (enforceRateLimit fixture_platform 1000 ?r initial_world)) ''203.0.113.7''
       = Some \<lparr>windowStartMs = 1000, count = 1\<rparr>"
    using enforceRateLimit_at_most_60_per_window
            [where P = fixture_platform and request = ?r and nowMs = 1000 and ?w0.0 = initial_world
               and rs = "[]" and w = initial_world and client = "[]" and start = 0]
    by (simp add: c Let_def initial_world_def)
  have full: "\<exists>resp. blocked (fst (enforceRateLimit fixture_platform 1000 ?r ?full)) = Some resp
        \<and> status resp = 429 \<and> map_of (headers resp) ''Retry-After'' = Some ''59''"
    using enforceRateLimit_at_most_60_per_window
            [where P = fixture_platform and request = ?r and nowMs = 1000 and ?w0.0 = ?full
               and rs = "[]" and w = initial_world and client = "[]" and start = 0]
    by (auto simp: c Let_def initial_world_def s59 cd)
  have run: "admitted_in_window ''203.0.113.7'' 0
        (serve fixture_platform [(0, ?r), (10, ?r), (70000, ?r)] initial_world) \<le> 60"
    using enforceRateLimit_at_most_60_per_window
            [where P = fixture_platform and request = ?r and nowMs = 1000 and ?w0.0 = initial_world
               and rs = "[(0, ?r), (10, ?r), (70000, ?r)]"
               and w = initial_world and client = "''203.0.113.7''" and start = 0]
    by (simp add: initial_world_def)
  show ?thesis using fresh full run by blast
qed

subsection \<open>CacheTier: malformed JSON\<close>

lemma record_access_fields [simp]:
  "edge_cache (record_access a w) = edge_cache w"
  "cachedLatestManifest (record_access a w) = cachedLatestManifest w"
  "parsedSearchCache (record_access a w) = parsedSearchCache w"
  "rateLimitByClient (record_access a w) = rateLimitByClient w"
  "lastRateLimitSweepMs (record_access a w) = lastRateLimitSweepMs w"
  "accesses (record_access a w) = accesses w @ [a]"
  by (simp_all add: record_access_def)

lemma load_text_result:
  "\<exists>t. fst (loadJsonTextWithCache env key request sfx w) = Inr t"
  by (simp add: loadJsonTextWithCache_def Let_def split: option.splits)

lemma load_text_frame:
  "cachedLatestManifest (snd (loadJsonTextWithCache env key request sfx w)) = cachedLatestManifest w"
  "parsedSearchCache (snd (loadJsonTextWithCache env key request sfx w)) = parsedSearchCache w"
  "rateLimitByClient (snd (loadJsonTextWithCache env key request sfx w)) = rateLimitByClient w"
  by (simp_all add: loadJsonTextWithCache_def Let_def split: option.splits)

lemma load_text_cached:
  assumes "loadJsonTextWithCache env key request sfx w = (Inr (Some text), w1)"
  shows "edge_cache w1 (cacheRequest request sfx) = Some text"
  using assms by (auto simp: loadJsonTextWithCache_def Let_def split: option.splits)

lemma load_text_hit:
  assumes "edge_cache w (cacheRequest request sfx) = Some text" "SKILLSIGHT_DATA env \<noteq> None"
  shows "loadJsonTextWithCache env key request sfx w
     = (Inr (Some text), record_access (CacheMatch (cacheRequest request sfx)) w)"
  using assms by (auto simp: loadJsonTextWithCache_def Let_def split: option.splits)

lemma load_object_malformed:
  assumes "loadJsonTextWithCache env key request sfx w = (Inr (Some text), w1)"
    "text \<noteq> []" "JSON_parse text = None"
  shows "loadJsonObjectWithCache JSON_parse env key request sfx w
     = (Inl (Error (''Invalid JSON in '' @ key)), w1)"
  using assms
  by (simp add: loadJsonObjectWithCache_def io_bind_def truthy_def orElse_def parseJson_def io_of_def
        io_throw_def)

lemma load_object_frame:
  "cachedLatestManifest (snd (loadJsonObjectWithCache JSON_parse env key request sfx w)) = cachedLatestManifest w"
  "parsedSearchCache (snd (loadJsonObjectWithCache JSON_parse env key request sfx w)) = parsedSearchCache w"
proof -
  obtain t w1 where l: "loadJsonTextWithCache env key request sfx w = (Inr t, w1)"
    using load_text_result [of env key request sfx w]
    by (cases "loadJsonTextWithCache env key request sfx w") auto
  have f: "cachedLatestManifest w1 = cachedLatestManifest w" "parsedSearchCache w1 = parsedSearchCache w"
    using load_text_frame [of env key request sfx w] l by simp_all
  show "cachedLatestManifest (snd (loadJsonObjectWithCache JSON_parse env key request sfx w)) = cachedLatestManifest w"
    "parsedSearchCache (snd (loadJsonObjectWithCache JSON_parse env key request sfx w)) = parsedSearchCache w"
    using l f
    by (simp_all add: loadJsonObjectWithCache_def io_bind_def io_return_def io_throw_def io_of_def
          parseJson_def split: option.splits sum.splits)
qed

lemma loadLatestManifest_thrown_frame:
  assumes "loadLatestManifest P env nowMs request w = (Inl e, w')"
  shows "cachedLatestManifest w' = cachedLatestManifest w \<and> parsedSearchCache w' = parsedSearchCache w"
proof -
  have t: "\<And>key sfx w0 r w1. loadJsonTextWithCache env key request sfx w0 = (r, w1) \<Longrightarrow>
      cachedLatestManifest w1 = cachedLatestManifest w0 \<and> parsedSearchCache w1 = parsedSearchCache w0"
    using load_text_frame by (metis snd_conv)
  have m: "\<And>d w0 r w1. loadSnapshotSkillsManifest P env d request w0 = (r, w1) \<Longrightarrow>
      cachedLatestManifest w1 = cachedLatestManifest w0 \<and> parsedSearchCache w1 = parsedSearchCache w0"
    unfolding loadSnapshotSkillsManifest_def using load_object_frame by (metis snd_conv)
  show ?thesis
    using assms unfolding loadLatestManifest_def
    by (auto elim!: io_bind_cases dest!: t m
          simp: io_return_def io_throw_def io_of_def parseJson_def remember_manifest_def
          split: option.splits if_splits sum.splits)
qed

lemma loadSearchIndex_thrown_frame:
  assumes "loadSearchIndex P env nowMs snapshotDate request w = (Inl e, w')"
  shows "cachedLatestManifest w' = cachedLatestManifest w \<and> parsedSearchCache w' = parsedSearchCache w"
proof -
  have t: "\<And>key sfx w0 r w1. loadJsonTextWithCache env key request sfx w0 = (r, w1) \<Longrightarrow>
      cachedLatestManifest w1 = cachedLatestManifest w0 \<and> parsedSearchCache w1 = parsedSearchCache w0"
    using load_text_frame by (metis snd_conv)
  show ?thesis
    using assms unfolding loadSearchIndex_def Let_def
    by (auto elim!: io_bind_cases dest!: t
          simp: io_return_def io_throw_def io_of_def parseJson_def
          split: option.splits if_splits sum.splits)
qed

lemma load_text_visible:
  assumes "SKILLSIGHT_DATA env = Some bucket"
    "(case edge_cache w (cacheRequest request sfx) of Some t \<Rightarrow> t = stored | None \<Rightarrow> bucket key = Some stored)"
  shows "\<exists>w1. loadJsonTextWithCache env key request sfx w = (Inr (Some stored), w1)"
  using assms by (auto simp: loadJsonTextWithCache_def Let_def split: option.splits)

text \<open>
  C2, as the spec states it, fails for the edge response cache. \<open>loadJsonTextWithCache\<close>
  writes the text it read from the bucket to the edge cache before anything parses it. Here
  the manifest object holds \<open>{not-json\<close>: the load throws \<open>Invalid JSON in
  data/v1/latest.json\<close>, the edge cache then holds \<open>{not-json\<close> under the cache
  key of the manifest, and a second load, after the object in the bucket has been replaced
  by a manifest that parses, is served from the edge cache, does not read the bucket, and
  throws again.
\<close>

theorem malformed_manifest_stays_in_edge_cache:
  "fst (loadJsonObjectWithCache (parse_LatestManifest manifest_platform)
          (bucket_of [(LATEST_MANIFEST_KEY, ''{not-json'')]) LATEST_MANIFEST_KEY
          (fixture_request ''GET'' ''/v1/search'' []) ''latest-manifest'' initial_world)
     = Inl (Error ''Invalid JSON in data/v1/latest.json'')
   \<and> edge_cache (snd (loadJsonObjectWithCache (parse_LatestManifest manifest_platform)
          (bucket_of [(LATEST_MANIFEST_KEY, ''{not-json'')]) LATEST_MANIFEST_KEY
          (fixture_request ''GET'' ''/v1/search'' []) ''latest-manifest'' initial_world))
        ''https://worker.test/cache/latest-manifest'' = Some ''{not-json''
   \<and> parse_LatestManifest manifest_platform fixture_manifest_text = Some fixture_manifest
   \<and> loadJsonObjectWithCache (parse_LatestManifest manifest_platform)
          (bucket_of [(LATEST_MANIFEST_KEY, fixture_manifest_text)]) LATEST_MANIFEST_KEY
          (fixture_request ''GET'' ''/v1/search'' []) ''latest-manifest''
          (snd (loadJsonObjectWithCache (parse_LatestManifest manifest_platform)
                  (bucket_of [(LATEST_MANIFEST_KEY, ''{not-json'')]) LATEST_MANIFEST_KEY
                  (fixture_request ''GET'' ''/v1/search'' []) ''latest-manifest'' initial_world))
     = (Inl (Error ''Invalid JSON in data/v1/latest.json''),
        record_access (CacheMatch ''https://worker.test/cache/latest-manifest'')
          (snd (loadJsonObjectWithCache (parse_LatestManifest manifest_platform)
                  (bucket_of [(LATEST_MANIFEST_KEY, ''{not-json'')]) LATEST_MANIFEST_KEY
                  (fixture_request ''GET'' ''/v1/search'' []) ''latest-manifest'' initial_world)))"
  by (simp add: loadJsonObjectWithCache_def loadJsonTextWithCache_def bucket_of_def
        LATEST_MANIFEST_KEY_def DATA_PREFIX_def fixture_request_def cacheRequest_def initial_world_def
        io_bind_def io_return_def io_throw_def io_of_def parseJson_def truthy_def orElse_def
        record_access_def Let_def manifest_platform_def fixture_platform_def fixture_manifest_text_def misdated_manifest_text_def)

text \<open>
  C2, amended. When the text that a load by key sees (the entry of the edge cache, or else
  the object in the bucket) is not empty and does not parse, the load throws an error whose
  message is \<open>Invalid JSON in\<close> followed by the key. The in-process decoded caches are
  left as they were: a load of the manifest or of the search index that throws changes
  neither. The edge response cache, however, holds the malformed text after the failure,
  and a subsequent load by the same key is served from it: it throws the same error and
  its only access to storage is the lookup in the edge cache.
\<close>

theorem malformed_json_throws_with_key_and_is_cached_at_the_edge:
  "(SKILLSIGHT_DATA env = Some bucket
      \<and> (case edge_cache w (cacheRequest request sfx) of Some t \<Rightarrow> t = stored | None \<Rightarrow> bucket key = Some stored)
      \<and> stored \<noteq> [] \<and> JSON_parse stored = None
    \<longrightarrow> (\<exists>w1. loadJsonObjectWithCache JSON_parse env key request sfx w
                 = (Inl (Error (''Invalid JSON in '' @ key)), w1)
            \<and> cachedLatestManifest w1 = cachedLatestManifest w
            \<and> parsedSearchCache w1 = parsedSearchCache w
            \<and> edge_cache w1 (cacheRequest request sfx) = Some stored
            \<and> (SKILLSIGHT_DATA env' \<noteq> None
                 \<longrightarrow> loadJsonObjectWithCache JSON_parse env' key request sfx w1
                     = (Inl (Error (''Invalid JSON in '' @ key)),
                        record_access (CacheMatch (cacheRequest request sfx)) w1))))
   \<and> (loadLatestManifest P env nowMs request w = (Inl e, w')
    \<longrightarrow> cachedLatestManifest w' = cachedLatestManifest w \<and> parsedSearchCache w' = parsedSearchCache w)
   \<and> (loadSearchIndex P env nowMs snapshotDate request w = (Inl e, w')
    \<longrightarrow> cachedLatestManifest w' = cachedLatestManifest w \<and> parsedSearchCache w' = parsedSearchCache w)"
proof (intro conjI impI)
  assume h: "SKILLSIGHT_DATA env = Some bucket
      \<and> (case edge_cache w (cacheRequest request sfx) of Some t \<Rightarrow> t = stored | None \<Rightarrow> bucket key = Some stored)
      \<and> stored \<noteq> [] \<and> JSON_parse stored = None"
  then obtain w1 where l: "loadJsonTextWithCache env key request sfx w = (Inr (Some stored), w1)"
    using load_text_visible [where env = env and bucket = bucket and w = w and request = request
            and sfx = sfx and stored = stored and key = key] by blast
  have 1: "loadJsonObjectWithCache JSON_parse env key request sfx w
      = (Inl (Error (''Invalid JSON in '' @ key)), w1)"
    using load_object_malformed [where JSON_parse = JSON_parse, OF l] h by simp
  have 2: "cachedLatestManifest w1 = cachedLatestManifest w" "parsedSearchCache w1 = parsedSearchCache w"
    using load_text_frame [of env key request sfx w] l by simp_all
  have 3: "edge_cache w1 (cacheRequest request sfx) = Some stored"
    using load_text_cached [OF l] .
  have 4: "SKILLSIGHT_DATA env' \<noteq> None
      \<longrightarrow> loadJsonObjectWithCache JSON_parse env' key request sfx w1
          = (Inl (Error (''Invalid JSON in '' @ key)),
             record_access (CacheMatch (cacheRequest request sfx)) w1)"
    using load_object_malformed [where JSON_parse = JSON_parse, OF load_text_hit [OF 3, of env' key]] h by simp
  show "\<exists>w1. loadJsonObjectWithCache JSON_parse env key request sfx w
                 = (Inl (Error (''Invalid JSON in '' @ key)), w1)
            \<and> cachedLatestManifest w1 = cachedLatestManifest w
            \<and> parsedSearchCache w1 = parsedSearchCache w
            \<and> edge_cache w1 (cacheRequest request sfx) = Some stored
            \<and> (SKILLSIGHT_DATA env' \<noteq> None
                 \<longrightarrow> loadJsonObjectWithCache JSON_parse env' key request sfx w1
                     = (Inl (Error (''Invalid JSON in '' @ key)),
                        record_access (CacheMatch (cacheRequest request sfx)) w1))"
    using 1 2 3 4 by blast
qed (simp_all add: loadLatestManifest_thrown_frame loadSearchIndex_thrown_frame)

theorem malformed_json_throws_with_key_and_is_cached_at_the_edge_witness:
  "(\<exists>w1. loadJsonObjectWithCache (parse_LatestManifest manifest_platform)
            (bucket_of [(LATEST_MANIFEST_KEY, ''{not-json'')]) LATEST_MANIFEST_KEY
            (fixture_request ''GET'' ''/v1/search'' []) ''latest-manifest'' initial_world
          = (Inl (Error ''Invalid JSON in data/v1/latest.json''), w1)
        \<and> cachedLatestManifest w1 = None
        \<and> edge_cache w1 ''https://worker.test/cache/latest-manifest'' = Some ''{not-json''
        \<and> fst (loadJsonObjectWithCache (parse_LatestManifest manifest_platform)
            (bucket_of [(LATEST_MANIFEST_KEY, fixture_manifest_text)]) LATEST_MANIFEST_KEY
            (fixture_request ''GET'' ''/v1/search'' []) ''latest-manifest'' w1)
          = Inl (Error ''Invalid JSON in data/v1/latest.json''))
   \<and> fst (loadLatestManifest manifest_platform (bucket_of [(LATEST_MANIFEST_KEY, ''{not-json'')]) 1000
            (fixture_request ''GET'' ''/v1/search'' []) initial_world)
        = Inl (Error ''Invalid JSON in data/v1/latest.json'')
   \<and> cachedLatestManifest (snd (loadLatestManifest manifest_platform
            (bucket_of [(LATEST_MANIFEST_KEY, ''{not-json'')]) 1000
            (fixture_request ''GET'' ''/v1/search'' []) initial_world)) = None"
proof -
  let ?env = "bucket_of [(LATEST_MANIFEST_KEY, ''{not-json'')]"
  let ?r = "fixture_request ''GET'' ''/v1/search'' []"
  have k: "LATEST_MANIFEST_KEY = ''data/v1/latest.json''"
    by (simp add: LATEST_MANIFEST_KEY_def DATA_PREFIX_def)
  have c: "cacheRequest ?r ''latest-manifest'' = ''https://worker.test/cache/latest-manifest''"
    by (simp add: cacheRequest_def fixture_request_def)
  have p: "parse_LatestManifest manifest_platform ''{not-json'' = None"
    by (simp add: manifest_platform_def fixture_manifest_text_def misdated_manifest_text_def)
  have t: "fst (loadLatestManifest manifest_platform ?env 1000 ?r initial_world)
      = Inl (Error ''Invalid JSON in data/v1/latest.json'')"
    by (simp add: loadLatestManifest_def fresh_manifest_def initial_world_def loadJsonTextWithCache_def
          bucket_of_def k c p io_bind_def io_of_def parseJson_def io_throw_def truthy_def orElse_def
          record_access_def Let_def)
  have l: "loadLatestManifest manifest_platform ?env 1000 ?r initial_world
      = (Inl (Error ''Invalid JSON in data/v1/latest.json''),
         snd (loadLatestManifest manifest_platform ?env 1000 ?r initial_world))"
    using t by (simp add: prod_eq_iff)
  note inst = malformed_json_throws_with_key_and_is_cached_at_the_edge
            [where env = ?env and bucket = "map_of [(LATEST_MANIFEST_KEY, ''{not-json'')]"
               and w = initial_world and request = ?r and sfx = "''latest-manifest''"
               and stored = "''{not-json''" and key = LATEST_MANIFEST_KEY
               and JSON_parse = "parse_LatestManifest manifest_platform"
               and env' = "bucket_of [(LATEST_MANIFEST_KEY, fixture_manifest_text)]"
               and P = manifest_platform and nowMs = 1000
               and e = "Error ''Invalid JSON in data/v1/latest.json''"
               and w' = "snd (loadLatestManifest manifest_platform ?env 1000 ?r initial_world)"
               and snapshotDate = "''2025-01-15''"]
  have a: "\<exists>w1. loadJsonObjectWithCache (parse_LatestManifest manifest_platform) ?env
            LATEST_MANIFEST_KEY ?r ''latest-manifest'' initial_world
          = (Inl (Error ''Invalid JSON in data/v1/latest.json''), w1)
        \<and> cachedLatestManifest w1 = None
        \<and> edge_cache w1 ''https://worker.test/cache/latest-manifest'' = Some ''{not-json''
        \<and> fst (loadJsonObjectWithCache (parse_LatestManifest manifest_platform)
            (bucket_of [(LATEST_MANIFEST_KEY, fixture_manifest_text)]) LATEST_MANIFEST_KEY
            ?r ''latest-manifest'' w1)
          = Inl (Error ''Invalid JSON in data/v1/latest.json'')"
    using inst [THEN conjunct1] by (auto simp: bucket_of_def k c p initial_world_def)
  have b: "cachedLatestManifest (snd (loadLatestManifest manifest_platform ?env 1000 ?r initial_world)) = None"
    using inst [THEN conjunct2, THEN conjunct1] l by (simp add: initial_world_def)
  show ?thesis using a t b by blast
qed

subsection \<open>ManifestResolver\<close>

lemma load_text_visible_text:
  "fst (loadJsonTextWithCache env key request sfx w) = Inr (visible_text env request w key sfx)"
  by (simp add: loadJsonTextWithCache_def visible_text_def Let_def split: option.splits)

lemma load_text_other_key:
  assumes "cacheRequest request sfx' \<noteq> cacheRequest request sfx"
  shows "visible_text env request (snd (loadJsonTextWithCache env key request sfx w)) key' sfx'
     = visible_text env request w key' sfx'"
  using assms
  by (simp add: loadJsonTextWithCache_def visible_text_def Let_def split: option.splits)

lemma cacheRequest_plain:
  "list_all url_plain_char sfx \<Longrightarrow> cacheRequest request sfx = req_origin request @ ''/cache/'' @ sfx"
proof -
  have "list_all url_plain_char ''/cache/''" by code_simp
  then show "list_all url_plain_char sfx \<Longrightarrow> ?thesis"
    by (simp add: cacheRequest_def)
qed

lemma cacheRequest_plain_inject:
  "list_all url_plain_char a \<Longrightarrow> list_all url_plain_char b \<Longrightarrow>
     (cacheRequest request a = cacheRequest request b) = (a = b)"
  by (simp add: cacheRequest_plain)

lemma cacheRequest_latest [simp]:
  "cacheRequest request ''latest-snapshot'' \<noteq> cacheRequest request ''latest-manifest''"
proof -
  have "list_all url_plain_char ''latest-snapshot''" "list_all url_plain_char ''latest-manifest''"
    by code_simp+
  then show ?thesis by (simp add: cacheRequest_plain)
qed

lemma remember_manifest_result [simp]:
  "fst (remember_manifest nowMs m w) = Inr (Some m)"
  by (simp add: remember_manifest_def)

lemma io_bind_fst_Inl:
  "fst (m w) = Inl e \<Longrightarrow> fst (io_bind m f w) = Inl e"
  by (cases "m w") (simp add: io_bind_def)

lemma io_bind_fst_Inr:
  "fst (m w) = Inr x \<Longrightarrow> fst (io_bind m f w) = fst (f x (snd (m w)))"
  by (cases "m w") (simp add: io_bind_def)

lemma load_object_not_None:
  "fst (loadJsonObjectWithCache JSON_parse env key request sfx w) = Inr None
     \<or> (\<exists>e. fst (loadJsonObjectWithCache JSON_parse env key request sfx w) = Inl e)
     \<or> (\<exists>v. fst (loadJsonObjectWithCache JSON_parse env key request sfx w) = Inr (Some v))"
  by (cases "fst (loadJsonObjectWithCache JSON_parse env key request sfx w)") auto

lemma resolver_fresh:
  assumes "fresh_manifest nowMs w = Some m"
  shows "loadLatestManifest P env nowMs request w = (Inr (Some m), w)"
  using assms by (simp add: loadLatestManifest_def)

lemma resolver_canonical:
  assumes "fresh_manifest nowMs w = None"
    "truthy (visible_text env request w LATEST_MANIFEST_KEY ''latest-manifest'')"
  shows "fst (loadLatestManifest P env nowMs request w) =
     (case parse_LatestManifest P (orElse (visible_text env request w LATEST_MANIFEST_KEY ''latest-manifest'') []) of
        None \<Rightarrow> Inl (Error (''Invalid JSON in '' @ LATEST_MANIFEST_KEY))
      | Some parsed \<Rightarrow>
          if lm_snapshot_date parsed = [] \<or> \<not> isDateString (lm_snapshot_date parsed)
          then Inl (Error ''latest.json missing valid snapshot_date'')
          else Inr (Some parsed))"
proof -
  obtain w1 where l: "loadJsonTextWithCache env LATEST_MANIFEST_KEY request ''latest-manifest'' w
      = (Inr (visible_text env request w LATEST_MANIFEST_KEY ''latest-manifest''), w1)"
    using load_text_visible_text [of env LATEST_MANIFEST_KEY request "''latest-manifest''" w]
    by (cases "loadJsonTextWithCache env LATEST_MANIFEST_KEY request ''latest-manifest'' w") simp
  have b1: "\<And>f. io_bind (loadJsonTextWithCache env LATEST_MANIFEST_KEY request ''latest-manifest'') f w
      = f (visible_text env request w LATEST_MANIFEST_KEY ''latest-manifest'') w1"
    using l by (simp add: io_bind_def)
  show ?thesis
    apply (subst loadLatestManifest_def)
    apply (simp only: assms(1) option.case)
    apply (subst b1)
    using assms(2)
    apply (simp add: io_of_def parseJson_def io_bind_def io_throw_def io_return_def split: option.splits)
    done
qed

lemma resolver_neither:
  assumes "fresh_manifest nowMs w = None"
    "\<not> truthy (visible_text env request w LATEST_MANIFEST_KEY ''latest-manifest'')"
    "\<not> truthy (visible_text env request w LATEST_SNAPSHOT_KEY ''latest-snapshot'')"
  shows "fst (loadLatestManifest P env nowMs request w) = Inr None"
proof -
  obtain w1 where l: "loadJsonTextWithCache env LATEST_MANIFEST_KEY request ''latest-manifest'' w
      = (Inr (visible_text env request w LATEST_MANIFEST_KEY ''latest-manifest''), w1)"
    using load_text_visible_text [of env LATEST_MANIFEST_KEY request "''latest-manifest''" w]
    by (cases "loadJsonTextWithCache env LATEST_MANIFEST_KEY request ''latest-manifest'' w") simp
  have v: "visible_text env request w1 LATEST_SNAPSHOT_KEY ''latest-snapshot''
      = visible_text env request w LATEST_SNAPSHOT_KEY ''latest-snapshot''"
    using load_text_other_key [of request "''latest-snapshot''" "''latest-manifest''" env
            LATEST_MANIFEST_KEY w LATEST_SNAPSHOT_KEY] l
    by simp
  obtain w2 where l2: "loadJsonTextWithCache env LATEST_SNAPSHOT_KEY request ''latest-snapshot'' w1
      = (Inr (visible_text env request w LATEST_SNAPSHOT_KEY ''latest-snapshot''), w2)"
    using load_text_visible_text [of env LATEST_SNAPSHOT_KEY request "''latest-snapshot''" w1] v
    by (cases "loadJsonTextWithCache env LATEST_SNAPSHOT_KEY request ''latest-snapshot'' w1") simp
  have b1: "\<And>f. io_bind (loadJsonTextWithCache env LATEST_MANIFEST_KEY request ''latest-manifest'') f w
      = f (visible_text env request w LATEST_MANIFEST_KEY ''latest-manifest'') w1"
    using l by (simp add: io_bind_def)
  have b2: "\<And>f. io_bind (loadJsonTextWithCache env LATEST_SNAPSHOT_KEY request ''latest-snapshot'') f w1
      = f (visible_text env request w LATEST_SNAPSHOT_KEY ''latest-snapshot'') w2"
    using l2 by (simp add: io_bind_def)
  show ?thesis
    apply (subst loadLatestManifest_def)
    apply (simp only: assms(1) option.case)
    apply (subst b1)
    apply (simp only: assms(2) if_False)
    apply (subst b2)
    apply (simp add: assms(3) io_return_def)
    done
qed

lemma resolver_legacy:
  assumes "fresh_manifest nowMs w = None"
    "\<not> truthy (visible_text env request w LATEST_MANIFEST_KEY ''latest-manifest'')"
    "truthy (visible_text env request w LATEST_SNAPSHOT_KEY ''latest-snapshot'')"
  shows "fst (loadLatestManifest P env nowMs request w) \<noteq> Inr None"
proof -
  obtain w1 where l: "loadJsonTextWithCache env LATEST_MANIFEST_KEY request ''latest-manifest'' w
      = (Inr (visible_text env request w LATEST_MANIFEST_KEY ''latest-manifest''), w1)"
    using load_text_visible_text [of env LATEST_MANIFEST_KEY request "''latest-manifest''" w]
    by (cases "loadJsonTextWithCache env LATEST_MANIFEST_KEY request ''latest-manifest'' w") simp
  have v: "visible_text env request w1 LATEST_SNAPSHOT_KEY ''latest-snapshot''
      = visible_text env request w LATEST_SNAPSHOT_KEY ''latest-snapshot''"
    using load_text_other_key [of request "''latest-snapshot''" "''latest-manifest''" env
            LATEST_MANIFEST_KEY w LATEST_SNAPSHOT_KEY] l
    by simp
  obtain w2 where l2: "loadJsonTextWithCache env LATEST_SNAPSHOT_KEY request ''latest-snapshot'' w1
      = (Inr (visible_text env request w LATEST_SNAPSHOT_KEY ''latest-snapshot''), w2)"
    using load_text_visible_text [of env LATEST_SNAPSHOT_KEY request "''latest-snapshot''" w1] v
    by (cases "loadJsonTextWithCache env LATEST_SNAPSHOT_KEY request ''latest-snapshot'' w1") simp
  have b1: "\<And>f. io_bind (loadJsonTextWithCache env LATEST_MANIFEST_KEY request ''latest-manifest'') f w
      = f (visible_text env request w LATEST_MANIFEST_KEY ''latest-manifest'') w1"
    using l by (simp add: io_bind_def)
  have b2: "\<And>f. io_bind (loadJsonTextWithCache env LATEST_SNAPSHOT_KEY request ''latest-snapshot'') f w1
      = f (visible_text env request w LATEST_SNAPSHOT_KEY ''latest-snapshot'') w2"
    using l2 by (simp add: io_bind_def)
  show ?thesis
    apply (subst loadLatestManifest_def)
    apply (simp only: assms(1) option.case)
    apply (subst b1)
    apply (simp only: assms(2) if_False)
    apply (subst b2)
    apply (simp only: assms(3) not_True_eq_False if_False)
    apply (simp add: io_of_def parseJson_def io_bind_def io_throw_def io_return_def remember_manifest_def
             split: option.splits prod.splits sum.splits)
    done
qed

lemma startsWith_split:
  assumes "startsWith s p"
  obtains r where "s = p @ r"
  using assms append_take_drop_id [of "length p" s] unfolding startsWith_def by metis

lemma route_skill_detail:
  assumes "req_method request = ''GET''" "startsWith (req_pathname request) ''/v1/skills/''"
  shows "fetch_routes P env clk request = fetch_skill_detail P env clk request"
proof -
  obtain r where "req_pathname request = ''/v1/skills/'' @ r"
    using assms(2) by (rule startsWith_split)
  then show ?thesis
    using assms(1) by (simp add: fetch_get startsWith_def DATA_PREFIX_def)
qed

lemma route_metrics:
  assumes "req_method request = ''GET''" "startsWith (req_pathname request) ''/v1/metrics/''"
  shows "fetch_routes P env clk request = fetch_metrics P env clk request"
proof -
  obtain r where "req_pathname request = ''/v1/metrics/'' @ r"
    using assms(2) by (rule startsWith_split)
  then show ?thesis
    using assms(1) by (simp add: fetch_get startsWith_def DATA_PREFIX_def)
qed

lemma with_snapshot_date_null:
  assumes "\<not> truthy (searchParams_get request ''snapshot_date'')"
    "loadLatestManifest P env (now_manifest clk) request w = (Inr None, w')"
  shows "with_snapshot_date P env clk request h unavailable handler w
     = (Inr (json (ErrorBody unavailable) 503 h), w')"
  using assms by (simp add: with_snapshot_date_def Let_def io_bind_def io_return_def)

lemma stats_summary_503:
  assumes "req_method request = ''GET''" "req_pathname request = ''/v1/stats/summary''"
    "blocked (fst (enforceRateLimit P (now_rate clk) request w)) = None"
    "\<not> truthy (searchParams_get request ''snapshot_date'')"
    "loadLatestManifest P env (now_manifest clk) request (snd (enforceRateLimit P (now_rate clk) request w))
       = (Inr None, w')"
  shows "fetch P env clk request w
     = (json (ErrorBody ''Summary unavailable'') 503
          (rl_headers (fst (enforceRateLimit P (now_rate clk) request w))), w')"
  using assms
  by (simp add: fetch_def route_stats_summary fetch_stats_summary_def rate_limited_admitted
        with_snapshot_date_null)

lemma skills_503:
  assumes "req_method request = ''GET''" "req_pathname request = ''/v1/skills''"
    "blocked (fst (enforceRateLimit P (now_rate clk) request w)) = None"
    "isSortMode (orElse (searchParams_get request ''sort'') ''installs'') \<noteq> None"
    "\<not> truthy (searchParams_get request ''snapshot_date'')"
    "loadLatestManifest P env (now_manifest clk) request (snd (enforceRateLimit P (now_rate clk) request w))
       = (Inr None, w')"
  shows "fetch P env clk request w
     = (json (ErrorBody ''Leaderboard unavailable'') 503
          (rl_headers (fst (enforceRateLimit P (now_rate clk) request w))), w')"
  using assms
  by (auto simp: fetch_def route_skills fetch_skills_def rate_limited_admitted Let_def
        with_snapshot_date_null)

lemma skill_detail_503:
  assumes "req_method request = ''GET''" "startsWith (req_pathname request) ''/v1/skills/''"
    "blocked (fst (enforceRateLimit P (now_rate clk) request w)) = None"
    "parseSkillPath P (req_pathname request) ''/v1/skills/'' \<noteq> None"
    "\<not> truthy (searchParams_get request ''snapshot_date'')"
    "loadLatestManifest P env (now_manifest clk) request (snd (enforceRateLimit P (now_rate clk) request w))
       = (Inr None, w')"
  shows "fetch P env clk request w
     = (json (ErrorBody ''Skill unavailable'') 503
          (rl_headers (fst (enforceRateLimit P (now_rate clk) request w))), w')"
  using assms
  by (auto simp: fetch_def route_skill_detail fetch_skill_detail_def rate_limited_admitted
        with_snapshot_date_null)

lemma metrics_503:
  assumes "req_method request = ''GET''" "startsWith (req_pathname request) ''/v1/metrics/''"
    "blocked (fst (enforceRateLimit P (now_rate clk) request w)) = None"
    "parseSkillPath P (req_pathname request) ''/v1/metrics/'' \<noteq> None"
    "\<not> truthy (searchParams_get request ''snapshot_date'')"
    "loadLatestManifest P env (now_manifest clk) request (snd (enforceRateLimit P (now_rate clk) request w))
       = (Inr None, w')"
  shows "fetch P env clk request w
     = (json (ErrorBody ''Metrics unavailable'') 503
          (rl_headers (fst (enforceRateLimit P (now_rate clk) request w))), w')"
  using assms
  by (auto simp: fetch_def route_metrics fetch_metrics_def rate_limited_admitted
        with_snapshot_date_null)

lemma search_503:
  assumes "req_method request = ''GET''" "req_pathname request = ''/v1/search''"
    "blocked (fst (enforceRateLimit P (now_rate clk) request w)) = None"
    "2 \<le> length (trim P (orElse (searchParams_get request ''q'') []))"
    "length (trim P (orElse (searchParams_get request ''q'') [])) \<le> 100"
    "isSortMode (orElse (searchParams_get request ''sort'') ''installs'') \<noteq> None"
    "\<not> truthy (searchParams_get request ''snapshot_date'')"
    "loadLatestManifest P env (now_manifest clk) request (snd (enforceRateLimit P (now_rate clk) request w))
       = (Inr None, w')"
  shows "fetch P env clk request w
     = (json (ErrorBody ''Search index unavailable'') 503
          (rl_headers (fst (enforceRateLimit P (now_rate clk) request w))), w')"
  using assms
  by (auto simp: fetch_def route_search fetch_search_def rate_limited_admitted Let_def
        with_snapshot_date_null)

text \<open>
  C3, as the spec states it, fails in both directions. The resolver treats an object with
  an empty body as an absent one: with a canonical manifest object that exists and is
  empty (and no legacy pointer) it returns null. And while its in-process entry is fresh it
  returns that entry without reading storage: it returns a manifest although neither
  object exists.
\<close>

theorem resolver_null_with_object_and_manifest_without:
  "map_of [(LATEST_MANIFEST_KEY, [])] LATEST_MANIFEST_KEY = Some []
   \<and> fst (loadLatestManifest manifest_platform (bucket_of [(LATEST_MANIFEST_KEY, [])]) 1000
            (fixture_request ''GET'' ''/v1/search'' []) initial_world) = Inr None
   \<and> map_of [] LATEST_MANIFEST_KEY = (None :: string option)
   \<and> map_of [] LATEST_SNAPSHOT_KEY = (None :: string option)
   \<and> fst (loadLatestManifest manifest_platform (bucket_of []) 1000
            (fixture_request ''GET'' ''/v1/search'' [])
            (initial_world\<lparr>cachedLatestManifest :=
               Some \<lparr>cm_loadedAtMs = 0, cm_manifest = fixture_manifest\<rparr>\<rparr>))
       = Inr (Some fixture_manifest)"
  by (simp add: loadLatestManifest_def fresh_manifest_def initial_world_def IN_MEMORY_CACHE_TTL_MS_def
        loadJsonTextWithCache_def bucket_of_def LATEST_MANIFEST_KEY_def LATEST_SNAPSHOT_KEY_def
        DATA_PREFIX_def SNAPSHOTS_PREFIX_def cacheRequest_def fixture_request_def
        io_bind_def io_return_def truthy_def record_access_def Let_def)

text \<open>
  C3, amended. With no fresh in-process entry, the resolver returns null if and only if
  neither the canonical manifest nor the legacy pointer is visible with a non-empty text,
  where the text visible for an object is its entry in the edge cache or else the object in
  the bucket (an empty text counts as absent, and nothing is visible without a bucket
  binding). With a fresh in-process entry it returns that entry and leaves the state as it
  is. A visible canonical manifest that parses and whose \<open>snapshot_date\<close> is missing or
  is not a calendar date makes the resolver throw \<open>latest.json missing valid
  snapshot_date\<close>, whatever the legacy pointer is. Every rate-limited endpoint answers a
  null result of the resolver with 503: for a GET request that the limiter admits, that
  has no \<open>snapshot_date\<close> parameter and passes the validation that precedes the resolver,
  the response is 503 with the endpoint's message on \<open>/v1/stats/summary\<close>,
  \<open>/v1/skills\<close>, \<open>/v1/skills/...\<close>, \<open>/v1/metrics/...\<close> and \<open>/v1/search\<close>.
\<close>

theorem resolver_null_iff_nothing_visible_and_503:
  "(fresh_manifest nowMs w = None \<longrightarrow>
      (fst (loadLatestManifest P env nowMs request w) = Inr None)
        = (\<not> truthy (visible_text env request w LATEST_MANIFEST_KEY ''latest-manifest'')
           \<and> \<not> truthy (visible_text env request w LATEST_SNAPSHOT_KEY ''latest-snapshot'')))
   \<and> (fresh_manifest nowMs w = Some m \<longrightarrow> loadLatestManifest P env nowMs request w = (Inr (Some m), w))
   \<and> (fresh_manifest nowMs w = None
       \<and> truthy (visible_text env request w LATEST_MANIFEST_KEY ''latest-manifest'')
       \<and> parse_LatestManifest P (orElse (visible_text env request w LATEST_MANIFEST_KEY ''latest-manifest'') [])
            = Some parsed
       \<and> (lm_snapshot_date parsed = [] \<or> \<not> isDateString (lm_snapshot_date parsed))
      \<longrightarrow> fst (loadLatestManifest P env nowMs request w)
            = Inl (Error ''latest.json missing valid snapshot_date''))
   \<and> (req_method request = ''GET''
       \<and> blocked (fst (enforceRateLimit P (now_rate clk) request w)) = None
       \<and> \<not> truthy (searchParams_get request ''snapshot_date'')
       \<and> loadLatestManifest P env (now_manifest clk) request
            (snd (enforceRateLimit P (now_rate clk) request w)) = (Inr None, w')
      \<longrightarrow> (req_pathname request = ''/v1/stats/summary''
             \<longrightarrow> fetch P env clk request w
                 = (json (ErrorBody ''Summary unavailable'') 503
                      (rl_headers (fst (enforceRateLimit P (now_rate clk) request w))), w'))
          \<and> (req_pathname request = ''/v1/skills''
              \<and> isSortMode (orElse (searchParams_get request ''sort'') ''installs'') \<noteq> None
             \<longrightarrow> fetch P env clk request w
                 = (json (ErrorBody ''Leaderboard unavailable'') 503
                      (rl_headers (fst (enforceRateLimit P (now_rate clk) request w))), w'))
          \<and> (startsWith (req_pathname request) ''/v1/skills/''
              \<and> parseSkillPath P (req_pathname request) ''/v1/skills/'' \<noteq> None
             \<longrightarrow> fetch P env clk request w
                 = (json (ErrorBody ''Skill unavailable'') 503
                      (rl_headers (fst (enforceRateLimit P (now_rate clk) request w))), w'))
          \<and> (startsWith (req_pathname request) ''/v1/metrics/''
              \<and> parseSkillPath P (req_pathname request) ''/v1/metrics/'' \<noteq> None
             \<longrightarrow> fetch P env clk request w
                 = (json (ErrorBody ''Metrics unavailable'') 503
                      (rl_headers (fst (enforceRateLimit P (now_rate clk) request w))), w'))
          \<and> (req_pathname request = ''/v1/search''
              \<and> 2 \<le> length (trim P (orElse (searchParams_get request ''q'') []))
              \<and> length (trim P (orElse (searchParams_get request ''q'') [])) \<le> 100
              \<and> isSortMode (orElse (searchParams_get request ''sort'') ''installs'') \<noteq> None
             \<longrightarrow> fetch P env clk request w
                 = (json (ErrorBody ''Search index unavailable'') 503
                      (rl_headers (fst (enforceRateLimit P (now_rate clk) request w))), w')))"
proof (intro conjI impI)
  assume f: "fresh_manifest nowMs w = None"
  show "(fst (loadLatestManifest P env nowMs request w) = Inr None)
        = (\<not> truthy (visible_text env request w LATEST_MANIFEST_KEY ''latest-manifest'')
           \<and> \<not> truthy (visible_text env request w LATEST_SNAPSHOT_KEY ''latest-snapshot''))"
  proof (cases "truthy (visible_text env request w LATEST_MANIFEST_KEY ''latest-manifest'')")
    case True
    have "fst (loadLatestManifest P env nowMs request w) \<noteq> Inr None"
      unfolding resolver_canonical [OF f True] by (simp split: option.splits)
    then show ?thesis using True by simp
  next
    case False
    show ?thesis
      using resolver_neither [OF f False, of P] resolver_legacy [OF f False, of P] False by blast
  qed
next
  assume "fresh_manifest nowMs w = Some m"
  then show "loadLatestManifest P env nowMs request w = (Inr (Some m), w)"
    by (rule resolver_fresh)
next
  assume h: "fresh_manifest nowMs w = None
       \<and> truthy (visible_text env request w LATEST_MANIFEST_KEY ''latest-manifest'')
       \<and> parse_LatestManifest P (orElse (visible_text env request w LATEST_MANIFEST_KEY ''latest-manifest'') [])
            = Some parsed
       \<and> (lm_snapshot_date parsed = [] \<or> \<not> isDateString (lm_snapshot_date parsed))"
  then show "fst (loadLatestManifest P env nowMs request w)
            = Inl (Error ''latest.json missing valid snapshot_date'')"
    using resolver_canonical [of nowMs w env request P] by auto
qed (simp_all add: stats_summary_503 skills_503 skill_detail_503 metrics_503 search_503)

theorem resolver_null_iff_nothing_visible_and_503_witness:
  "fst (loadLatestManifest manifest_platform (bucket_of []) 1000
          (fixture_request ''GET'' ''/v1/search'' [(''q'', ''tool'')]) initial_world) = Inr None
   \<and> fst (loadLatestManifest manifest_platform
            (bucket_of [(LATEST_MANIFEST_KEY, misdated_manifest_text),
                        (LATEST_SNAPSHOT_KEY, ''{\"date\":\"2025-01-15\"}'')]) 1000
            (fixture_request ''GET'' ''/v1/search'' [(''q'', ''tool'')]) initial_world)
       = Inl (Error ''latest.json missing valid snapshot_date'')
   \<and> status (fst (fetch manifest_platform (bucket_of []) (fixture_clock 1000)
                    (fixture_request ''GET'' ''/v1/search'' [(''q'', ''tool'')]) initial_world)) = 503
   \<and> body (fst (fetch manifest_platform (bucket_of []) (fixture_clock 1000)
                    (fixture_request ''GET'' ''/v1/search'' [(''q'', ''tool'')]) initial_world))
       = Json (ErrorBody ''Search index unavailable'')"
proof -
  let ?r = "fixture_request ''GET'' ''/v1/search'' [(''q'', ''tool'')]"
  let ?bad = "bucket_of [(LATEST_MANIFEST_KEY, misdated_manifest_text),
                         (LATEST_SNAPSHOT_KEY, ''{\"date\":\"2025-01-15\"}'')]"
  let ?w1 = "snd (enforceRateLimit manifest_platform (now_rate (fixture_clock 1000)) ?r initial_world)"
  have fr: "fresh_manifest 1000 initial_world = None" "fresh_manifest 1000 ?w1 = None"
    by (simp_all add: fresh_manifest_def enforce_frame initial_world_def)
  have v0: "\<And>w key sfx. visible_text (bucket_of []) ?r w key sfx = edge_cache w (cacheRequest ?r sfx)"
    by (simp add: visible_text_def bucket_of_def split: option.splits)
  have e1: "edge_cache ?w1 = Map.empty"
    by (simp add: enforce_frame initial_world_def)
  have a: "fst (loadLatestManifest manifest_platform (bucket_of []) 1000 ?r initial_world) = Inr None"
    using resolver_null_iff_nothing_visible_and_503
            [where nowMs = 1000 and w = initial_world and P = manifest_platform and env = "bucket_of []"
               and request = ?r and m = fixture_manifest and parsed = fixture_manifest
               and clk = "fixture_clock 1000" and w' = initial_world, THEN conjunct1] fr(1)
    by (simp add: v0 truthy_def initial_world_def)
  have a1: "fst (loadLatestManifest manifest_platform (bucket_of []) 1000 ?r ?w1) = Inr None"
    using resolver_null_iff_nothing_visible_and_503
            [where nowMs = 1000 and w = ?w1 and P = manifest_platform and env = "bucket_of []"
               and request = ?r and m = fixture_manifest and parsed = fixture_manifest
               and clk = "fixture_clock 1000" and w' = initial_world, THEN conjunct1] fr(2)
    by (simp add: v0 e1 truthy_def)
  have vis: "visible_text ?bad ?r initial_world LATEST_MANIFEST_KEY ''latest-manifest''
      = Some misdated_manifest_text"
    by (simp add: visible_text_def bucket_of_def initial_world_def)
  have pm: "parse_LatestManifest manifest_platform misdated_manifest_text
      = Some \<lparr>lm_snapshot_date = ''2025-13-40'', lm_page_size = None, lm_counts = None\<rparr>"
    by (simp add: manifest_platform_def misdated_manifest_text_def fixture_manifest_text_def)
  have ne: "misdated_manifest_text \<noteq> []"
    by (simp add: misdated_manifest_text_def)
  have nd: "\<not> isDateString ''2025-13-40''"
    by (simp add: isDateString_def DATE_RE_def is_digit_def number_of_digits_def days_in_month_def)
  have b: "fst (loadLatestManifest manifest_platform ?bad 1000 ?r initial_world)
       = Inl (Error ''latest.json missing valid snapshot_date'')"
    using resolver_null_iff_nothing_visible_and_503
            [where nowMs = 1000 and w = initial_world and P = manifest_platform and env = ?bad
               and request = ?r and m = fixture_manifest
               and parsed = "\<lparr>lm_snapshot_date = ''2025-13-40'', lm_page_size = None, lm_counts = None\<rparr>"
               and clk = "fixture_clock 1000" and w' = initial_world,
             THEN conjunct2, THEN conjunct2, THEN conjunct1] fr(1) nd
    by (simp add: vis truthy_def orElse_def pm ne)
  have adm: "blocked (fst (enforceRateLimit manifest_platform (now_rate (fixture_clock 1000)) ?r
                 initial_world)) = None"
    using enforce_fresh_window [of initial_world manifest_platform ?r 1000]
    by (simp add: initial_world_def fixture_clock_def)
  have q: "length (trim manifest_platform (orElse (searchParams_get ?r ''q'') [])) = 4"
    by (simp add: manifest_platform_def fixture_platform_def fixture_request_def fixture_trim_def
          is_space_def searchParams_get_def orElse_def)
  have s: "isSortMode (orElse (searchParams_get ?r ''sort'') ''installs'') \<noteq> None"
    "\<not> truthy (searchParams_get ?r ''snapshot_date'')"
    by (simp_all add: fixture_request_def searchParams_get_def orElse_def isSortMode_def truthy_def)
  have l: "loadLatestManifest manifest_platform (bucket_of []) (now_manifest (fixture_clock 1000)) ?r ?w1
      = (Inr None, snd (loadLatestManifest manifest_platform (bucket_of []) 1000 ?r ?w1))"
    using a1 by (simp add: prod_eq_iff fixture_clock_def)
  have c: "fetch manifest_platform (bucket_of []) (fixture_clock 1000) ?r initial_world
      = (json (ErrorBody ''Search index unavailable'') 503
           (rl_headers (fst (enforceRateLimit manifest_platform (now_rate (fixture_clock 1000)) ?r
                 initial_world))),
         snd (loadLatestManifest manifest_platform (bucket_of []) 1000 ?r ?w1))"
    using resolver_null_iff_nothing_visible_and_503
            [where nowMs = 1000 and w = initial_world and P = manifest_platform and env = "bucket_of []"
               and request = ?r and m = fixture_manifest and parsed = fixture_manifest
               and clk = "fixture_clock 1000"
               and w' = "snd (loadLatestManifest manifest_platform (bucket_of []) 1000 ?r ?w1)",
             THEN conjunct2, THEN conjunct2, THEN conjunct2] adm s l q
    by (simp add: fixture_request_def)
  show ?thesis using a b c by simp
qed

subsection \<open>FallbackSynthesizer: the synthesized rank\<close>

lemma rank_of_item [simp]:
  "sli_rank_at_fetch (snapshotItemToSkillListItem item rank) = Some rank"
  by (simp add: snapshotItemToSkillListItem_def split: prod.splits)

lemma length_synthesize_items [simp]:
  "length (synthesize_items rows pg pageSize) = length rows"
  by (simp add: synthesize_items_def)

lemma nth_synthesize_items:
  assumes "i < length rows"
  shows "synthesize_items rows pg pageSize ! i
     = snapshotItemToSkillListItem (rows ! i) ((pg - 1) * pageSize + int i + 1)"
  using assms by (simp add: synthesize_items_def nth_enumerate_eq)

lemma at_index_Some:
  "at_index xs i = Some x \<Longrightarrow> 0 \<le> i \<and> nat i < length xs \<and> x = xs ! nat i"
  by (auto simp: at_index_def split: if_splits)

lemma record_rank:
  assumes "buildSnapshotSkillRecord P env d skillId request w = (Inr (Some r), w')"
  shows "\<exists>l w1 e rows w2 sm.
       loadSnapshotSkillLookup P env d request w = (Inr (Some l), w1)
     \<and> map_of (sld_entries l) skillId = Some e
     \<and> loadSnapshotSkillsPage P env d (lk_page e) request w1 = (Inr (Some rows), w2)
     \<and> 0 \<le> lk_index e \<and> nat (lk_index e) < length rows
     \<and> rec_skill_id r = spi_skillId (rows ! nat (lk_index e))
     \<and> loadSnapshotSkillsManifest P env d request w2 = (Inr sm, w')
     \<and> rec_rank_at_fetch r = (lk_page e - 1) * manifest_page_size sm + lk_index e + 1"
  using assms unfolding buildSnapshotSkillRecord_def
  by (fastforce elim!: io_bind_cases dest!: at_index_Some
        simp: io_return_def Let_def
        split: list.splits option.splits if_splits)

lemma leaderboard_rank:
  assumes "static_leaderboard P env request key w = (Inr (Some b), w')"
  shows "\<exists>d sortSeg pageStr rows w1 sm w2 lb.
       leaderboardMatch key = Some (d, sortSeg, pageStr)
     \<and> loadSnapshotSkillsPage P env d (number_of_digits pageStr) request w = (Inr (Some rows), w1)
     \<and> loadSnapshotSkillsManifest P env d request w1 = (Inr sm, w2)
     \<and> b = Json (Leaderboard lb)
     \<and> lb_page lb = number_of_digits pageStr
     \<and> lb_page_size lb = manifest_page_size sm
     \<and> lb_items lb = synthesize_items rows (lb_page lb) (lb_page_size lb)"
  using assms unfolding static_leaderboard_def
  by (auto elim!: io_bind_cases simp: io_return_def Let_def
        split: list.splits option.splits if_splits prod.splits)

lemma skills_leaderboard_rank:
  assumes "skills_leaderboard P env request h sortParam pg pageSize d lm w = (Inr (Some resp), w')"
    "body resp = Json (SkillsPage sk)"
  shows "\<exists>cached w0 sm w1 rows w2.
       loadJsonObjectWithCache (parse_Record P) env (LEADERBOARD_PAGE_KEY d sortParam pg) request
         (''leaderboard/'' @ d @ ''/'' @ sort_name sortParam @ ''/'' @ String_of pg) w = (Inr cached, w0)
     \<and> sortParam = Installs
     \<and> loadSnapshotSkillsManifest P env d request w0 = (Inr sm, w1)
     \<and> loadSnapshotSkillsPage P env d pg request w1 = (Inr (Some rows), w2)
     \<and> sk_page sk = pg \<and> sk_page_size sk = manifest_page_size sm
     \<and> sk_skills sk = rows
     \<and> sk_items sk = synthesize_items rows pg (manifest_page_size sm)"
  using assms unfolding skills_leaderboard_def
  by (fastforce elim!: io_bind_cases simp: io_return_def Let_def
        split: list.splits option.splits if_splits prod.splits)

text \<open>
  C4. A skill record that \<open>buildSnapshotSkillRecord\<close> returns was built from the row
  at index \<open>i\<close> of page \<open>p\<close>, where \<open>(p, i)\<close> is the entry of the lookup
  document for the id, and its \<open>rank_at_fetch\<close> is \<open>(p - 1) * page_size + i + 1\<close>.
  The items of a leaderboard page that the artifact pass-through synthesizes for page
  \<open>p\<close>, and the items that \<open>/v1/skills\<close> synthesizes, are the rows of the page in
  order, and the item at index \<open>i\<close> has the rank \<open>(p - 1) * page_size + i + 1\<close>.
  In each case \<open>page_size\<close> is the page size of the per-snapshot manifest that the
  same call loads, and 200 when the snapshot has no such manifest or the manifest has no
  \<open>page_size\<close>. The equations hold for every \<open>p\<close> and every index of a row
  of the page.
\<close>

theorem synthesized_rank_is_position:
  "(buildSnapshotSkillRecord P env d skillId request w = (Inr (Some r), w')
      \<longrightarrow> (\<exists>l w1 e rows w2 sm.
             loadSnapshotSkillLookup P env d request w = (Inr (Some l), w1)
           \<and> map_of (sld_entries l) skillId = Some e
           \<and> loadSnapshotSkillsPage P env d (lk_page e) request w1 = (Inr (Some rows), w2)
           \<and> 0 \<le> lk_index e \<and> nat (lk_index e) < length rows
           \<and> rec_skill_id r = spi_skillId (rows ! nat (lk_index e))
           \<and> loadSnapshotSkillsManifest P env d request w2 = (Inr sm, w')
           \<and> rec_rank_at_fetch r = (lk_page e - 1) * manifest_page_size sm + lk_index e + 1))
   \<and> (static_leaderboard P env request key w = (Inr (Some b), w')
      \<longrightarrow> (\<exists>d' sortSeg pageStr rows w1 sm w2 lb.
             leaderboardMatch key = Some (d', sortSeg, pageStr)
           \<and> loadSnapshotSkillsPage P env d' (number_of_digits pageStr) request w = (Inr (Some rows), w1)
           \<and> loadSnapshotSkillsManifest P env d' request w1 = (Inr sm, w2)
           \<and> b = Json (Leaderboard lb)
           \<and> lb_page lb = number_of_digits pageStr
           \<and> lb_page_size lb = manifest_page_size sm
           \<and> lb_items lb = synthesize_items rows (lb_page lb) (lb_page_size lb)))
   \<and> (skills_leaderboard P env request h sortParam pg pageSize d lm w = (Inr (Some resp), w')
       \<and> body resp = Json (SkillsPage sk)
      \<longrightarrow> (\<exists>cached w0 sm w1 rows w2.
             loadJsonObjectWithCache (parse_Record P) env (LEADERBOARD_PAGE_KEY d sortParam pg) request
               (''leaderboard/'' @ d @ ''/'' @ sort_name sortParam @ ''/'' @ String_of pg) w = (Inr cached, w0)
           \<and> sortParam = Installs
           \<and> loadSnapshotSkillsManifest P env d request w0 = (Inr sm, w1)
           \<and> loadSnapshotSkillsPage P env d pg request w1 = (Inr (Some rows), w2)
           \<and> sk_page sk = pg \<and> sk_page_size sk = manifest_page_size sm
           \<and> sk_skills sk = rows
           \<and> sk_items sk = synthesize_items rows pg (manifest_page_size sm)))
   \<and> length (synthesize_items page p page_size) = length page
   \<and> (\<forall>i < length page.
         synthesize_items page p page_size ! i
           = snapshotItemToSkillListItem (page ! i) ((p - 1) * page_size + int i + 1)
         \<and> sli_rank_at_fetch (synthesize_items page p page_size ! i)
           = Some ((p - 1) * page_size + int i + 1))
   \<and> manifest_page_size (Some m) = orElse (ssm_page_size m) 200
   \<and> orElse (None :: int option) 200 = 200
   \<and> manifest_page_size None = 200"
  using record_rank [of P env d skillId request w r w']
    leaderboard_rank [of P env request key w b w']
    skills_leaderboard_rank [of P env request h sortParam pg pageSize d lm w resp w' sk]
  by (simp add: nth_synthesize_items manifest_page_size_def orElse_def)

theorem synthesized_rank_is_position_witness:
  "fst (buildSnapshotSkillRecord snapshot_platform snapshot_bucket ''2025-01-15'' ''o/r/omega''
          (fixture_request ''GET'' ''/v1/skills/o%2Fr%2Fomega'' []) initial_world)
     = Inr (Some fixture_omega_record)
   \<and> rec_rank_at_fetch fixture_omega_record = (3 - 1) * 2 + 1 + 1
   \<and> (\<exists>l w1 e rows w2 sm.
          loadSnapshotSkillLookup snapshot_platform snapshot_bucket ''2025-01-15''
            (fixture_request ''GET'' ''/v1/skills/o%2Fr%2Fomega'' []) initial_world = (Inr (Some l), w1)
        \<and> map_of (sld_entries l) ''o/r/omega'' = Some e
        \<and> loadSnapshotSkillsPage snapshot_platform snapshot_bucket ''2025-01-15'' (lk_page e)
            (fixture_request ''GET'' ''/v1/skills/o%2Fr%2Fomega'' []) w1 = (Inr (Some rows), w2)
        \<and> rec_skill_id fixture_omega_record = spi_skillId (rows ! nat (lk_index e))
        \<and> fst (loadSnapshotSkillsManifest snapshot_platform snapshot_bucket ''2025-01-15''
            (fixture_request ''GET'' ''/v1/skills/o%2Fr%2Fomega'' []) w2) = Inr sm
        \<and> rec_rank_at_fetch fixture_omega_record
             = (lk_page e - 1) * manifest_page_size sm + lk_index e + 1)
   \<and> (\<exists>lb.
          fst (static_leaderboard snapshot_platform snapshot_bucket
                 (fixture_request ''GET'' ''/data/v1/snapshots/2025-01-15/leaderboard/installs/page-0003.json'' [])
                 ''data/v1/snapshots/2025-01-15/leaderboard/installs/page-0003.json'' initial_world)
            = Inr (Some (Json (Leaderboard lb)))
        \<and> lb_page lb = 3 \<and> lb_page_size lb = 2
        \<and> map sli_skill_id (lb_items lb) = [''zeta'', ''omega'']
        \<and> map sli_rank_at_fetch (lb_items lb) = [Some ((3 - 1) * 2 + 0 + 1), Some ((3 - 1) * 2 + 1 + 1)])
   \<and> (\<exists>resp sk.
          fst (skills_leaderboard snapshot_platform snapshot_bucket
                 (fixture_request ''GET'' ''/v1/skills'' [(''page'', ''3''), (''page_size'', ''2'')])
                 [] Installs 3 2 ''2025-01-15'' (Some fixture_manifest) initial_world)
            = Inr (Some resp)
        \<and> body resp = Json (SkillsPage sk)
        \<and> sk_page sk = 3 \<and> sk_page_size sk = 2
        \<and> map sli_skill_id (sk_items sk) = [''zeta'', ''omega'']
        \<and> map sli_rank_at_fetch (sk_items sk) = [Some ((3 - 1) * 2 + 0 + 1), Some ((3 - 1) * 2 + 1 + 1)])
   \<and> sli_rank_at_fetch (synthesize_items fixture_page3 3 2 ! 1) = Some 6
   \<and> sli_skill_id (synthesize_items fixture_page3 3 2 ! 1) = ''omega''"
proof -
  let ?r = "fixture_request ''GET'' ''/v1/skills/o%2Fr%2Fomega'' []"
  let ?b = "buildSnapshotSkillRecord snapshot_platform snapshot_bucket ''2025-01-15'' ''o/r/omega'' ?r
              initial_world"
  let ?key = "''data/v1/snapshots/2025-01-15/leaderboard/installs/page-0003.json''"
  let ?r1 = "fixture_request ''GET'' ''/data/v1/snapshots/2025-01-15/leaderboard/installs/page-0003.json'' []"
  let ?s = "static_leaderboard snapshot_platform snapshot_bucket ?r1 ?key initial_world"
  let ?r2 = "fixture_request ''GET'' ''/v1/skills'' [(''page'', ''3''), (''page_size'', ''2'')]"
  let ?k = "skills_leaderboard snapshot_platform snapshot_bucket ?r2 [] Installs 3 2 ''2025-01-15''
              (Some fixture_manifest) initial_world"
  have f: "fst ?b = Inr (Some fixture_omega_record)"
    by code_simp
  then have h: "?b = (Inr (Some fixture_omega_record), snd ?b)"
    by (simp add: prod_eq_iff)
  have "case fst ?s of Inr (Some (Json (Leaderboard lb))) \<Rightarrow> True | _ \<Rightarrow> False"
    by code_simp
  then obtain lb where sl: "fst ?s = Inr (Some (Json (Leaderboard lb)))"
    by (auto split: sum.splits option.splits body.splits payload.splits)
  then have hs: "?s = (Inr (Some (Json (Leaderboard lb))), snd ?s)"
    by (simp add: prod_eq_iff)
  have "case fst ?k of Inr (Some resp) \<Rightarrow> (case body resp of Json (SkillsPage sk) \<Rightarrow> True | _ \<Rightarrow> False)
        | _ \<Rightarrow> False"
    by code_simp
  then obtain resp sk where kl: "fst ?k = Inr (Some resp)" and kb: "body resp = Json (SkillsPage sk)"
    by (auto split: sum.splits option.splits body.splits payload.splits)
  then have hk: "?k = (Inr (Some resp), snd ?k) \<and> body resp = Json (SkillsPage sk)"
    by (simp add: prod_eq_iff)
  note inst = synthesized_rank_is_position
      [where P = snapshot_platform and env = snapshot_bucket and d = "''2025-01-15''"
         and skillId = "''o/r/omega''" and request = ?r and w = initial_world
         and r = fixture_omega_record and w' = "snd ?b" and page = fixture_page3 and p = 3
         and page_size = 2]
  note inst1 = synthesized_rank_is_position
      [where P = snapshot_platform and env = snapshot_bucket and request = ?r1 and key = ?key
         and w = initial_world and b = "Json (Leaderboard lb)" and w' = "snd ?s"
         and page = fixture_page3 and p = 3 and page_size = 2]
  note inst2 = synthesized_rank_is_position
      [where P = snapshot_platform and env = snapshot_bucket and request = ?r2 and h = "[]"
         and sortParam = Installs and pg = 3 and pageSize = 2 and d = "''2025-01-15''"
         and lm = "Some fixture_manifest" and w = initial_world and resp = resp and w' = "snd ?k"
         and sk = sk and page = fixture_page3 and p = 3 and page_size = 2]
  have ex: "\<exists>l w1 e rows w2 sm.
          loadSnapshotSkillLookup snapshot_platform snapshot_bucket ''2025-01-15'' ?r initial_world
            = (Inr (Some l), w1)
        \<and> map_of (sld_entries l) ''o/r/omega'' = Some e
        \<and> loadSnapshotSkillsPage snapshot_platform snapshot_bucket ''2025-01-15'' (lk_page e) ?r w1
            = (Inr (Some rows), w2)
        \<and> rec_skill_id fixture_omega_record = spi_skillId (rows ! nat (lk_index e))
        \<and> fst (loadSnapshotSkillsManifest snapshot_platform snapshot_bucket ''2025-01-15'' ?r w2) = Inr sm
        \<and> rec_rank_at_fetch fixture_omega_record
             = (lk_page e - 1) * manifest_page_size sm + lk_index e + 1"
    using mp [OF inst [THEN conjunct1] h] by fastforce
  have ranks: "map sli_skill_id (synthesize_items fixture_page3 3 2) = [''zeta'', ''omega'']"
    "map sli_rank_at_fetch (synthesize_items fixture_page3 3 2)
       = [Some ((3 - 1) * 2 + 0 + 1), Some ((3 - 1) * 2 + 1 + 1)]"
    by code_simp+
  have m: "leaderboardMatch ?key = Some (''2025-01-15'', ''installs'', ''0003'')"
    by code_simp
  have n: "number_of_digits ''0003'' = 3"
    by code_simp
  have p1: "fst (loadSnapshotSkillsPage snapshot_platform snapshot_bucket ''2025-01-15'' 3 ?r1 initial_world)
              = Inr (Some fixture_page3)"
    by code_simp
  have m1: "fst (loadSnapshotSkillsManifest snapshot_platform snapshot_bucket ''2025-01-15'' ?r1
                   (snd (loadSnapshotSkillsPage snapshot_platform snapshot_bucket ''2025-01-15'' 3 ?r1
                           initial_world)))
              = Inr (Some fixture_skills_manifest)"
    by code_simp
  have ps: "manifest_page_size (Some fixture_skills_manifest) = 2"
    by code_simp
  from mp [OF inst1 [THEN conjunct2, THEN conjunct1] hs] m
  obtain rows w1 sm w2 where
    l1: "loadSnapshotSkillsPage snapshot_platform snapshot_bucket ''2025-01-15''
           (number_of_digits ''0003'') ?r1 initial_world = (Inr (Some rows), w1)"
    and l2: "loadSnapshotSkillsManifest snapshot_platform snapshot_bucket ''2025-01-15'' ?r1 w1 = (Inr sm, w2)"
    and lbp: "lb_page lb = number_of_digits ''0003''" "lb_page_size lb = manifest_page_size sm"
    and lbi: "lb_items lb = synthesize_items rows (lb_page lb) (lb_page_size lb)"
    by auto
  from l1 p1 have rows: "rows = fixture_page3" and w1: "w1 = snd (loadSnapshotSkillsPage snapshot_platform
      snapshot_bucket ''2025-01-15'' 3 ?r1 initial_world)"
    by (simp_all add: n)
  from l2 m1 have sm: "sm = Some fixture_skills_manifest"
    by (simp add: w1)
  have lb: "lb_page lb = 3" "lb_page_size lb = 2"
    "map sli_skill_id (lb_items lb) = [''zeta'', ''omega'']"
    "map sli_rank_at_fetch (lb_items lb) = [Some ((3 - 1) * 2 + 0 + 1), Some ((3 - 1) * 2 + 1 + 1)]"
    using lbp lbi ranks by (simp_all add: n sm ps rows)
  let ?w0 = "snd (loadJsonObjectWithCache (parse_Record snapshot_platform) snapshot_bucket
                    (LEADERBOARD_PAGE_KEY ''2025-01-15'' Installs 3) ?r2
                    (''leaderboard/'' @ ''2025-01-15'' @ ''/'' @ sort_name Installs @ ''/'' @ String_of 3)
                    initial_world)"
  have m2: "fst (loadSnapshotSkillsManifest snapshot_platform snapshot_bucket ''2025-01-15'' ?r2 ?w0)
              = Inr (Some fixture_skills_manifest)"
    by code_simp
  have p2: "fst (loadSnapshotSkillsPage snapshot_platform snapshot_bucket ''2025-01-15'' 3 ?r2
                   (snd (loadSnapshotSkillsManifest snapshot_platform snapshot_bucket ''2025-01-15'' ?r2 ?w0)))
              = Inr (Some fixture_page3)"
    by code_simp
  from mp [OF inst2 [THEN conjunct2, THEN conjunct2, THEN conjunct1] hk]
  obtain cached w0 sm' w1' rows' w2' where
    k0: "loadJsonObjectWithCache (parse_Record snapshot_platform) snapshot_bucket
           (LEADERBOARD_PAGE_KEY ''2025-01-15'' Installs 3) ?r2
           (''leaderboard/'' @ ''2025-01-15'' @ ''/'' @ sort_name Installs @ ''/'' @ String_of 3)
           initial_world = (Inr cached, w0)"
    and k1: "loadSnapshotSkillsManifest snapshot_platform snapshot_bucket ''2025-01-15'' ?r2 w0 = (Inr sm', w1')"
    and k2: "loadSnapshotSkillsPage snapshot_platform snapshot_bucket ''2025-01-15'' 3 ?r2 w1'
               = (Inr (Some rows'), w2')"
    and skp: "sk_page sk = 3" "sk_page_size sk = manifest_page_size sm'"
    and ski: "sk_items sk = synthesize_items rows' 3 (manifest_page_size sm')"
    by auto
  from k0 have w0: "w0 = ?w0" by simp
  from k1 m2 have sm': "sm' = Some fixture_skills_manifest"
    and w1': "w1' = snd (loadSnapshotSkillsManifest snapshot_platform snapshot_bucket ''2025-01-15'' ?r2 ?w0)"
    by (simp_all add: w0)
  from k2 p2 have rows': "rows' = fixture_page3"
    by (simp add: w1')
  have sk: "sk_page sk = 3" "sk_page_size sk = 2"
    "map sli_skill_id (sk_items sk) = [''zeta'', ''omega'']"
    "map sli_rank_at_fetch (sk_items sk) = [Some ((3 - 1) * 2 + 0 + 1), Some ((3 - 1) * 2 + 1 + 1)]"
    using skp ski ranks by (simp_all add: sm' ps rows')
  have items: "sli_rank_at_fetch (synthesize_items fixture_page3 3 2 ! 1) = Some 6"
    "sli_skill_id (synthesize_items fixture_page3 3 2 ! 1) = ''omega''"
    using inst [THEN conjunct2, THEN conjunct2, THEN conjunct2, THEN conjunct2, THEN conjunct1]
    by (simp_all add: fixture_page3_def snapshotItemToSkillListItem_def split: prod.splits)
  have rk: "rec_rank_at_fetch fixture_omega_record = (3 - 1) * 2 + 1 + 1"
    by (simp add: fixture_omega_record_def)
  have e1: "\<exists>lb. fst ?s = Inr (Some (Json (Leaderboard lb)))
        \<and> lb_page lb = 3 \<and> lb_page_size lb = 2
        \<and> map sli_skill_id (lb_items lb) = [''zeta'', ''omega'']
        \<and> map sli_rank_at_fetch (lb_items lb) = [Some ((3 - 1) * 2 + 0 + 1), Some ((3 - 1) * 2 + 1 + 1)]"
    by (rule exI [of _ lb]) (intro conjI sl lb)
  have e2: "\<exists>resp sk. fst ?k = Inr (Some resp)
        \<and> body resp = Json (SkillsPage sk)
        \<and> sk_page sk = 3 \<and> sk_page_size sk = 2
        \<and> map sli_skill_id (sk_items sk) = [''zeta'', ''omega'']
        \<and> map sli_rank_at_fetch (sk_items sk) = [Some ((3 - 1) * 2 + 0 + 1), Some ((3 - 1) * 2 + 1 + 1)]"
    by (rule exI [of _ resp], rule exI [of _ sk]) (intro conjI kl kb sk)
  show ?thesis
    by (intro conjI f rk ex e1 e2 items)
qed
subsection \<open>FallbackSynthesizer: missing artifacts\<close>

lemma fst_eqE:
  assumes "fst p = r"
  obtains w' where "p = (r, w')"
  using assms by (cases p) auto

lemma record_lookup_null:
  assumes "fst (loadSnapshotSkillLookup P env d request w) = Inr None"
  shows "fst (buildSnapshotSkillRecord P env d skillId request w) = Inr None"
proof -
  obtain w1 where "loadSnapshotSkillLookup P env d request w = (Inr None, w1)"
    using assms by (rule fst_eqE)
  then show ?thesis
    by (simp add: buildSnapshotSkillRecord_def io_bind_def io_return_def split: list.splits)
qed

lemma metrics_lookup_null:
  assumes "fst (loadSnapshotSkillLookup P env d request w) = Inr None"
  shows "fst (buildSnapshotMetricsResponse P env d skillId request w) = Inr None"
proof -
  obtain w1 where "loadSnapshotSkillLookup P env d request w = (Inr None, w1)"
    using assms by (rule fst_eqE)
  then show ?thesis
    by (simp add: buildSnapshotMetricsResponse_def io_bind_def io_return_def)
qed

lemma record_no_entry:
  assumes "loadSnapshotSkillLookup P env d request w = (Inr (Some l), w1)"
    "map_of (sld_entries l) skillId = None"
  shows "fst (buildSnapshotSkillRecord P env d skillId request w) = Inr None"
  using assms
  by (simp add: buildSnapshotSkillRecord_def io_bind_def io_return_def split: list.splits)

lemma metrics_no_entry:
  assumes "loadSnapshotSkillLookup P env d request w = (Inr (Some l), w1)"
    "map_of (sld_entries l) skillId = None"
  shows "fst (buildSnapshotMetricsResponse P env d skillId request w) = Inr None"
  using assms
  by (simp add: buildSnapshotMetricsResponse_def io_bind_def io_return_def)

lemma record_no_row:
  assumes "loadSnapshotSkillLookup P env d request w = (Inr (Some l), w1)"
    "map_of (sld_entries l) skillId = Some e"
    "fst (loadSnapshotSkillsPage P env d (lk_page e) request w1) = Inr pg"
    "pg = None \<or> (\<exists>rows. pg = Some rows \<and> at_index rows (lk_index e) = None)"
  shows "fst (buildSnapshotSkillRecord P env d skillId request w) = Inr None"
proof -
  obtain w2 where "loadSnapshotSkillsPage P env d (lk_page e) request w1 = (Inr pg, w2)"
    using assms(3) by (rule fst_eqE)
  then show ?thesis
    using assms(1,2,4)
    by (auto simp: buildSnapshotSkillRecord_def io_bind_def io_return_def split: list.splits)
qed

lemma metrics_no_row:
  assumes "loadSnapshotSkillLookup P env d request w = (Inr (Some l), w1)"
    "map_of (sld_entries l) skillId = Some e"
    "fst (loadSnapshotSkillsPage P env d (lk_page e) request w1) = Inr pg"
    "pg = None \<or> (\<exists>rows. pg = Some rows \<and> at_index rows (lk_index e) = None)"
  shows "fst (buildSnapshotMetricsResponse P env d skillId request w) = Inr None"
proof -
  obtain w2 where "loadSnapshotSkillsPage P env d (lk_page e) request w1 = (Inr pg, w2)"
    using assms(3) by (rule fst_eqE)
  then show ?thesis
    using assms(1,2,4)
    by (auto simp: buildSnapshotMetricsResponse_def io_bind_def io_return_def)
qed

text \<open>
  C5. For every compound id and snapshot date, \<open>buildSnapshotSkillRecord\<close> and
  \<open>buildSnapshotMetricsResponse\<close> return null, and do not throw, in each of these
  cases: the load of the lookup document returns null; the lookup document has no entry for
  the id; the load of the page that the entry refers to returns null; the page has no row
  at the index that the entry refers to.
\<close>

theorem synthesis_returns_null_on_missing_artifacts:
  "(fst (loadSnapshotSkillLookup P env d request w) = Inr None
      \<longrightarrow> fst (buildSnapshotSkillRecord P env d skillId request w) = Inr None
          \<and> fst (buildSnapshotMetricsResponse P env d skillId request w) = Inr None)
   \<and> (loadSnapshotSkillLookup P env d request w = (Inr (Some l), w1)
       \<and> map_of (sld_entries l) skillId = None
      \<longrightarrow> fst (buildSnapshotSkillRecord P env d skillId request w) = Inr None
          \<and> fst (buildSnapshotMetricsResponse P env d skillId request w) = Inr None)
   \<and> (loadSnapshotSkillLookup P env d request w = (Inr (Some l), w1)
       \<and> map_of (sld_entries l) skillId = Some e
       \<and> fst (loadSnapshotSkillsPage P env d (lk_page e) request w1) = Inr None
      \<longrightarrow> fst (buildSnapshotSkillRecord P env d skillId request w) = Inr None
          \<and> fst (buildSnapshotMetricsResponse P env d skillId request w) = Inr None)
   \<and> (loadSnapshotSkillLookup P env d request w = (Inr (Some l), w1)
       \<and> map_of (sld_entries l) skillId = Some e
       \<and> fst (loadSnapshotSkillsPage P env d (lk_page e) request w1) = Inr (Some rows)
       \<and> at_index rows (lk_index e) = None
      \<longrightarrow> fst (buildSnapshotSkillRecord P env d skillId request w) = Inr None
          \<and> fst (buildSnapshotMetricsResponse P env d skillId request w) = Inr None)"
  using record_lookup_null [of P env d request w skillId]
    metrics_lookup_null [of P env d request w skillId]
    record_no_entry [of P env d request w l w1 skillId]
    metrics_no_entry [of P env d request w l w1 skillId]
    record_no_row [of P env d request w l w1 skillId e None]
    metrics_no_row [of P env d request w l w1 skillId e None]
    record_no_row [of P env d request w l w1 skillId e "Some rows"]
    metrics_no_row [of P env d request w l w1 skillId e "Some rows"]
  by simp

theorem synthesis_returns_null_on_missing_artifacts_witness:
  "fst (buildSnapshotSkillRecord snapshot_platform (bucket_of []) ''2025-01-15'' ''o/r/alpha''
          (fixture_request ''GET'' ''/v1/skills/o%2Fr%2Falpha'' []) initial_world) = Inr None
   \<and> fst (buildSnapshotMetricsResponse snapshot_platform snapshot_bucket ''2025-01-15'' ''o/r/delta''
          (fixture_request ''GET'' ''/v1/skills/o%2Fr%2Falpha'' []) initial_world) = Inr None
   \<and> fst (buildSnapshotSkillRecord snapshot_platform snapshot_bucket ''2025-01-15'' ''o/r/gamma''
          (fixture_request ''GET'' ''/v1/skills/o%2Fr%2Falpha'' []) initial_world) = Inr None
   \<and> fst (buildSnapshotMetricsResponse snapshot_platform snapshot_bucket ''2025-01-15'' ''o/r/beta''
          (fixture_request ''GET'' ''/v1/skills/o%2Fr%2Falpha'' []) initial_world) = Inr None"
proof -
  let ?r = "fixture_request ''GET'' ''/v1/skills/o%2Fr%2Falpha'' []"
  let ?w1 = "snd (loadSnapshotSkillLookup snapshot_platform snapshot_bucket ''2025-01-15'' ?r initial_world)"
  have absent: "fst (loadSnapshotSkillLookup snapshot_platform (bucket_of []) ''2025-01-15'' ?r initial_world)
      = Inr None"
    by code_simp
  have "fst (loadSnapshotSkillLookup snapshot_platform snapshot_bucket ''2025-01-15'' ?r initial_world)
      = Inr (Some fixture_lookup)"
    by code_simp
  then have present: "loadSnapshotSkillLookup snapshot_platform snapshot_bucket ''2025-01-15'' ?r initial_world
      = (Inr (Some fixture_lookup), ?w1)"
    by (simp add: prod_eq_iff)
  have entries: "map_of (sld_entries fixture_lookup) ''o/r/delta'' = None"
    "map_of (sld_entries fixture_lookup) ''o/r/gamma'' = Some \<lparr>lk_page = 2, lk_index = 0\<rparr>"
    "map_of (sld_entries fixture_lookup) ''o/r/beta'' = Some \<lparr>lk_page = 1, lk_index = 5\<rparr>"
    by (simp_all add: fixture_lookup_def)
  have page2: "fst (loadSnapshotSkillsPage snapshot_platform snapshot_bucket ''2025-01-15'' 2 ?r ?w1) = Inr None"
    by code_simp
  have page1: "fst (loadSnapshotSkillsPage snapshot_platform snapshot_bucket ''2025-01-15'' 1 ?r ?w1)
      = Inr (Some fixture_page)"
    by code_simp
  have row: "at_index fixture_page 5 = None"
    by (simp add: at_index_def fixture_page_def)
  have a: "fst (buildSnapshotSkillRecord snapshot_platform (bucket_of []) ''2025-01-15'' ''o/r/alpha'' ?r
                  initial_world) = Inr None"
    using synthesis_returns_null_on_missing_artifacts
            [where P = snapshot_platform and env = "bucket_of []" and d = "''2025-01-15''"
               and request = ?r and w = initial_world and skillId = "''o/r/alpha''"
               and l = fixture_lookup and ?w1.0 = initial_world and e = "\<lparr>lk_page = 2, lk_index = 0\<rparr>"
               and rows = fixture_page, THEN conjunct1] absent
    by simp
  have b: "fst (buildSnapshotMetricsResponse snapshot_platform snapshot_bucket ''2025-01-15'' ''o/r/delta'' ?r
                  initial_world) = Inr None"
    using synthesis_returns_null_on_missing_artifacts
            [where P = snapshot_platform and env = snapshot_bucket and d = "''2025-01-15''"
               and request = ?r and w = initial_world and skillId = "''o/r/delta''"
               and l = fixture_lookup and ?w1.0 = ?w1 and e = "\<lparr>lk_page = 2, lk_index = 0\<rparr>"
               and rows = fixture_page, THEN conjunct2, THEN conjunct1] present entries(1)
    by simp
  have c: "fst (buildSnapshotSkillRecord snapshot_platform snapshot_bucket ''2025-01-15'' ''o/r/gamma'' ?r
                  initial_world) = Inr None"
    using synthesis_returns_null_on_missing_artifacts
            [where P = snapshot_platform and env = snapshot_bucket and d = "''2025-01-15''"
               and request = ?r and w = initial_world and skillId = "''o/r/gamma''"
               and l = fixture_lookup and ?w1.0 = ?w1 and e = "\<lparr>lk_page = 2, lk_index = 0\<rparr>"
               and rows = fixture_page, THEN conjunct2, THEN conjunct2, THEN conjunct1]
          present entries(2) page2
    by simp
  have d: "fst (buildSnapshotMetricsResponse snapshot_platform snapshot_bucket ''2025-01-15'' ''o/r/beta'' ?r
                  initial_world) = Inr None"
    using synthesis_returns_null_on_missing_artifacts
            [where P = snapshot_platform and env = snapshot_bucket and d = "''2025-01-15''"
               and request = ?r and w = initial_world and skillId = "''o/r/beta''"
               and l = fixture_lookup and ?w1.0 = ?w1 and e = "\<lparr>lk_page = 1, lk_index = 5\<rparr>"
               and rows = fixture_page, THEN conjunct2, THEN conjunct2, THEN conjunct2]
          present entries(3) page1 row
    by simp
  show ?thesis using a b c d by simp
qed

subsection \<open>SearchEngine: the sort\<close>

lemma set_insert_by [simp]: "set (insert_by cmp x xs) = insert x (set xs)"
  by (induction xs) auto

lemma length_insert_by [simp]: "length (insert_by cmp x xs) = Suc (length xs)"
  by (induction xs) auto

lemma count_insert_by:
  "count_list (insert_by cmp x xs) y = count_list (x # xs) y"
  by (induction xs) auto

lemma count_Array_sort: "count_list (Array_sort cmp xs) y = count_list xs y"
  by (induction xs) (simp_all add: Array_sort_def count_insert_by)

lemma length_Array_sort [simp]: "length (Array_sort cmp xs) = length xs"
  by (induction xs) (simp_all add: Array_sort_def)

lemma set_Array_sort [simp]: "set (Array_sort cmp xs) = set xs"
  by (induction xs) (simp_all add: Array_sort_def)

lemma consistent_total:
  assumes "consistent_comparator cmp"
  shows "cmp a b \<le> 0 \<or> cmp b a \<le> 0"
  using assms unfolding consistent_comparator_def
  by (metis less_le_not_le linorder_le_cases)

lemma consistent_trans:
  assumes "consistent_comparator cmp" "cmp a b \<le> 0" "cmp b c \<le> 0"
  shows "cmp a c \<le> 0"
  using assms unfolding consistent_comparator_def by blast

lemma sorted_insert_by:
  assumes "consistent_comparator cmp" "sorted_wrt (\<lambda>a b. cmp a b \<le> 0) xs"
  shows "sorted_wrt (\<lambda>a b. cmp a b \<le> 0) (insert_by cmp x xs)"
  using assms(2)
proof (induction xs)
  case Nil
  then show ?case by simp
next
  case (Cons y ys)
  show ?case
  proof (cases "cmp x y \<le> 0")
    case True
    then have "\<forall>z \<in> set ys. cmp x z \<le> 0"
      using Cons.prems consistent_trans [OF assms(1)] by auto
    then show ?thesis using True Cons.prems by simp
  next
    case False
    then have "cmp y x \<le> 0" using consistent_total [OF assms(1), of x y] by simp
    then show ?thesis using False Cons by auto
  qed
qed

lemma sorted_Array_sort:
  assumes "consistent_comparator cmp"
  shows "sorted_wrt (\<lambda>a b. cmp a b \<le> 0) (Array_sort cmp xs)"
proof (induction xs)
  case Nil
  then show ?case by (simp add: Array_sort_def)
next
  case (Cons x xs)
  have "Array_sort cmp (x # xs) = insert_by cmp x (Array_sort cmp xs)"
    by (simp add: Array_sort_def)
  then show ?case using sorted_insert_by [OF assms Cons.IH] by simp
qed

lemma Array_sort_sorted_id:
  assumes "sorted_wrt (\<lambda>a b. cmp a b \<le> 0) xs"
  shows "Array_sort cmp xs = xs"
  using assms
proof (induction xs)
  case Nil
  then show ?case by (simp add: Array_sort_def)
next
  case (Cons x xs)
  have "Array_sort cmp (x # xs) = insert_by cmp x (Array_sort cmp xs)"
    by (simp add: Array_sort_def)
  also have "\<dots> = insert_by cmp x xs" using Cons by simp
  also have "\<dots> = x # xs" using Cons.prems by (cases xs) auto
  finally show ?case .
qed

lemma sortItems_comparator:
  "sortItems P items sortMode = Array_sort (sort_comparator P sortMode) items"
proof -
  have "sort_comparator P sortMode
      = (if sortMode = Name then (\<lambda>a b. localeCompare P (sii_name a) (sii_name b))
         else if sortMode = Weekly
         then (\<lambda>a b. orElse (sii_weekly_installs b) 0 - orElse (sii_weekly_installs a) 0)
         else (\<lambda>a b. orElse (sii_total_installs b) 0 - orElse (sii_total_installs a) 0))"
    by (intro ext) (simp add: sort_comparator_def)
  then show ?thesis by (simp add: sortItems_def)
qed

lemma sort_comparator_consistent:
  assumes "sortMode = Name \<longrightarrow> consistent_comparator (localeCompare P)"
  shows "consistent_comparator (sort_comparator P sortMode)"
proof (cases "sortMode = Name")
  case True
  then have c: "consistent_comparator (localeCompare P)" using assms by simp
  show ?thesis
    unfolding consistent_comparator_def
  proof (intro conjI allI impI)
    fix a b
    show "(sort_comparator P sortMode a b < 0) = (0 < sort_comparator P sortMode b a)"
      using c True unfolding consistent_comparator_def sort_comparator_def by simp
  next
    fix a b c'
    assume "sort_comparator P sortMode a b \<le> 0 \<and> sort_comparator P sortMode b c' \<le> 0"
    then show "sort_comparator P sortMode a c' \<le> 0"
      using consistent_trans [OF c] True unfolding sort_comparator_def by auto
  qed
next
  case False
  then show ?thesis
    unfolding consistent_comparator_def sort_comparator_def by auto
qed

lemma compare_weights_sign:
  "(compare_weights a b < 0) = (compare_weights b a > 0)"
  by (induction a b rule: compare_weights.induct) simp_all

lemma compare_weights_zero:
  "(compare_weights a b = 0) = (a = b)"
  by (induction a b rule: compare_weights.induct) auto

lemma compare_weights_Cons:
  "(compare_weights (x # xs) (y # ys) \<le> 0) = (x < y \<or> (x = y \<and> compare_weights xs ys \<le> 0))"
  by (cases "x < y"; cases "y < x") auto

lemma compare_weights_trans:
  "compare_weights a b \<le> 0 \<Longrightarrow> compare_weights b c \<le> 0 \<Longrightarrow> compare_weights a c \<le> 0"
proof (induction a arbitrary: b c)
  case Nil
  then show ?case by (cases c) simp_all
next
  case (Cons x xs)
  from Cons.prems(1) obtain y ys where b: "b = y # ys" by (cases b) simp_all
  from Cons.prems(2) b obtain z zs where c: "c = z # zs" by (cases c) simp_all
  from Cons.prems(1) b have xy: "x < y \<or> (x = y \<and> compare_weights xs ys \<le> 0)"
    by (simp only: compare_weights_Cons)
  from Cons.prems(2) b c have yz: "y < z \<or> (y = z \<and> compare_weights ys zs \<le> 0)"
    by (simp only: compare_weights_Cons)
  from xy yz Cons.IH [of ys zs]
  have "x < z \<or> (x = z \<and> compare_weights xs zs \<le> 0)"
    by linarith
  then show ?case unfolding c by (simp only: compare_weights_Cons)
qed

lemma compare_weights_strict_trans:
  assumes "compare_weights a b < 0" and "compare_weights b c \<le> 0"
  shows "compare_weights a c < 0"
proof -
  from assms have le: "compare_weights a c \<le> 0"
    using compare_weights_trans [of a b c] by simp
  have "compare_weights a c \<noteq> 0"
  proof
    assume "compare_weights a c = 0"
    then have "a = c" by (simp only: compare_weights_zero)
    with assms(2) have "compare_weights b a \<le> 0" by simp
    moreover from assms(1) have "compare_weights b a > 0" by (simp only: compare_weights_sign)
    ultimately show False by simp
  qed
  with le show ?thesis by simp
qed

lemma fixture_localeCompare_le:
  "(fixture_localeCompare a b \<le> 0)
     = (compare_weights (map collation_primary a) (map collation_primary b) < 0
        \<or> (map collation_primary a = map collation_primary b
            \<and> compare_weights (map collation_tertiary a) (map collation_tertiary b) \<le> 0))"
  using compare_weights_zero [of "map collation_primary a" "map collation_primary b"]
  by (auto simp: fixture_localeCompare_def)

lemma fixture_localeCompare_sign:
  "(fixture_localeCompare a b < 0) = (fixture_localeCompare b a > 0)"
proof -
  let ?p = "compare_weights (map collation_primary a) (map collation_primary b)"
  let ?p' = "compare_weights (map collation_primary b) (map collation_primary a)"
  have z: "(?p = 0) = (?p' = 0)"
    by (auto simp: compare_weights_zero)
  have s: "(?p < 0) = (?p' > 0)"
    by (rule compare_weights_sign)
  have t: "(compare_weights (map collation_tertiary a) (map collation_tertiary b) < 0)
            = (compare_weights (map collation_tertiary b) (map collation_tertiary a) > 0)"
    by (rule compare_weights_sign)
  show ?thesis
  proof (cases "?p = 0")
    case True
    with z have "?p' = 0" by simp
    with True t show ?thesis by (simp add: fixture_localeCompare_def)
  next
    case False
    with z have "?p' \<noteq> 0" by simp
    with False s show ?thesis by (simp add: fixture_localeCompare_def)
  qed
qed

lemma fixture_localeCompare_trans:
  assumes "fixture_localeCompare a b \<le> 0" and "fixture_localeCompare b c \<le> 0"
  shows "fixture_localeCompare a c \<le> 0"
proof -
  let ?pa = "map collation_primary a" and ?pb = "map collation_primary b" and ?pc = "map collation_primary c"
  let ?ta = "map collation_tertiary a" and ?tb = "map collation_tertiary b" and ?tc = "map collation_tertiary c"
  from assms(1) have ab: "compare_weights ?pa ?pb < 0 \<or> (?pa = ?pb \<and> compare_weights ?ta ?tb \<le> 0)"
    by (simp only: fixture_localeCompare_le)
  from assms(2) have bc: "compare_weights ?pb ?pc < 0 \<or> (?pb = ?pc \<and> compare_weights ?tb ?tc \<le> 0)"
    by (simp only: fixture_localeCompare_le)
  have "compare_weights ?pa ?pc < 0 \<or> (?pa = ?pc \<and> compare_weights ?ta ?tc \<le> 0)"
  proof (cases "compare_weights ?pa ?pb < 0")
    case True
    from bc have "compare_weights ?pb ?pc \<le> 0"
      by (auto simp: compare_weights_zero [of ?pc ?pc, THEN iffD2])
    with True show ?thesis by (auto dest: compare_weights_strict_trans)
  next
    case False
    with ab have e: "?pa = ?pb" and t: "compare_weights ?ta ?tb \<le> 0" by simp_all
    from bc show ?thesis
    proof
      assume "compare_weights ?pb ?pc < 0"
      then show ?thesis by (simp add: e)
    next
      assume "?pb = ?pc \<and> compare_weights ?tb ?tc \<le> 0"
      with e t show ?thesis by (auto dest: compare_weights_trans)
    qed
  qed
  then show ?thesis by (simp only: fixture_localeCompare_le)
qed

lemma fixture_localeCompare_consistent:
  "consistent_comparator fixture_localeCompare"
  unfolding consistent_comparator_def
  using fixture_localeCompare_sign fixture_localeCompare_trans by blast


lemma slice_page:
  assumes "0 \<le> start" and "0 \<le> n"
  shows "slice xs start (start + n) = take (nat n) (drop (nat start) xs)"
proof (cases "start \<le> int (length xs)")
  case True
  show ?thesis
  proof (cases "start + n \<le> int (length xs)")
    case True
    with assms \<open>start \<le> int (length xs)\<close> show ?thesis
      by (simp add: slice_def Let_def min_def)
  next
    case False
    with assms \<open>start \<le> int (length xs)\<close>
    have "slice xs start (start + n) = take (nat (int (length xs) - start)) (drop (nat start) xs)"
      by (simp add: slice_def Let_def min_def)
    moreover from False assms have "length (drop (nat start) xs) \<le> nat n"
      by simp
    moreover from assms have "length (drop (nat start) xs) \<le> nat (int (length xs) - start)"
      by simp
    ultimately show ?thesis by simp
  qed
next
  case False
  with assms have "slice xs start (start + n) = []"
    by (simp add: slice_def Let_def min_def)
  moreover from False assms have "drop (nat start) xs = []" by simp
  ultimately show ?thesis by simp
qed

lemma concat_pages:
  "concat (map (\<lambda>k. take m (drop (k * m) xs)) [0..<n]) = take (n * m) xs"
proof (induction n)
  case 0
  show ?case by simp
next
  case (Suc n)
  have "take (n * m) xs @ take m (drop (n * m) xs) = take (n * m + m) xs"
    by (simp add: take_add)
  with Suc show ?case by (simp add: add.commute)
qed

lemma page_start:
  "0 \<le> pageSize \<Longrightarrow> nat ((int k + 1 - 1) * pageSize) = k * nat pageSize"
  by (simp add: nat_mult_distrib)

lemma search_indexed_slice:
  "sr_items (search_indexed P index query sortMode pg pageSize)
     = slice (sortItems P (filter (item_matches P query) (orElse (sid_items index) [])) sortMode)
         ((pg - 1) * pageSize) ((pg - 1) * pageSize + pageSize)"
  unfolding search_indexed_def Let_def by simp

lemma search_indexed_items:
  assumes "1 \<le> pg" and "1 \<le> pageSize"
  shows "sr_items (search_indexed P index query sortMode pg pageSize)
           = take (nat pageSize) (drop (nat ((pg - 1) * pageSize))
               (sortItems P (filter (item_matches P query) (orElse (sid_items index) [])) sortMode))"
proof -
  from assms have "0 \<le> (pg - 1) * pageSize" and "0 \<le> pageSize" by simp_all
  then show ?thesis
    unfolding search_indexed_slice by (rule slice_page)
qed

lemma search_indexed_total:
  "sr_total (search_indexed P index query sortMode pg pageSize)
     = int (length (sortItems P (filter (item_matches P query) (orElse (sid_items index) [])) sortMode))"
  unfolding search_indexed_def Let_def by simp
lemma skills_indexed_slice:
  "sr_items (skills_indexed P index rawQ sortMode pg pageSize latestManifest)
     = slice (sortItems P
                (if toLowerCase P rawQ \<noteq> []
                 then filter (item_matches P (toLowerCase P rawQ)) (orElse (sid_items index) [])
                 else orElse (sid_items index) []) sortMode)
         ((pg - 1) * pageSize) ((pg - 1) * pageSize + pageSize)"
  unfolding skills_indexed_def Let_def by simp

lemma skills_indexed_items:
  assumes "1 \<le> pg" and "1 \<le> pageSize"
  shows "sr_items (skills_indexed P index rawQ sortMode pg pageSize latestManifest)
           = take (nat pageSize) (drop (nat ((pg - 1) * pageSize))
               (sortItems P
                  (if toLowerCase P rawQ \<noteq> []
                   then filter (item_matches P (toLowerCase P rawQ)) (orElse (sid_items index) [])
                   else orElse (sid_items index) []) sortMode))"
proof -
  from assms have "0 \<le> (pg - 1) * pageSize" and "0 \<le> pageSize" by simp_all
  then show ?thesis
    unfolding skills_indexed_slice by (rule slice_page)
qed
lemma skills_indexed_total:
  "sr_total (skills_indexed P index rawQ sortMode pg pageSize latestManifest)
     = (if toLowerCase P rawQ = []
           \<and> sr_items (skills_indexed P index rawQ sortMode pg pageSize latestManifest) = []
           \<and> manifest_total_skills latestManifest \<noteq> None
           \<and> manifest_total_skills latestManifest \<noteq> Some 0
        then orElse (manifest_total_skills latestManifest) 0
        else int (length (sortItems P
                  (if toLowerCase P rawQ \<noteq> []
                   then filter (item_matches P (toLowerCase P rawQ)) (orElse (sid_items index) [])
                   else orElse (sid_items index) []) sortMode)))"
proof (cases "manifest_total_skills latestManifest")
  case None
  then show ?thesis unfolding skills_indexed_def Let_def by simp
next
  case (Some n)
  then show ?thesis unfolding skills_indexed_def Let_def by (cases "n = 0") simp_all
qed

lemma pages_concat:
  assumes "1 \<le> pageSize"
  shows "concat (map (\<lambda>k. take (nat pageSize) (drop (nat ((int k + 1 - 1) * pageSize)) xs)) [0..<n])
           = take (n * nat pageSize) xs"
proof -
  have "\<And>k. nat ((int k + 1 - 1) * pageSize) = k * nat pageSize"
    using assms by (simp add: nat_mult_distrib)
  then show ?thesis by (simp only: concat_pages)
qed
text \<open>
  C7, the part that fails. \<open>/v1/skills\<close> on its indexed path, with no query, an
  index of two items, page 2 of size 2 and a latest manifest that counts 5 skills: the slice is
  empty and \<open>total\<close> is the 5 of the manifest, not the length 2 of the sorted list.
\<close>

theorem skills_indexed_total_past_the_end_is_manifest_count:
  "sr_items (skills_indexed fixture_platform fixture_index [] Installs 2 2 (Some counted_manifest)) = []
   \<and> sr_total (skills_indexed fixture_platform fixture_index [] Installs 2 2 (Some counted_manifest)) = 5
   \<and> length (sortItems fixture_platform (orElse (sid_items fixture_index) []) Installs) = 2"
  by code_simp

text \<open>
  C7, as amended. On both indexed paths, for a page from 1 on and a page size from 1 on (the
  handlers clamp both), the items of a page are the slice of the filtered and sorted list
  that starts at \<open>(page - 1) * page_size\<close> and holds \<open>page_size\<close> items; the
  items of the pages 1 to \<open>n\<close>, one after the other, are the first
  \<open>n * page_size\<close> items of that list, and the whole list, nothing twice and nothing
  lost, once \<open>n * page_size\<close> reaches its length. On \<open>/v1/search\<close>
  \<open>total\<close> is the length of the filtered and sorted list. On \<open>/v1/skills\<close>
  it is that length too, except when the query is empty, the slice is empty and the latest
  manifest has a non-zero \<open>counts.total_skills\<close>: then \<open>total\<close> is that count.
\<close>

theorem indexed_pagination_is_lossless_slice:
  "1 \<le> pageSize \<longrightarrow>
     (let S = sortItems P (filter (item_matches P query) (orElse (sid_items index) [])) sortMode;
          S' = sortItems P
                 (if toLowerCase P rawQ \<noteq> []
                  then filter (item_matches P (toLowerCase P rawQ)) (orElse (sid_items index) [])
                  else orElse (sid_items index) []) sortMode
      in (1 \<le> pg \<longrightarrow>
            sr_items (search_indexed P index query sortMode pg pageSize)
              = take (nat pageSize) (drop (nat ((pg - 1) * pageSize)) S)
            \<and> sr_items (skills_indexed P index rawQ sortMode pg pageSize latestManifest)
              = take (nat pageSize) (drop (nat ((pg - 1) * pageSize)) S'))
         \<and> concat (map (\<lambda>k. sr_items (search_indexed P index query sortMode (int k + 1) pageSize)) [0..<n])
              = take (n * nat pageSize) S
         \<and> concat (map (\<lambda>k. sr_items (skills_indexed P index rawQ sortMode (int k + 1) pageSize latestManifest))
                      [0..<n])
              = take (n * nat pageSize) S'
         \<and> (length S \<le> n * nat pageSize \<longrightarrow>
              concat (map (\<lambda>k. sr_items (search_indexed P index query sortMode (int k + 1) pageSize)) [0..<n])
                = S)
         \<and> (length S' \<le> n * nat pageSize \<longrightarrow>
              concat (map (\<lambda>k. sr_items (skills_indexed P index rawQ sortMode (int k + 1) pageSize latestManifest))
                        [0..<n])
                = S')
         \<and> sr_total (search_indexed P index query sortMode pg pageSize) = int (length S)
         \<and> sr_total (skills_indexed P index rawQ sortMode pg pageSize latestManifest)
              = (if toLowerCase P rawQ = []
                    \<and> sr_items (skills_indexed P index rawQ sortMode pg pageSize latestManifest) = []
                    \<and> manifest_total_skills latestManifest \<noteq> None
                    \<and> manifest_total_skills latestManifest \<noteq> Some 0
                 then orElse (manifest_total_skills latestManifest) 0
                 else int (length S')))"
proof (intro impI)
  assume ps: "1 \<le> pageSize"
  define S where "S = sortItems P (filter (item_matches P query) (orElse (sid_items index) [])) sortMode"
  define S' where "S' = sortItems P
                 (if toLowerCase P rawQ \<noteq> []
                  then filter (item_matches P (toLowerCase P rawQ)) (orElse (sid_items index) [])
                  else orElse (sid_items index) []) sortMode"
  have a: "1 \<le> pg \<longrightarrow>
            sr_items (search_indexed P index query sortMode pg pageSize)
              = take (nat pageSize) (drop (nat ((pg - 1) * pageSize)) S)
            \<and> sr_items (skills_indexed P index rawQ sortMode pg pageSize latestManifest)
              = take (nat pageSize) (drop (nat ((pg - 1) * pageSize)) S')"
    unfolding S_def S'_def using search_indexed_items [OF _ ps] skills_indexed_items [OF _ ps] by blast
  have pk: "\<And>k :: nat. 1 \<le> int k + 1" by simp
  have b: "concat (map (\<lambda>k. sr_items (search_indexed P index query sortMode (int k + 1) pageSize)) [0..<n])
              = take (n * nat pageSize) S"
    unfolding S_def search_indexed_items [OF pk ps] by (rule pages_concat [OF ps])
  have c: "concat (map (\<lambda>k. sr_items (skills_indexed P index rawQ sortMode (int k + 1) pageSize latestManifest))
                      [0..<n])
              = take (n * nat pageSize) S'"
    unfolding S'_def skills_indexed_items [OF pk ps] by (rule pages_concat [OF ps])
  have d: "length S \<le> n * nat pageSize \<longrightarrow>
              concat (map (\<lambda>k. sr_items (search_indexed P index query sortMode (int k + 1) pageSize)) [0..<n])
                = S"
    unfolding b by simp
  have e: "length S' \<le> n * nat pageSize \<longrightarrow>
              concat (map (\<lambda>k. sr_items (skills_indexed P index rawQ sortMode (int k + 1) pageSize latestManifest))
                        [0..<n])
                = S'"
    unfolding c by simp
  have f: "sr_total (search_indexed P index query sortMode pg pageSize) = int (length S)"
    unfolding S_def by (rule search_indexed_total)
  have g: "sr_total (skills_indexed P index rawQ sortMode pg pageSize latestManifest)
              = (if toLowerCase P rawQ = []
                    \<and> sr_items (skills_indexed P index rawQ sortMode pg pageSize latestManifest) = []
                    \<and> manifest_total_skills latestManifest \<noteq> None
                    \<and> manifest_total_skills latestManifest \<noteq> Some 0
                 then orElse (manifest_total_skills latestManifest) 0
                 else int (length S'))"
    unfolding S'_def by (rule skills_indexed_total)
  from a b c d e f g show "let S = sortItems P (filter (item_matches P query) (orElse (sid_items index) [])) sortMode;
          S' = sortItems P
                 (if toLowerCase P rawQ \<noteq> []
                  then filter (item_matches P (toLowerCase P rawQ)) (orElse (sid_items index) [])
                  else orElse (sid_items index) []) sortMode
      in (1 \<le> pg \<longrightarrow>
            sr_items (search_indexed P index query sortMode pg pageSize)
              = take (nat pageSize) (drop (nat ((pg - 1) * pageSize)) S)
            \<and> sr_items (skills_indexed P index rawQ sortMode pg pageSize latestManifest)
              = take (nat pageSize) (drop (nat ((pg - 1) * pageSize)) S'))
         \<and> concat (map (\<lambda>k. sr_items (search_indexed P index query sortMode (int k + 1) pageSize)) [0..<n])
              = take (n * nat pageSize) S
         \<and> concat (map (\<lambda>k. sr_items (skills_indexed P index rawQ sortMode (int k + 1) pageSize latestManifest))
                      [0..<n])
              = take (n * nat pageSize) S'
         \<and> (length S \<le> n * nat pageSize \<longrightarrow>
              concat (map (\<lambda>k. sr_items (search_indexed P index query sortMode (int k + 1) pageSize)) [0..<n])
                = S)
         \<and> (length S' \<le> n * nat pageSize \<longrightarrow>
              concat (map (\<lambda>k. sr_items (skills_indexed P index rawQ sortMode (int k + 1) pageSize latestManifest))
                        [0..<n])
                = S')
         \<and> sr_total (search_indexed P index query sortMode pg pageSize) = int (length S)
         \<and> sr_total (skills_indexed P index rawQ sortMode pg pageSize latestManifest)
              = (if toLowerCase P rawQ = []
                    \<and> sr_items (skills_indexed P index rawQ sortMode pg pageSize latestManifest) = []
                    \<and> manifest_total_skills latestManifest \<noteq> None
                    \<and> manifest_total_skills latestManifest \<noteq> Some 0
                 then orElse (manifest_total_skills latestManifest) 0
                 else int (length S'))"
    unfolding Let_def S_def S'_def by (intro conjI)
qed
theorem indexed_pagination_is_lossless_slice_witness:
  "sr_items (search_indexed fixture_platform fixture_index ''tool'' Installs 2 1) = [fixture_beta]
   \<and> concat (map (\<lambda>k. sr_items (search_indexed fixture_platform fixture_index ''tool'' Installs (int k + 1) 1))
               [0..<2])
       = [fixture_alpha, fixture_beta]
   \<and> sr_total (search_indexed fixture_platform fixture_index ''tool'' Installs 2 1) = 2
   \<and> sr_items (skills_indexed fixture_platform fixture_index ''Tool'' Installs 2 1 (Some counted_manifest))
       = [fixture_beta]
   \<and> sr_total (skills_indexed fixture_platform fixture_index ''Tool'' Installs 2 1 (Some counted_manifest)) = 2"
proof -
  have q: "toLowerCase fixture_platform ''Tool'' = ''tool''"
    by code_simp
  have s: "sortItems fixture_platform
             (filter (item_matches fixture_platform ''tool'') (orElse (sid_items fixture_index) [])) Installs
           = [fixture_alpha, fixture_beta]"
    by code_simp
  have ps: "(1 :: int) \<le> 1" by simp
  note inst = indexed_pagination_is_lossless_slice
                [where P = fixture_platform and index = fixture_index and query = "''tool''"
                   and rawQ = "''Tool''" and sortMode = Installs and pg = 2 and pageSize = 1 and n = 2
                   and latestManifest = "Some counted_manifest", THEN mp, OF ps, unfolded Let_def]
  have a: "sr_items (search_indexed fixture_platform fixture_index ''tool'' Installs 2 1) = [fixture_beta]"
    using inst [THEN conjunct1] by (simp add: Let_def q s)
  have a': "sr_items (skills_indexed fixture_platform fixture_index ''Tool'' Installs 2 1 (Some counted_manifest))
       = [fixture_beta]"
    using inst [THEN conjunct1] by (simp add: Let_def q s)
  have b: "concat (map (\<lambda>k. sr_items (search_indexed fixture_platform fixture_index ''tool'' Installs (int k + 1) 1))
               [0..<2])
       = [fixture_alpha, fixture_beta]"
    using inst [THEN conjunct2, THEN conjunct1] by (simp add: Let_def q s)
  have c: "sr_total (search_indexed fixture_platform fixture_index ''tool'' Installs 2 1) = 2"
    using inst [THEN conjunct2, THEN conjunct2, THEN conjunct2, THEN conjunct2, THEN conjunct2, THEN conjunct1]
    by (simp add: Let_def q s)
  have d: "sr_total (skills_indexed fixture_platform fixture_index ''Tool'' Installs 2 1 (Some counted_manifest)) = 2"
    using inst [THEN conjunct2, THEN conjunct2, THEN conjunct2, THEN conjunct2, THEN conjunct2, THEN conjunct2]
          a'
    by (simp add: Let_def q s)
  show ?thesis using a b c a' d by (intro conjI)
qed
subsection \<open>SearchEngine: validation of the query\<close>

lemma search_short:
  assumes "req_method request = ''GET''" "req_pathname request = ''/v1/search''"
    "blocked (fst (enforceRateLimit P (now_rate clk) request w)) = None"
    "length (trim P (orElse (searchParams_get request ''q'') [])) < 2"
  shows "fetch P env clk request w
     = (json (ErrorBody ''q must be at least 2 characters'') 400
          (rl_headers (fst (enforceRateLimit P (now_rate clk) request w))),
        snd (enforceRateLimit P (now_rate clk) request w))"
  using assms
  by (simp add: fetch_def route_search fetch_search_def rate_limited_admitted Let_def io_return_def)

lemma search_long:
  assumes "req_method request = ''GET''" "req_pathname request = ''/v1/search''"
    "blocked (fst (enforceRateLimit P (now_rate clk) request w)) = None"
    "length (trim P (orElse (searchParams_get request ''q'') [])) > 100"
  shows "fetch P env clk request w
     = (json (ErrorBody ''q must be <= 100 characters'') 400
          (rl_headers (fst (enforceRateLimit P (now_rate clk) request w))),
        snd (enforceRateLimit P (now_rate clk) request w))"
  using assms
  by (simp add: fetch_def route_search fetch_search_def rate_limited_admitted Let_def io_return_def)

lemma skills_leaderboard_status:
  assumes "skills_leaderboard P env request h sortParam pg pageSize snapshotDate lm w = (Inr (Some resp), w')"
  shows "status resp = 200"
  using assms unfolding skills_leaderboard_def
  by (auto elim!: io_bind_cases simp: io_return_def Let_def split: if_splits option.splits)

lemma with_snapshot_date_not_400:
  assumes h: "\<And>d l w1 r1 w2. handler d l w1 = (Inr r1, w2) \<Longrightarrow> status r1 \<noteq> 400"
    and ok: "\<not> truthy (searchParams_get request ''snapshot_date'')
             \<or> isDateString (orElse (searchParams_get request ''snapshot_date'') [])"
    and run: "with_snapshot_date P env clk request rlHeaders unavailable handler w = (Inr r, w')"
  shows "status r \<noteq> 400"
  using run ok h unfolding with_snapshot_date_def Let_def
  by (auto elim!: io_bind_cases simp: io_return_def split: if_splits option.splits)

lemma skills_not_400:
  assumes "isSortMode (orElse (searchParams_get request ''sort'') ''installs'') \<noteq> None"
    and ok: "\<not> truthy (searchParams_get request ''snapshot_date'')
             \<or> isDateString (orElse (searchParams_get request ''snapshot_date'') [])"
  and run: "fetch_skills P env clk request w = (Inr r, w')"
  shows "status r \<noteq> 400"
proof (cases "blocked (fst (enforceRateLimit P (now_rate clk) request w))")
  case (Some resp)
  then show ?thesis
    using run enforce_blocked_status [OF Some] by (simp add: fetch_skills_def rate_limited_blocked)
next
  case None
  obtain sortMode where sm: "isSortMode (orElse (searchParams_get request ''sort'') ''installs'') = Some sortMode"
    using assms(1) by blast
  show ?thesis
    using run unfolding fetch_skills_def rate_limited_admitted [OF None] Let_def sm option.case
    by (rule with_snapshot_date_not_400 [OF _ ok, rotated])
       (auto elim!: io_bind_cases simp: io_return_def dest!: skills_leaderboard_status split: if_splits option.splits)
qed

lemma search_blocked:
  assumes "req_method request = ''GET''" "req_pathname request = ''/v1/search''"
    "blocked (fst (enforceRateLimit P (now_rate clk) request w)) = Some resp"
  shows "fetch P env clk request w = (resp, snd (enforceRateLimit P (now_rate clk) request w))"
  using rate_limited_blocked [of P clk request w resp] assms
  by (simp add: fetch_def route_search fetch_search_def)

text \<open>
  C8, as the spec states it, fails for a request that the rate limiter blocks: the limiter
  runs before the validation of the query, and its answer is 429, whatever the query.
\<close>

theorem search_short_query_rate_limited_is_429:
  "length (trim fixture_platform
            (orElse (searchParams_get (fixture_request ''GET'' ''/v1/search'' [(''q'', ''a'')]) ''q'') [])) < 2
   \<and> status (fst (fetch fixture_platform \<lparr>SKILLSIGHT_DATA = None\<rparr> (fixture_clock 1000)
                  (fixture_request ''GET'' ''/v1/search'' [(''q'', ''a'')])
                  (initial_world\<lparr>rateLimitByClient :=
                      [''203.0.113.7'' \<mapsto> \<lparr>windowStartMs = 0, count = 60\<rparr>]\<rparr>))) = 429"
proof -
  let ?r = "fixture_request ''GET'' ''/v1/search'' [(''q'', ''a'')]"
  let ?w = "initial_world\<lparr>rateLimitByClient := [''203.0.113.7'' \<mapsto> \<lparr>windowStartMs = 0, count = 60\<rparr>]\<rparr>"
  have c: "getRateLimitClientId fixture_platform ?r = ''203.0.113.7''"
    by (simp add: getRateLimitClientId_def fixture_platform_def fixture_request_def fixture_trim_def
          is_space_def)
  have "\<exists>resp. blocked (fst (enforceRateLimit fixture_platform 1000 ?r ?w)) = Some resp \<and> status resp = 429"
    using enforce_block [of ?w fixture_platform ?r "\<lparr>windowStartMs = 0, count = 60\<rparr>" 1000]
    by (auto simp: c initial_world_def)
  then obtain resp where b: "blocked (fst (enforceRateLimit fixture_platform 1000 ?r ?w)) = Some resp"
    and s: "status resp = 429" by blast
  have m: "req_method ?r = ''GET''" "req_pathname ?r = ''/v1/search''"
    by (simp_all add: fixture_request_def)
  have "fetch fixture_platform \<lparr>SKILLSIGHT_DATA = None\<rparr> (fixture_clock 1000) ?r ?w
     = (resp, snd (enforceRateLimit fixture_platform 1000 ?r ?w))"
    using rate_limited_blocked [of fixture_platform "fixture_clock 1000" ?r ?w resp] b
    by (simp add: fetch_def route_search [OF m] fetch_search_def fixture_clock_def)
  moreover have "length (trim fixture_platform (orElse (searchParams_get ?r ''q'') [])) < 2"
    by (simp add: fixture_platform_def fixture_request_def fixture_trim_def is_space_def
          searchParams_get_def orElse_def)
  ultimately show ?thesis using s by simp
qed

text \<open>
  C8, amended. For a GET request to \<open>/v1/search\<close> that the rate limiter admits: when
  the trimmed query is shorter than 2 the answer is 400 with the message
  \<open>q must be at least 2 characters\<close>, when it is longer than 100 the answer is 400
  with the message \<open>q must be <= 100 characters\<close>, and in both cases neither the edge
  cache nor the bucket has been read or written. A GET request to \<open>/v1/search\<close>
  that the rate limiter blocks is answered 429, whatever its query, and storage is not
  touched either. For a GET request to \<open>/v1/skills\<close> with a valid sort mode and a
  snapshot date that is absent or valid, the answer is never a 400, whatever the query is,
  the empty one included.
\<close>

theorem query_length_validated_before_storage:
  "(req_method request = ''GET'' \<and> req_pathname request = ''/v1/search''
      \<and> blocked (fst (enforceRateLimit P (now_rate clk) request w)) = None
      \<and> length (trim P (orElse (searchParams_get request ''q'') [])) < 2
    \<longrightarrow> status (fst (fetch P env clk request w)) = 400
        \<and> body (fst (fetch P env clk request w)) = Json (ErrorBody ''q must be at least 2 characters'')
        \<and> accesses (snd (fetch P env clk request w)) = accesses w
        \<and> edge_cache (snd (fetch P env clk request w)) = edge_cache w)
   \<and> (req_method request = ''GET'' \<and> req_pathname request = ''/v1/search''
      \<and> blocked (fst (enforceRateLimit P (now_rate clk) request w)) = None
      \<and> length (trim P (orElse (searchParams_get request ''q'') [])) > 100
    \<longrightarrow> status (fst (fetch P env clk request w)) = 400
        \<and> body (fst (fetch P env clk request w)) = Json (ErrorBody ''q must be <= 100 characters'')
        \<and> accesses (snd (fetch P env clk request w)) = accesses w
        \<and> edge_cache (snd (fetch P env clk request w)) = edge_cache w)
   \<and> (req_method request = ''GET'' \<and> req_pathname request = ''/v1/skills''
      \<and> isSortMode (orElse (searchParams_get request ''sort'') ''installs'') \<noteq> None
      \<and> (\<not> truthy (searchParams_get request ''snapshot_date'')
           \<or> isDateString (orElse (searchParams_get request ''snapshot_date'') []))
    \<longrightarrow> status (fst (fetch P env clk request w)) \<noteq> 400)
   \<and> (req_method request = ''GET'' \<and> req_pathname request = ''/v1/search''
      \<and> blocked (fst (enforceRateLimit P (now_rate clk) request w)) \<noteq> None
    \<longrightarrow> status (fst (fetch P env clk request w)) = 429
        \<and> accesses (snd (fetch P env clk request w)) = accesses w
        \<and> edge_cache (snd (fetch P env clk request w)) = edge_cache w)"
proof (intro conjI impI)
  assume b: "req_method request = ''GET'' \<and> req_pathname request = ''/v1/search''
      \<and> blocked (fst (enforceRateLimit P (now_rate clk) request w)) \<noteq> None"
  then obtain resp where r: "blocked (fst (enforceRateLimit P (now_rate clk) request w)) = Some resp"
    by blast
  from b have f: "fetch P env clk request w = (resp, snd (enforceRateLimit P (now_rate clk) request w))"
    by (intro search_blocked r) simp_all
  show "status (fst (fetch P env clk request w)) = 429"
    using enforce_blocked_status [OF r] by (simp add: f)
  show "accesses (snd (fetch P env clk request w)) = accesses w"
    by (simp add: f enforce_frame)
  show "edge_cache (snd (fetch P env clk request w)) = edge_cache w"
    by (simp add: f enforce_frame)
next
  assume h: "req_method request = ''GET'' \<and> req_pathname request = ''/v1/skills''
      \<and> isSortMode (orElse (searchParams_get request ''sort'') ''installs'') \<noteq> None
      \<and> (\<not> truthy (searchParams_get request ''snapshot_date'')
           \<or> isDateString (orElse (searchParams_get request ''snapshot_date'') []))"
  show "status (fst (fetch P env clk request w)) \<noteq> 400"
  proof (cases rule: fetch_status_cases [of P env clk request w])
    case (thrown e w')
    then show ?thesis by simp
  next
    case (returned r w')
    have "fetch_skills P env clk request w = (Inr r, w')"
      using returned(1) h by (simp add: route_skills)
    from skills_not_400 [OF _ _ this] h returned(2) show ?thesis by simp
  qed
qed (simp_all add: search_short search_long enforce_frame)

theorem query_length_validated_before_storage_witness:
  "status (fst (fetch fixture_platform (bucket_of []) (fixture_clock 1000)
                  (fixture_request ''GET'' ''/v1/search'' [(''q'', '' a '')]) initial_world)) = 400
   \<and> body (fst (fetch fixture_platform (bucket_of []) (fixture_clock 1000)
                  (fixture_request ''GET'' ''/v1/search'' [(''q'', '' a '')]) initial_world))
       = Json (ErrorBody ''q must be at least 2 characters'')
   \<and> accesses (snd (fetch fixture_platform (bucket_of []) (fixture_clock 1000)
                  (fixture_request ''GET'' ''/v1/search'' [(''q'', '' a '')]) initial_world)) = []
   \<and> body (fst (fetch fixture_platform (bucket_of []) (fixture_clock 1000)
                  (fixture_request ''GET'' ''/v1/search'' [(''q'', replicate 101 CHR ''a'')]) initial_world))
       = Json (ErrorBody ''q must be <= 100 characters'')
   \<and> status (fst (fetch fixture_platform (bucket_of []) (fixture_clock 1000)
                  (fixture_request ''GET'' ''/v1/skills'' [(''q'', [])]) initial_world)) \<noteq> 400
   \<and> status (fst (fetch fixture_platform (bucket_of []) (fixture_clock 1000)
                  (fixture_request ''GET'' ''/v1/search'' [(''q'', ''tool'')])
                  (initial_world\<lparr>rateLimitByClient :=
                      [''203.0.113.7'' \<mapsto> \<lparr>windowStartMs = 0, count = 60\<rparr>]\<rparr>))) = 429"
proof -
  let ?full = "initial_world\<lparr>rateLimitByClient := [''203.0.113.7'' \<mapsto> \<lparr>windowStartMs = 0, count = 60\<rparr>]\<rparr>"
  let ?valid = "fixture_request ''GET'' ''/v1/search'' [(''q'', ''tool'')]"
  have cid: "getRateLimitClientId fixture_platform ?valid = ''203.0.113.7''"
    by (simp add: getRateLimitClientId_def fixture_platform_def fixture_request_def fixture_trim_def
          is_space_def)
  have "\<exists>resp. blocked (fst (enforceRateLimit fixture_platform 1000 ?valid ?full)) = Some resp"
    using enforce_block [of ?full fixture_platform ?valid "\<lparr>windowStartMs = 0, count = 60\<rparr>" 1000]
    by (auto simp: cid initial_world_def)
  then have blk: "req_method ?valid = ''GET'' \<and> req_pathname ?valid = ''/v1/search''
      \<and> blocked (fst (enforceRateLimit fixture_platform (now_rate (fixture_clock 1000)) ?valid ?full)) \<noteq> None"
    by (auto simp: fixture_request_def fixture_clock_def)
  have s429: "status (fst (fetch fixture_platform (bucket_of []) (fixture_clock 1000) ?valid ?full)) = 429"
    using query_length_validated_before_storage
            [of ?valid fixture_platform "fixture_clock 1000" ?full "bucket_of []",
             THEN conjunct2, THEN conjunct2, THEN conjunct2, THEN mp, OF blk]
    by simp
  let ?short = "fixture_request ''GET'' ''/v1/search'' [(''q'', '' a '')]"
  let ?long = "fixture_request ''GET'' ''/v1/search'' [(''q'', replicate 101 CHR ''a'')]"
  let ?bulk = "fixture_request ''GET'' ''/v1/skills'' [(''q'', [])]"
  have adm: "\<And>p ps. blocked (fst (enforceRateLimit fixture_platform (now_rate (fixture_clock 1000))
                 (fixture_request ''GET'' p ps) initial_world)) = None"
    using enforce_fresh_window [of initial_world fixture_platform _ 1000]
    by (simp add: initial_world_def fixture_clock_def)
  have q1: "length (trim fixture_platform (orElse (searchParams_get ?short ''q'') [])) < 2"
    by (simp add: fixture_platform_def fixture_request_def fixture_trim_def is_space_def
          searchParams_get_def orElse_def)
  have "dropWhile is_space (replicate 101 CHR ''a'') = replicate 101 CHR ''a''"
    by (rule dropWhile_eq_self_iff [THEN iffD2]) (simp add: is_space_def)
  then have q2: "length (trim fixture_platform (orElse (searchParams_get ?long ''q'') [])) > 100"
    by (simp add: fixture_platform_def fixture_request_def fixture_trim_def
          searchParams_get_def orElse_def)
  have q3: "isSortMode (orElse (searchParams_get ?bulk ''sort'') ''installs'') \<noteq> None"
    "\<not> truthy (searchParams_get ?bulk ''snapshot_date'')"
    by (simp_all add: fixture_request_def searchParams_get_def orElse_def isSortMode_def truthy_def)
  show ?thesis
    using query_length_validated_before_storage
            [of ?short fixture_platform "fixture_clock 1000" initial_world "bucket_of []"]
          query_length_validated_before_storage
            [of ?long fixture_platform "fixture_clock 1000" initial_world "bucket_of []"]
          query_length_validated_before_storage
            [of ?bulk fixture_platform "fixture_clock 1000" initial_world "bucket_of []"]
          adm q1 q2 q3 s429
    by (simp add: fixture_request_def initial_world_def)
qed

subsection \<open>Router: the method of the request\<close>

text \<open>
  C9, as the spec states it (every method other than GET is answered with 405), fails for
  the preflight method: \<open>fetch\<close> answers \<open>OPTIONS\<close> with 204 before it tests
  for \<open>GET\<close>.
\<close>

theorem fetch_options_is_not_405:
  "req_method (fixture_request ''OPTIONS'' ''/v1/search'' []) \<noteq> ''GET''
   \<and> status (fst (fetch fixture_platform \<lparr>SKILLSIGHT_DATA = None\<rparr> (fixture_clock 0)
                  (fixture_request ''OPTIONS'' ''/v1/search'' []) initial_world)) = 204"
  by (simp add: fetch_def fetch_routes_def fixture_request_def io_return_def)

text \<open>
  C9, amended. A request whose method is \<open>OPTIONS\<close> is answered with status 204, the
  CORS headers and no body; a request whose method is neither \<open>GET\<close> nor
  \<open>OPTIONS\<close> is answered with status 405 and the error \<open>Method not allowed\<close>.
  Neither touches the state of the worker, the edge cache or the bucket.
\<close>

theorem fetch_method_dispatch:
  "(req_method request = ''OPTIONS''
      \<longrightarrow> fetch P env clk request w = (\<lparr>status = 204, headers = CORS_HEADERS, body = NoBody\<rparr>, w))
   \<and> (req_method request \<noteq> ''GET'' \<and> req_method request \<noteq> ''OPTIONS''
      \<longrightarrow> status (fst (fetch P env clk request w)) = 405
          \<and> body (fst (fetch P env clk request w)) = Json (ErrorBody ''Method not allowed'')
          \<and> snd (fetch P env clk request w) = w)"
  by (simp add: fetch_def fetch_routes_def io_return_def json_def)

theorem fetch_method_dispatch_witness:
  "status (fst (fetch fixture_platform \<lparr>SKILLSIGHT_DATA = None\<rparr> (fixture_clock 0)
                  (fixture_request ''POST'' ''/v1/search'' [(''q'', ''tool'')]) initial_world)) = 405
   \<and> fetch fixture_platform \<lparr>SKILLSIGHT_DATA = None\<rparr> (fixture_clock 0)
        (fixture_request ''OPTIONS'' ''/v1/search'' []) initial_world
      = (\<lparr>status = 204, headers = CORS_HEADERS, body = NoBody\<rparr>, initial_world)"
  using fetch_method_dispatch [of "fixture_request ''POST'' ''/v1/search'' [(''q'', ''tool'')]"
          fixture_platform "\<lparr>SKILLSIGHT_DATA = None\<rparr>" "fixture_clock 0" initial_world]
        fetch_method_dispatch [of "fixture_request ''OPTIONS'' ''/v1/search'' []"
          fixture_platform "\<lparr>SKILLSIGHT_DATA = None\<rparr>" "fixture_clock 0" initial_world]
  by (simp add: fixture_request_def)

subsection \<open>SearchEngine: the lookup fallback\<close>

lemma load_text_same_key:
  assumes "cacheRequest request sfx' = cacheRequest request sfx"
  shows "visible_text env request (snd (loadJsonTextWithCache env key request sfx' w)) key sfx
           = visible_text env request w key sfx"
  using assms
  by (simp add: loadJsonTextWithCache_def visible_text_def Let_def record_access_def split: option.splits)

lemma load_object_edge_cache:
  "edge_cache (snd (loadJsonObjectWithCache JSON_parse env key request sfx w))
     = edge_cache (snd (loadJsonTextWithCache env key request sfx w))"
  by (cases "loadJsonTextWithCache env key request sfx w")
     (auto simp: loadJsonObjectWithCache_def io_bind_def io_return_def io_throw_def io_of_def
                 parseJson_def split: sum.splits option.splits)

lemma visible_text_edge_cache:
  "edge_cache w1 = edge_cache w2 \<Longrightarrow> visible_text env request w1 key sfx = visible_text env request w2 key sfx"
  by (cases "SKILLSIGHT_DATA env") (simp_all add: visible_text_def)

lemma load_object_visible:
  assumes "cacheRequest request sfx' = cacheRequest request sfx \<longrightarrow> key' = key"
  shows "visible_text env request (snd (loadJsonObjectWithCache JSON_parse env key' request sfx' w)) key sfx
           = visible_text env request w key sfx"
proof -
  have "visible_text env request (snd (loadJsonObjectWithCache JSON_parse env key' request sfx' w)) key sfx
          = visible_text env request (snd (loadJsonTextWithCache env key' request sfx' w)) key sfx"
    by (rule visible_text_edge_cache) (rule load_object_edge_cache)
  also have "\<dots> = visible_text env request w key sfx"
  proof (cases "cacheRequest request sfx' = cacheRequest request sfx")
    case True
    with assms show ?thesis by (simp add: load_text_same_key)
  next
    case False
    then have "cacheRequest request sfx \<noteq> cacheRequest request sfx'" by simp
    then show ?thesis by (rule load_text_other_key)
  qed
  finally show ?thesis .
qed

lemma load_object_fst:
  "fst (loadJsonObjectWithCache JSON_parse env key request sfx w)
     = (if \<not> truthy (visible_text env request w key sfx) then Inr None
        else map_sum id Some (parseJson JSON_parse (orElse (visible_text env request w key sfx) []) key))"
proof -
  obtain w1 where l: "loadJsonTextWithCache env key request sfx w
      = (Inr (visible_text env request w key sfx), w1)"
    using load_text_visible_text [of env key request sfx w]
    by (cases "loadJsonTextWithCache env key request sfx w") simp
  show ?thesis
    by (simp add: loadJsonObjectWithCache_def io_bind_def l io_return_def io_throw_def io_of_def
             split: sum.splits)
qed

lemma load_object_fst_cong:
  assumes "visible_text env request w1 key sfx = visible_text env request w2 key sfx"
  shows "fst (loadJsonObjectWithCache JSON_parse env key request sfx w1)
           = fst (loadJsonObjectWithCache JSON_parse env key request sfx w2)"
  by (simp only: load_object_fst assms)

lemma is_digit_plain:
  "is_digit ch \<Longrightarrow> url_plain_char ch"
  by (simp add: is_digit_def url_plain_char_def)

lemma digits_of_plain:
  "list_all url_plain_char (digits_of n)"
proof (induction n rule: digits_of.induct)
  case (1 n)
  have d: "\<And>k :: nat. k < 10 \<Longrightarrow> url_plain_char (char_of (48 + k))"
    by (simp add: url_plain_char_def)
  show ?case
  proof (cases "n < 10")
    case True
    then show ?thesis by (subst digits_of.simps) (simp add: d)
  next
    case False
    with 1 have "list_all url_plain_char (digits_of (n div 10))" by simp
    with False show ?thesis by (subst digits_of.simps) (simp add: d)
  qed
qed

lemma String_of_plain:
  "list_all url_plain_char (String_of n)"
proof -
  have "url_plain_char CHR ''-''" by code_simp
  then show ?thesis by (simp add: String_of_def digits_of_plain)
qed

lemma date_plain:
  assumes "isDateString d"
  shows "list_all url_plain_char d"
proof -
  from assms have re: "DATE_RE d"
    by (cases "DATE_RE d") (simp_all add: isDateString_def)
  have dash: "url_plain_char CHR ''-''" by code_simp
  from re have len: "length d = 10"
    and a: "list_all is_digit (take 4 d)" and b: "list_all is_digit (take 2 (drop 5 d))"
    and c: "list_all is_digit (drop 8 d)" and d4: "d ! 4 = CHR ''-''" and d7: "d ! 7 = CHR ''-''"
    by (simp_all add: DATE_RE_def)
  have s2: "drop 4 d = d ! 4 # drop 5 d"
    using len Cons_nth_drop_Suc [of 4 d] by simp
  have s3: "take 2 (drop 5 d) @ drop 7 d = drop 5 d"
    using append_take_drop_id [of 2 "drop 5 d"] by simp
  have s4: "drop 7 d = d ! 7 # drop 8 d"
    using len Cons_nth_drop_Suc [of 7 d] by simp
  have "take 4 d @ [d ! 4] @ take 2 (drop 5 d) @ [d ! 7] @ drop 8 d
          = take 4 d @ (d ! 4 # (take 2 (drop 5 d) @ (d ! 7 # drop 8 d)))"
    by simp
  also have "\<dots> = take 4 d @ (d ! 4 # (take 2 (drop 5 d) @ drop 7 d))"
    by (simp only: s4)
  also have "\<dots> = take 4 d @ (d ! 4 # drop 5 d)"
    by (simp only: s3)
  also have "\<dots> = take 4 d @ drop 4 d"
    by (simp only: s2)
  also have "\<dots> = d"
    by (rule append_take_drop_id)
  finally have split: "d = take 4 d @ [d ! 4] @ take 2 (drop 5 d) @ [d ! 7] @ drop 8 d"
    by (rule sym)
  have "list_all url_plain_char (take 4 d @ [d ! 4] @ take 2 (drop 5 d) @ [d ! 7] @ drop 8 d)"
    using a b c dash by (auto simp: d4 d7 list_all_iff intro: is_digit_plain)
  then show ?thesis by (subst split)
qed
lemma page_suffix_plain:
  assumes "list_all url_plain_char d"
  shows "list_all url_plain_char (''snapshot-skills-page/'' @ d @ ''/'' @ String_of pg)"
proof -
  have "list_all url_plain_char ''snapshot-skills-page/''" "list_all url_plain_char ''/''"
    by code_simp+
  with assms show ?thesis by (simp add: String_of_plain)
qed

lemma manifest_suffix_plain:
  assumes "list_all url_plain_char d"
  shows "list_all url_plain_char (''snapshot-skills-manifest/'' @ d)"
proof -
  have "list_all url_plain_char ''snapshot-skills-manifest/''"
    by code_simp
  with assms show ?thesis by simp
qed

lemma lookup_suffix_plain:
  assumes "list_all url_plain_char d"
  shows "list_all url_plain_char (''snapshot-skill-lookup/'' @ d)"
proof -
  have "list_all url_plain_char ''snapshot-skill-lookup/''"
    by code_simp
  with assms show ?thesis by simp
qed

lemma page_load_stable:
  assumes "list_all url_plain_char d"
  shows "fst (loadSnapshotSkillsPage P env d pg request
          (snd (loadSnapshotSkillsPage P env d pg' request w)))
     = fst (loadSnapshotSkillsPage P env d pg request w)"
proof -
  have k: "cacheRequest request (''snapshot-skills-page/'' @ d @ ''/'' @ String_of pg')
             = cacheRequest request (''snapshot-skills-page/'' @ d @ ''/'' @ String_of pg)
           \<longrightarrow> SNAPSHOT_SKILLS_PAGE_KEY d pg' = SNAPSHOT_SKILLS_PAGE_KEY d pg"
    unfolding cacheRequest_plain [OF page_suffix_plain [OF assms]]
    by (simp add: SNAPSHOT_SKILLS_PAGE_KEY_def)
  show ?thesis
    unfolding loadSnapshotSkillsPage_def
    by (rule load_object_fst_cong, rule load_object_visible, rule k)
qed

lemma referenced_row_cong:
  assumes "\<And>pg. fst (loadSnapshotSkillsPage P env d pg request w1)
                  = fst (loadSnapshotSkillsPage P env d pg request w2)"
  shows "resolved_items P env d request w1 rawPageSize selected
           = resolved_items P env d request w2 rawPageSize selected"
  by (simp add: resolved_items_def referenced_row_def assms)

lemma resolved_items_Cons:
  "resolved_items P env d request w rawPageSize ((ident, entry) # selected)
     = (case referenced_row P env d request w entry of
          None \<Rightarrow> resolved_items P env d request w rawPageSize selected
        | Some raw \<Rightarrow> fallback_item rawPageSize ident entry raw
                        # resolved_items P env d request w rawPageSize selected)"
  by (simp add: resolved_items_def split: option.splits)

lemma resolve_selected_items:
  assumes "list_all url_plain_char d"
    and "resolve_selected P env d request rawPageSize selected pageCache items w = (Inr out, w')"
    and "\<And>pg p. pageCache pg = Some p \<Longrightarrow>
           \<exists>l. fst (loadSnapshotSkillsPage P env d pg request w) = Inr l \<and> orElse l [] = p"
  shows "out = items @ resolved_items P env d request w rawPageSize selected
         \<and> (\<forall>pg. fst (loadSnapshotSkillsPage P env d pg request w')
                   = fst (loadSnapshotSkillsPage P env d pg request w))"
  using assms
proof (induction selected arbitrary: pageCache items w)
  case Nil
  then show ?case by (simp add: io_return_def resolved_items_def)
next
  case (Cons a selected)
  obtain ident entry where a: "a = (ident, entry)" by (cases a)
  let ?L = "\<lambda>pg w. loadSnapshotSkillsPage P env d pg request w"
  show ?case
  proof (cases "pageCache (lk_page entry)")
    case (Some sp)
    from Cons.prems(3) [OF Some] obtain l where l: "fst (?L (lk_page entry) w) = Inr l" "orElse l [] = sp"
      by blast
    then have row: "referenced_row P env d request w entry = at_index sp (lk_index entry)"
      by (simp add: referenced_row_def)
    show ?thesis
    proof (cases "at_index sp (lk_index entry)")
      case None
      with Cons.prems(2) Some a
      have "resolve_selected P env d request rawPageSize selected pageCache items w = (Inr out, w')"
        by (simp add: io_bind_def io_return_def)
      from Cons.IH [OF Cons.prems(1) this Cons.prems(3)] show ?thesis
        by (simp add: a resolved_items_Cons row None)
    next
      case (Some raw)
      with Cons.prems(2) \<open>pageCache (lk_page entry) = Some sp\<close> a
      have "resolve_selected P env d request rawPageSize selected pageCache
              (items @ [fallback_item rawPageSize ident entry raw]) w = (Inr out, w')"
        by (simp add: io_bind_def io_return_def)
      from Cons.IH [OF Cons.prems(1) this Cons.prems(3)] show ?thesis
        by (simp add: a resolved_items_Cons row Some)
    qed
  next
    case None
    obtain r w1 where L: "?L (lk_page entry) w = (r, w1)"
      by (cases "?L (lk_page entry) w")
    have w1: "w1 = snd (?L (lk_page entry) w)" by (simp add: L)
    have stable: "\<And>pg. fst (?L pg w1) = fst (?L pg w)"
      unfolding w1 by (rule page_load_stable [OF Cons.prems(1)])
    show ?thesis
    proof (cases r)
      case (Inl e)
      with Cons.prems(2) None a L show ?thesis
        by (simp add: io_bind_def io_return_def)
    next
      case (Inr loaded)
      let ?sp = "orElse loaded []"
      let ?pc = "pageCache(lk_page entry \<mapsto> ?sp)"
      have inv: "\<And>pg p. ?pc pg = Some p \<Longrightarrow>
                   \<exists>l. fst (?L pg w1) = Inr l \<and> orElse l [] = p"
      proof -
        fix pg p
        assume h: "?pc pg = Some p"
        show "\<exists>l. fst (?L pg w1) = Inr l \<and> orElse l [] = p"
        proof (cases "pg = lk_page entry")
          case True
          with h have "p = ?sp" by simp
          moreover have "fst (?L pg w1) = Inr loaded"
            using stable [of pg] L Inr True by simp
          ultimately show ?thesis by simp
        next
          case False
          with h have "pageCache pg = Some p" by simp
          from Cons.prems(3) [OF this] stable [of pg] show ?thesis by simp
        qed
      qed
      have row: "referenced_row P env d request w entry = at_index ?sp (lk_index entry)"
        using L Inr by (simp add: referenced_row_def)
      have same: "resolved_items P env d request w1 rawPageSize selected
                    = resolved_items P env d request w rawPageSize selected"
        by (rule referenced_row_cong) (rule stable)
      show ?thesis
      proof (cases "at_index ?sp (lk_index entry)")
        case None
        with Cons.prems(2) \<open>pageCache (lk_page entry) = None\<close> a L Inr
        have "resolve_selected P env d request rawPageSize selected ?pc items w1 = (Inr out, w')"
          by (simp add: io_bind_def io_return_def)
        from Cons.IH [OF Cons.prems(1) this inv] show ?thesis
          by (simp add: a resolved_items_Cons row None same stable)
      next
        case (Some raw)
        with Cons.prems(2) \<open>pageCache (lk_page entry) = None\<close> a L Inr
        have "resolve_selected P env d request rawPageSize selected ?pc
                (items @ [fallback_item rawPageSize ident entry raw]) w1 = (Inr out, w')"
          by (simp add: io_bind_def io_return_def)
        from Cons.IH [OF Cons.prems(1) this inv] show ?thesis
          by (simp add: a resolved_items_Cons row Some same stable)
      qed
    qed
  qed
qed
lemma page_load_after_lookup:
  assumes "list_all url_plain_char d"
  shows "fst (loadSnapshotSkillsPage P env d pg request (snd (loadSnapshotSkillLookup P env d request w)))
     = fst (loadSnapshotSkillsPage P env d pg request w)"
proof -
  have k: "cacheRequest request (''snapshot-skill-lookup/'' @ d)
             = cacheRequest request (''snapshot-skills-page/'' @ d @ ''/'' @ String_of pg)
           \<longrightarrow> SNAPSHOT_SKILL_LOOKUP_KEY d = SNAPSHOT_SKILLS_PAGE_KEY d pg"
    unfolding cacheRequest_plain [OF page_suffix_plain [OF assms]]
              cacheRequest_plain [OF lookup_suffix_plain [OF assms]]
    by simp
  show ?thesis
    unfolding loadSnapshotSkillsPage_def loadSnapshotSkillLookup_def
    by (rule load_object_fst_cong, rule load_object_visible, rule k)
qed

lemma page_load_after_manifest:
  assumes "list_all url_plain_char d"
  shows "fst (loadSnapshotSkillsPage P env d pg request (snd (loadSnapshotSkillsManifest P env d request w)))
     = fst (loadSnapshotSkillsPage P env d pg request w)"
proof -
  have k: "cacheRequest request (''snapshot-skills-manifest/'' @ d)
             = cacheRequest request (''snapshot-skills-page/'' @ d @ ''/'' @ String_of pg)
           \<longrightarrow> SNAPSHOT_SKILLS_MANIFEST_KEY d = SNAPSHOT_SKILLS_PAGE_KEY d pg"
    unfolding cacheRequest_plain [OF page_suffix_plain [OF assms]]
              cacheRequest_plain [OF manifest_suffix_plain [OF assms]]
    by simp
  show ?thesis
    unfolding loadSnapshotSkillsPage_def loadSnapshotSkillsManifest_def
    by (rule load_object_fst_cong, rule load_object_visible, rule k)
qed

lemma manifest_load_after_lookup:
  assumes "list_all url_plain_char d"
  shows "fst (loadSnapshotSkillsManifest P env d request (snd (loadSnapshotSkillLookup P env d request w)))
     = fst (loadSnapshotSkillsManifest P env d request w)"
proof -
  have k: "cacheRequest request (''snapshot-skill-lookup/'' @ d)
             = cacheRequest request (''snapshot-skills-manifest/'' @ d)
           \<longrightarrow> SNAPSHOT_SKILL_LOOKUP_KEY d = SNAPSHOT_SKILLS_MANIFEST_KEY d"
    unfolding cacheRequest_plain [OF manifest_suffix_plain [OF assms]]
              cacheRequest_plain [OF lookup_suffix_plain [OF assms]]
    by simp
  show ?thesis
    unfolding loadSnapshotSkillsManifest_def loadSnapshotSkillLookup_def
    by (rule load_object_fst_cong, rule load_object_visible, rule k)
qed

lemma length_sort_entries:
  "length (sort_entries P sortParam entries) = length entries"
  by (simp add: sort_entries_def length_Array_sort)

lemma length_slice_page:
  assumes "0 \<le> start" and "0 \<le> n"
  shows "int (length (slice xs start (start + n))) = max 0 (min n (int (length xs) - start))"
  using assms by (simp add: slice_page)

lemma sli_id_fallback_item:
  "sli_id (fallback_item rawPageSize ident entry raw) = ident"
  by (simp add: fallback_item_def Let_def)

lemma resolved_items_ids:
  "map sli_id (resolved_items P env d request w rawPageSize selected)
     = map fst (filter (\<lambda>(ident, entry). referenced_row P env d request w entry \<noteq> None) selected)"
  by (induction selected)
     (auto simp: resolved_items_def sli_id_fallback_item split: option.splits)

lemma length_resolved_items:
  "length (resolved_items P env d request w rawPageSize selected)
     = length (filter (\<lambda>(ident, entry). referenced_row P env d request w entry \<noteq> None) selected)"
  using resolved_items_ids [of P env d request w rawPageSize selected, THEN arg_cong, of length]
  by simp

lemma search_fallback_payload:
  assumes "search_fallback P env request rlHeaders query sortParam pg pageSize d w = (Inr resp, w')"
    and plain: "list_all url_plain_char d"
  shows "(fst (loadSnapshotSkillLookup P env d request w) = Inr None
            \<and> resp = json (ErrorBody ''Search index unavailable'') 503 rlHeaders)
         \<or> (\<exists>l sm.
               fst (loadSnapshotSkillLookup P env d request w) = Inr (Some l)
             \<and> fst (loadSnapshotSkillsManifest P env d request w) = Inr sm
             \<and> resp = json (SearchFallback
                  \<lparr>sr_items = resolved_items P env d request w (manifest_page_size sm)
                                (slice (sort_entries P sortParam (matching_entries P l query))
                                   ((pg - 1) * pageSize) ((pg - 1) * pageSize + pageSize)),
                   sr_page = pg,
                   sr_page_size = pageSize,
                   sr_total = int (length (matching_entries P l query)),
                   sr_snapshot_date = d\<rparr>) 200
                  (spread rlHeaders [(''cache-control'', ''public, max-age=30, s-maxage=30'')]))"
proof -
  obtain x w1 where lk: "loadSnapshotSkillLookup P env d request w = (Inr x, w1)"
    and rest: "(case x of
         None \<Rightarrow> io_return (json (ErrorBody ''Search index unavailable'') 503 rlHeaders)
       | Some l \<Rightarrow>
           (let sortedEntries = sort_entries P sortParam (matching_entries P l query);
                start = (pg - 1) * pageSize;
                selected = slice sortedEntries start (start + pageSize)
            in io_bind (loadSnapshotSkillsManifest P env d request) (\<lambda>snapshotManifest.
                 io_bind (resolve_selected P env d request (manifest_page_size snapshotManifest)
                            selected Map.empty []) (\<lambda>items.
                   io_return (json (SearchFallback
                      \<lparr>sr_items = items,
                       sr_page = pg,
                       sr_page_size = pageSize,
                       sr_total = int (length sortedEntries),
                       sr_snapshot_date = d\<rparr>) 200
                      (spread rlHeaders [(''cache-control'', ''public, max-age=30, s-maxage=30'')])))))) w1
        = (Inr resp, w')"
    using assms(1) unfolding search_fallback_def by (elim io_bind_cases) simp_all
  have w1: "w1 = snd (loadSnapshotSkillLookup P env d request w)" by (simp add: lk)
  show ?thesis
  proof (cases x)
    case None
    with rest lk show ?thesis by (simp add: io_return_def)
  next
    case (Some l)
    let ?selected = "slice (sort_entries P sortParam (matching_entries P l query))
                       ((pg - 1) * pageSize) ((pg - 1) * pageSize + pageSize)"
    from rest Some
    have b: "io_bind (loadSnapshotSkillsManifest P env d request) (\<lambda>snapshotManifest.
                 io_bind (resolve_selected P env d request (manifest_page_size snapshotManifest)
                            ?selected Map.empty []) (\<lambda>items.
                   io_return (json (SearchFallback
                      \<lparr>sr_items = items,
                       sr_page = pg,
                       sr_page_size = pageSize,
                       sr_total = int (length (sort_entries P sortParam (matching_entries P l query))),
                       sr_snapshot_date = d\<rparr>) 200
                      (spread rlHeaders [(''cache-control'', ''public, max-age=30, s-maxage=30'')])))) w1
              = (Inr resp, w')"
      by (simp add: Let_def)
    from b obtain sm w2 items w3 where
      m: "loadSnapshotSkillsManifest P env d request w1 = (Inr sm, w2)"
      and rs: "resolve_selected P env d request (manifest_page_size sm) ?selected Map.empty [] w2
                 = (Inr items, w3)"
      and out: "io_return (json (SearchFallback
                      \<lparr>sr_items = items,
                       sr_page = pg,
                       sr_page_size = pageSize,
                       sr_total = int (length (sort_entries P sortParam (matching_entries P l query))),
                       sr_snapshot_date = d\<rparr>) 200
                      (spread rlHeaders [(''cache-control'', ''public, max-age=30, s-maxage=30'')])) w3
                = (Inr resp, w')"
      by (elim io_bind_cases) simp_all
    have w2: "w2 = snd (loadSnapshotSkillsManifest P env d request w1)" by (simp add: m)
    have pages: "\<And>pg. fst (loadSnapshotSkillsPage P env d pg request w2)
                      = fst (loadSnapshotSkillsPage P env d pg request w)"
      unfolding w2 w1 by (simp only: page_load_after_manifest [OF plain] page_load_after_lookup [OF plain])
    have "items = [] @ resolved_items P env d request w2 (manifest_page_size sm) ?selected"
      using resolve_selected_items [OF plain rs] by simp
    also have "resolved_items P env d request w2 (manifest_page_size sm) ?selected
                 = resolved_items P env d request w (manifest_page_size sm) ?selected"
      by (rule referenced_row_cong) (rule pages)
    finally have items: "items = resolved_items P env d request w (manifest_page_size sm) ?selected"
      by simp
    have sm: "fst (loadSnapshotSkillsManifest P env d request w) = Inr sm"
      using manifest_load_after_lookup [OF plain, of P env request w] m by (simp add: w1 [symmetric])
    from out have "resp = json (SearchFallback
                      \<lparr>sr_items = items,
                       sr_page = pg,
                       sr_page_size = pageSize,
                       sr_total = int (length (matching_entries P l query)),
                       sr_snapshot_date = d\<rparr>) 200
                      (spread rlHeaders [(''cache-control'', ''public, max-age=30, s-maxage=30'')])"
      by (simp add: io_return_def length_sort_entries)
    with items sm lk Some show ?thesis by simp
  qed
qed

end
